theory Spec2Isabelle
  imports Main "HOL-Library.AList"
begin

section \<open>The peer connection manager of \<^verbatim>\<open>src/lib/webrtc.ts\<close>\<close>

text \<open>
  This theory embeds the class \<^verbatim>\<open>WebRTCManager\<close> of \<^verbatim>\<open>src/lib/webrtc.ts\<close>.
  The class drives browser objects (\<^verbatim>\<open>RTCPeerConnection\<close>, \<^verbatim>\<open>RTCDataChannel\<close>,
  \<^verbatim>\<open>MediaStreamTrack\<close>) and the socket service of \<^verbatim>\<open>lib/socket.ts\<close>. Those objects
  are shared by reference between the \<^verbatim>\<open>peers\<close> map, the closures installed on them and the
  timers, so the connections and data channels live in an explicit store that is part of
  the state; whatever the manager tells the outside world (signaling messages sent,
  \<^verbatim>\<open>console.error\<close> lines, events handed to listeners) is appended to traces kept in the
  same state.

  Every method and every handler is modelled as one atomic state transformer: the
  \<^verbatim>\<open>await\<close> points inside a handler are not interleaving points here.
  \<^verbatim>\<open>console.log\<close> output is not modelled.
\<close>

subsection \<open>The browser objects the manager drives\<close>

text \<open>\<^verbatim>\<open>RTCSignalingState\<close> and \<^verbatim>\<open>RTCPeerConnectionState\<close>, the two enumerations the
  source reads through \<^verbatim>\<open>connection.signalingState\<close> and \<^verbatim>\<open>connection.connectionState\<close>.\<close>

datatype signalingState =
  Stable | HaveLocalOffer | HaveRemoteOffer | HaveLocalPranswer | HaveRemotePranswer | SigClosed

datatype connectionState =
  ConnNew | Connecting | Connected | Disconnected | Failed | ConnClosed

datatype sdpType = Offer | Answer | Pranswer | Rollback

record description =
  dtype :: sdpType
  sdp :: string

datatype trackKind = Audio | Video

record track =
  tid :: string
  kind :: trackKind
  ended :: bool

text \<open>A \<^verbatim>\<open>MediaStream\<close> is used only through \<^verbatim>\<open>getTracks()\<close>.\<close>

type_synonym mediaStream = "track list"

text \<open>An \<^verbatim>\<open>RTCRtpSender\<close>; its \<^verbatim>\<open>track\<close> may be \<^verbatim>\<open>null\<close>.\<close>

record sender =
  strack :: "track option"

text \<open>An \<^verbatim>\<open>RTCIceCandidateInit\<close> is opaque to the manager.\<close>

type_synonym candidate = string

datatype error =
  InvalidStateError | InvalidAccessError | OperationError | TypeError | Error string

text \<open>
  The part of an \<^verbatim>\<open>RTCPeerConnection\<close> that the manager reads or changes.
  \<open>addIceCalls\<close> lists every candidate handed to \<^verbatim>\<open>addIceCandidate\<close>, in call order;
  \<open>remoteCandidates\<close> lists those the connection accepted; \<open>restarts\<close> counts the calls of
  \<^verbatim>\<open>restartIce()\<close>; \<open>handlerPeerId\<close> is the \<^verbatim>\<open>peerId\<close> captured by the closures that
  \<^verbatim>\<open>createPeer\<close> installs on the connection.
\<close>

record connection =
  signalingState :: signalingState
  connectionState :: connectionState
  pendingLocal :: "description option"
  currentLocal :: "description option"
  pendingRemote :: "description option"
  currentRemote :: "description option"
  senders :: "sender list"
  addIceCalls :: "candidate list"
  remoteCandidates :: "candidate list"
  restarts :: nat
  handlerPeerId :: string

definition newConnection :: "string \<Rightarrow> connection" where
  "newConnection peerId =
     \<lparr>signalingState = Stable, connectionState = ConnNew,
      pendingLocal = None, currentLocal = None, pendingRemote = None, currentRemote = None,
      senders = [], addIceCalls = [], remoteCandidates = [], restarts = 0,
      handlerPeerId = peerId\<rparr>"

text \<open>\<^verbatim>\<open>connection.remoteDescription\<close>: the pending remote description if there is one,
  the current one otherwise.\<close>

definition remoteDescription :: "connection \<Rightarrow> description option" where
  "remoteDescription c =
     (case pendingRemote c of Some d \<Rightarrow> Some d | None \<Rightarrow> currentRemote c)"

text \<open>
  The signaling state machine of the browser (W3C WebRTC, ``set a session description''):
  a description that does not fit the current state is rejected with
  \<^verbatim>\<open>InvalidStateError\<close> and leaves the connection as it was.
\<close>

definition setLocalDescription :: "description \<Rightarrow> connection \<Rightarrow> error + connection" where
  "setLocalDescription d c =
     (case dtype d of
        Offer \<Rightarrow>
          if signalingState c = Stable \<or> signalingState c = HaveLocalOffer
          then Inr (c\<lparr>signalingState := HaveLocalOffer, pendingLocal := Some d\<rparr>)
          else Inl InvalidStateError
      | Answer \<Rightarrow>
          if signalingState c = HaveRemoteOffer \<or> signalingState c = HaveLocalPranswer
          then Inr (c\<lparr>signalingState := Stable, currentLocal := Some d,
                      currentRemote := pendingRemote c,
                      pendingLocal := None, pendingRemote := None\<rparr>)
          else Inl InvalidStateError
      | Pranswer \<Rightarrow>
          if signalingState c = HaveRemoteOffer \<or> signalingState c = HaveLocalPranswer
          then Inr (c\<lparr>signalingState := HaveLocalPranswer, pendingLocal := Some d\<rparr>)
          else Inl InvalidStateError
      | Rollback \<Rightarrow>
          if signalingState c = HaveLocalOffer \<or> signalingState c = HaveRemoteOffer
          then Inr (c\<lparr>signalingState := Stable, pendingLocal := None, pendingRemote := None\<rparr>)
          else Inl InvalidStateError)"

definition setRemoteDescription :: "description \<Rightarrow> connection \<Rightarrow> error + connection" where
  "setRemoteDescription d c =
     (case dtype d of
        Offer \<Rightarrow>
          if signalingState c = Stable \<or> signalingState c = HaveRemoteOffer
          then Inr (c\<lparr>signalingState := HaveRemoteOffer, pendingRemote := Some d\<rparr>)
          else if signalingState c = HaveLocalOffer
          then Inr (c\<lparr>signalingState := HaveRemoteOffer, pendingLocal := None,
                      pendingRemote := Some d\<rparr>)
          else Inl InvalidStateError
      | Answer \<Rightarrow>
          if signalingState c = HaveLocalOffer \<or> signalingState c = HaveRemotePranswer
          then Inr (c\<lparr>signalingState := Stable, currentRemote := Some d,
                      currentLocal := pendingLocal c,
                      pendingLocal := None, pendingRemote := None\<rparr>)
          else Inl InvalidStateError
      | Pranswer \<Rightarrow>
          if signalingState c = HaveLocalOffer \<or> signalingState c = HaveRemotePranswer
          then Inr (c\<lparr>signalingState := HaveRemotePranswer, pendingRemote := Some d\<rparr>)
          else Inl InvalidStateError
      | Rollback \<Rightarrow>
          if signalingState c = HaveLocalOffer \<or> signalingState c = HaveRemoteOffer
          then Inr (c\<lparr>signalingState := Stable, pendingLocal := None, pendingRemote := None\<rparr>)
          else Inl InvalidStateError)"

definition createOffer :: "connection \<Rightarrow> error + description" where
  "createOffer c =
     (if signalingState c = Stable \<or> signalingState c = HaveLocalOffer
      then Inr \<lparr>dtype = Offer, sdp = ''offer''\<rparr>
      else Inl InvalidStateError)"

definition createAnswer :: "connection \<Rightarrow> error + description" where
  "createAnswer c =
     (if signalingState c = HaveRemoteOffer \<or> signalingState c = HaveLocalPranswer
      then Inr \<lparr>dtype = Answer, sdp = ''answer''\<rparr>
      else Inl InvalidStateError)"

text \<open>\<^verbatim>\<open>connection.close()\<close> never throws.\<close>

definition close :: "connection \<Rightarrow> connection" where
  "close c = c\<lparr>signalingState := SigClosed, connectionState := ConnClosed\<rparr>"

text \<open>\<^verbatim>\<open>connection.restartIce()\<close> only records the request.\<close>

definition connRestartIce :: "connection \<Rightarrow> connection" where
  "connRestartIce c = c\<lparr>restarts := Suc (restarts c)\<rparr>"

text \<open>
  What the surroundings decide: which candidates the browser rejects, what a registered
  listener does when it is called (here: which listeners it registers or removes through
  \<^verbatim>\<open>onEvent\<close> and \<^verbatim>\<open>offEvent\<close>), and the value of \<^verbatim>\<open>socketService.getSocketId()\<close>.
\<close>

datatype event = StreamEvent string | ChatEvent string | PeerRemoved string

datatype action = Subscribe nat | Unsubscribe nat

record env =
  rejects :: "candidate \<Rightarrow> bool"
  callback :: "nat \<Rightarrow> event \<Rightarrow> action list"
  socketId :: "string option"

text \<open>\<^verbatim>\<open>connection.addIceCandidate(new RTCIceCandidate(c))\<close>: the call is recorded; it fails
  on a closed connection, without a remote description, and for a candidate the browser
  rejects.\<close>

definition addIceCandidate :: "env \<Rightarrow> candidate \<Rightarrow> connection \<Rightarrow> error option \<times> connection" where
  "addIceCandidate e cand c =
     (let c' = c\<lparr>addIceCalls := addIceCalls c @ [cand]\<rparr> in
      if signalingState c = SigClosed \<or> remoteDescription c = None then (Some InvalidStateError, c')
      else if rejects e cand then (Some OperationError, c')
      else (None, c'\<lparr>remoteCandidates := remoteCandidates c @ [cand]\<rparr>))"

text \<open>The first sender that carries a track of the given kind:
  \<^verbatim>\<open>getSenders().find(s => s.track && s.track.kind === track.kind)\<close>, as an index.\<close>

fun findSender :: "trackKind \<Rightarrow> sender list \<Rightarrow> nat option" where
  "findSender k [] = None"
| "findSender k (s # ss) =
     (case strack s of
        Some t \<Rightarrow> if kind t = k then Some 0 else map_option Suc (findSender k ss)
      | None \<Rightarrow> map_option Suc (findSender k ss))"

text \<open>\<^verbatim>\<open>connection.addTrack(track, stream)\<close> throws on a closed connection and for a track
  that already has a sender.\<close>

definition addTrack :: "track \<Rightarrow> connection \<Rightarrow> error + connection" where
  "addTrack t c =
     (if signalingState c = SigClosed then Inl InvalidStateError
      else if Some t \<in> set (map strack (senders c)) then Inl InvalidAccessError
      else Inr (c\<lparr>senders := senders c @ [\<lparr>strack = Some t\<rparr>]\<rparr>))"

text \<open>\<^verbatim>\<open>sender.replaceTrack(track)\<close> on the sender at index \<open>i\<close>; the promise is not awaited
  by the source, so a rejection (closed connection) is lost and changes nothing.\<close>

definition replaceTrack :: "nat \<Rightarrow> track \<Rightarrow> connection \<Rightarrow> connection" where
  "replaceTrack i t c =
     (if signalingState c = SigClosed then c
      else c\<lparr>senders := (senders c)[i := \<lparr>strack = Some t\<rparr>]\<rparr>)"

subsection \<open>The manager\<close>

text \<open>The interface \<^verbatim>\<open>PeerConnection\<close>. \<open>connection\<close> and \<open>dataChannel\<close> are references
  into the store; \<open>pendingCandidates\<close> is optional in the source (\<open>None\<close> is
  \<^verbatim>\<open>undefined\<close>), and an entry \<open>None\<close> of the list is a \<^verbatim>\<open>null\<close> candidate.\<close>

record peer =
  peerId :: string
  connection :: nat
  stream :: "mediaStream option"
  dataChannel :: "nat option"
  pendingCandidates :: "candidate option list option"

datatype signal =
  WebRTCOffer string description string
| WebRTCAnswer string description string
| WebRTCIceCandidate string candidate string

text \<open>
  The fields of the class (\<open>peers\<close> to \<open>eventListeners\<close>; a JavaScript \<^verbatim>\<open>Map\<close> keeps
  insertion order, so \<open>peers\<close> is an association list), then the store of connections and
  of data channels (\<open>chanClosed\<close>: the channel has been closed), the pending
  \<^verbatim>\<open>setTimeout\<close> callbacks (each holds the \<^verbatim>\<open>peerId\<close> and the connection it captured)
  and the traces: messages sent through the socket service, \<^verbatim>\<open>console.error\<close> lines
  (each named by the fixed part of its message), events passed to \<^verbatim>\<open>emitEvent\<close> and the
  calls of listeners. A listener is identified by a number; what it does when called is
  given by the surroundings. An address of the store that is not allocated yet holds a
  closed connection.

  The handlers \<^verbatim>\<open>ontrack\<close>, \<^verbatim>\<open>ondatachannel\<close> and \<^verbatim>\<open>onicecandidate\<close> that \<^verbatim>\<open>createPeer\<close>
  installs, and the data channel's \<^verbatim>\<open>onmessage\<close>, are outside the model.
\<close>

record manager =
  peers :: "(string \<times> peer) list"
  localStream :: "mediaStream option"
  screenStream :: "mediaStream option"
  userId :: string
  roomId :: string
  eventListeners :: "nat list"
  conns :: "nat \<Rightarrow> connection"
  nextConn :: nat
  chanClosed :: "nat \<Rightarrow> bool"
  nextChan :: nat
  timers :: "(string \<times> nat) list"
  sent :: "signal list"
  errors :: "string list"
  emitted :: "event list"
  delivered :: "(nat \<times> event) list"

text \<open>The private constructor.\<close>

definition constructor :: "string \<Rightarrow> string \<Rightarrow> manager" where
  "constructor uid rid =
     \<lparr>peers = [], localStream = None, screenStream = None, userId = uid, roomId = rid,
      eventListeners = [], conns = (\<lambda>_. close (newConnection [])), nextConn = 0,
      chanClosed = (\<lambda>_. False), nextChan = 0, timers = [], sent = [], errors = [],
      emitted = [], delivered = []\<rparr>"

definition setConn :: "nat \<Rightarrow> connection \<Rightarrow> manager \<Rightarrow> manager" where
  "setConn cid c m = m\<lparr>conns := (conns m)(cid := c)\<rparr>"

definition logError :: "string \<Rightarrow> manager \<Rightarrow> manager" where
  "logError msg m = m\<lparr>errors := errors m @ [msg]\<rparr>"

text \<open>JavaScript truthiness of a \<^verbatim>\<open>string | undefined\<close>.\<close>

fun truthy :: "string option \<Rightarrow> bool" where
  "truthy None = False"
| "truthy (Some s) = (s \<noteq> [])"

subsection \<open>The event bus\<close>

definition onEvent :: "nat \<Rightarrow> manager \<Rightarrow> manager" where
  "onEvent l m = m\<lparr>eventListeners := eventListeners m @ [l]\<rparr>"

text \<open>\<^verbatim>\<open>indexOf\<close> followed by \<^verbatim>\<open>splice(index, 1)\<close> removes the first occurrence.\<close>

definition offEvent :: "nat \<Rightarrow> manager \<Rightarrow> manager" where
  "offEvent l m = m\<lparr>eventListeners := remove1 l (eventListeners m)\<rparr>"

fun runAction :: "manager \<Rightarrow> action \<Rightarrow> manager" where
  "runAction m (Subscribe l) = onEvent l m"
| "runAction m (Unsubscribe l) = offEvent l m"

text \<open>
  \<^verbatim>\<open>this.eventListeners.forEach(callback => callback(event))\<close>.
  \<^verbatim>\<open>Array.prototype.forEach\<close> reads the length once, then visits the indices
  \<open>0, 1, ..., len - 1\<close> of the live array, skipping an index that is no longer present.
\<close>

definition visit :: "env \<Rightarrow> event \<Rightarrow> manager \<Rightarrow> nat \<Rightarrow> manager" where
  "visit e ev m k =
     (if k < length (eventListeners m)
      then let l = eventListeners m ! k
           in foldl runAction (m\<lparr>delivered := delivered m @ [(l, ev)]\<rparr>) (callback e l ev)
      else m)"

definition emitEvent :: "env \<Rightarrow> event \<Rightarrow> manager \<Rightarrow> manager" where
  "emitEvent e ev m =
     foldl (visit e ev) (m\<lparr>emitted := emitted m @ [ev]\<rparr>) [0..<length (eventListeners m)]"

subsection \<open>Removing and creating peers\<close>

text \<open>The two \<^verbatim>\<open>close()\<close> calls that \<^verbatim>\<open>removePeer\<close> and \<^verbatim>\<open>cleanup\<close> make on a peer.\<close>

definition closePeer :: "manager \<Rightarrow> peer \<Rightarrow> manager" where
  "closePeer m p =
     (let m1 = setConn (connection p) (close (conns m (connection p))) m
      in case dataChannel p of
           None \<Rightarrow> m1
         | Some ch \<Rightarrow> m1\<lparr>chanClosed := (chanClosed m1)(ch := True)\<rparr>)"

definition removePeer :: "env \<Rightarrow> string \<Rightarrow> manager \<Rightarrow> manager" where
  "removePeer e pid m =
     (case map_of (peers m) pid of
        None \<Rightarrow> m
      | Some p \<Rightarrow>
          let m1 = closePeer m p;
              m2 = m1\<lparr>peers := AList.delete pid (peers m1)\<rparr>
          in emitEvent e (PeerRemoved pid) m2)"

text \<open>The body of the \<^verbatim>\<open>forEach\<close> over the local tracks in \<^verbatim>\<open>createPeer\<close>.\<close>

definition addLocalTrack :: "nat \<Rightarrow> manager \<Rightarrow> track \<Rightarrow> manager" where
  "addLocalTrack cid m t =
     (case findSender (kind t) (senders (conns m cid)) of
        Some i \<Rightarrow> m
      | None \<Rightarrow>
          (case addTrack t (conns m cid) of
             Inl err \<Rightarrow> logError ''Error adding track'' m
           | Inr c' \<Rightarrow> setConn cid c' m))"

text \<open>\<^verbatim>\<open>connection.createDataChannel('chat', ...)\<close> allocates a channel; it throws on a
  closed connection.\<close>

definition createDataChannel :: "nat \<Rightarrow> manager \<Rightarrow> error + (nat \<times> manager)" where
  "createDataChannel cid m =
     (if signalingState (conns m cid) = SigClosed then Inl InvalidStateError
      else Inr (nextChan m,
                m\<lparr>chanClosed := (chanClosed m)(nextChan m := False),
                  nextChan := Suc (nextChan m)\<rparr>))"

definition sendOffer :: "env \<Rightarrow> string \<Rightarrow> description \<Rightarrow> manager \<Rightarrow> manager" where
  "sendOffer e pid offer m =
     (case socketId e of
        None \<Rightarrow> m
      | Some sid \<Rightarrow> if sid \<noteq> [] then m\<lparr>sent := sent m @ [WebRTCOffer pid offer sid]\<rparr> else m)"

text \<open>\<^verbatim>\<open>createPeer\<close> from the line ``WebRTC configuration'' on: a new connection, the
  local tracks, the data channel of an initiator, the entry in \<open>peers\<close>, the offer of an
  initiator.\<close>

definition buildPeer :: "env \<Rightarrow> string \<Rightarrow> bool \<Rightarrow> manager \<Rightarrow> (error + peer) \<times> manager" where
  "buildPeer e pid isInitiator m =
     (let cid = nextConn m;
          m0 = (setConn cid (newConnection pid) m)\<lparr>nextConn := Suc cid\<rparr>;
          m1 = (case localStream m0 of
                  None \<Rightarrow> m0
                | Some s \<Rightarrow> foldl (addLocalTrack cid) m0 s);
          (dc, m2) = (if isInitiator
                      then (case createDataChannel cid m1 of
                              Inl err \<Rightarrow> (None, logError ''Failed to create data channel'' m1)
                            | Inr (ch, m') \<Rightarrow> (Some ch, m'))
                      else (None, m1));
          p = \<lparr>peerId = pid, connection = cid, stream = None, dataChannel = dc,
               pendingCandidates = None\<rparr>;
          m3 = m2\<lparr>peers := AList.update pid p (peers m2)\<rparr>
      in if isInitiator
         then (case createOffer (conns m3 cid) of
                 Inl err \<Rightarrow> (Inl err, removePeer e pid (logError ''Error creating offer'' m3))
               | Inr offer \<Rightarrow>
                   (case setLocalDescription offer (conns m3 cid) of
                      Inl err \<Rightarrow> (Inl err, removePeer e pid (logError ''Error creating offer'' m3))
                    | Inr c' \<Rightarrow> (Inr p, sendOffer e pid offer (setConn cid c' m3))))
         else (Inr p, m3))"

definition createPeer :: "env \<Rightarrow> string \<Rightarrow> bool \<Rightarrow> manager \<Rightarrow> (error + peer) \<times> manager" where
  "createPeer e pid isInitiator m =
     (case map_of (peers m) pid of
        None \<Rightarrow> buildPeer e pid isInitiator m
      | Some existingPeer \<Rightarrow>
          let state = signalingState (conns m (connection existingPeer));
              cstate = connectionState (conns m (connection existingPeer))
          in if state = Stable \<and> cstate = Connected then (Inr existingPeer, m)
             else if state = SigClosed \<or> cstate = Failed \<or> cstate = Disconnected
             then buildPeer e pid isInitiator (removePeer e pid m)
             else (Inr existingPeer, m))"

subsection \<open>The candidate buffer\<close>

text \<open>One round of the loop of \<^verbatim>\<open>flushPendingIce\<close>: a \<^verbatim>\<open>null\<close> entry is passed over,
  a failure of \<^verbatim>\<open>addIceCandidate\<close> is logged.\<close>

definition addPending :: "env \<Rightarrow> nat \<Rightarrow> manager \<Rightarrow> candidate option \<Rightarrow> manager" where
  "addPending e cid m c =
     (case c of
        None \<Rightarrow> m
      | Some cand \<Rightarrow>
          (case addIceCandidate e cand (conns m cid) of
             (None, c') \<Rightarrow> setConn cid c' m
           | (Some err, c') \<Rightarrow> logError ''Error adding pending ICE candidate'' (setConn cid c' m)))"

text \<open>The peer passed to \<^verbatim>\<open>flushPendingIce\<close> is the object stored in \<open>peers\<close>; assigning
  to its field changes the stored entry.\<close>

definition flushPendingIce :: "env \<Rightarrow> peer \<Rightarrow> manager \<Rightarrow> manager" where
  "flushPendingIce e p m =
     (case pendingCandidates p of
        None \<Rightarrow> m
      | Some [] \<Rightarrow> m
      | Some (c # cs) \<Rightarrow>
          let m1 = foldl (addPending e (connection p)) m (c # cs)
          in m1\<lparr>peers := AList.map_entry (peerId p) (\<lambda>q. q\<lparr>pendingCandidates := Some []\<rparr>)
                            (peers m1)\<rparr>)"

subsection \<open>The signaling handlers\<close>

text \<open>The \<^verbatim>\<open>catch\<close> block of the offer handler.\<close>

definition offerCatch :: "env \<Rightarrow> string \<Rightarrow> manager \<Rightarrow> manager" where
  "offerCatch e from m =
     (let m' = logError ''Error handling offer'' m
      in if map_of (peers m') from \<noteq> None then removePeer e from m' else m')"

definition sendAnswer :: "env \<Rightarrow> string \<Rightarrow> description \<Rightarrow> manager \<Rightarrow> manager" where
  "sendAnswer e from answer m =
     (case socketId e of
        None \<Rightarrow> logError ''Socket ID not found'' m
      | Some sid \<Rightarrow>
          if sid \<noteq> [] then m\<lparr>sent := sent m @ [WebRTCAnswer from answer sid]\<rparr>
          else logError ''Socket ID not found'' m)"

text \<open>The offer handler from ``Set remote description'' to ``Send answer''.\<close>

definition answerOffer :: "env \<Rightarrow> description \<Rightarrow> string \<Rightarrow> peer \<Rightarrow> manager \<Rightarrow> manager" where
  "answerOffer e offer from p m =
     (case setRemoteDescription offer (conns m (connection p)) of
        Inl err \<Rightarrow> offerCatch e from m
      | Inr c1 \<Rightarrow>
          let m1 = flushPendingIce e p (setConn (connection p) c1 m)
          in (case createAnswer (conns m1 (connection p)) of
                Inl err \<Rightarrow> offerCatch e from m1
              | Inr answer \<Rightarrow>
                  (case setLocalDescription answer (conns m1 (connection p)) of
                     Inl err \<Rightarrow> offerCatch e from m1
                   | Inr c2 \<Rightarrow> sendAnswer e from answer (setConn (connection p) c2 m1))))"

text \<open>The offer handler from \<^verbatim>\<open>const peer = this.peers.get(from)\<close> on: the collision
  check, then the answer.\<close>

definition acceptOffer :: "env \<Rightarrow> description \<Rightarrow> string \<Rightarrow> manager \<Rightarrow> manager" where
  "acceptOffer e offer from m =
     (case map_of (peers m) from of
        None \<Rightarrow> m
      | Some p \<Rightarrow>
          if signalingState (conns m (connection p)) \<noteq> Stable
             \<and> signalingState (conns m (connection p)) = HaveLocalOffer
          then (case setLocalDescription \<lparr>dtype = Rollback, sdp = []\<rparr>
                       (conns m (connection p)) of
                  Inl err \<Rightarrow> logError ''Error rolling back'' m
                | Inr c' \<Rightarrow> answerOffer e offer from p (setConn (connection p) c' m))
          else answerOffer e offer from p m)"

definition onWebRTCOffer :: "env \<Rightarrow> description \<Rightarrow> string \<Rightarrow> manager \<Rightarrow> manager" where
  "onWebRTCOffer e offer from m =
     (case map_of (peers m) from of
        None \<Rightarrow>
          (case createPeer e from False m of
             (Inl err, m1) \<Rightarrow> offerCatch e from m1
           | (Inr p, m1) \<Rightarrow> acceptOffer e offer from m1)
      | Some p \<Rightarrow> acceptOffer e offer from m)"

definition onWebRTCAnswer :: "env \<Rightarrow> description \<Rightarrow> string \<Rightarrow> manager \<Rightarrow> manager" where
  "onWebRTCAnswer e answer from m =
     (case map_of (peers m) from of
        None \<Rightarrow> m
      | Some p \<Rightarrow>
          (case setRemoteDescription answer (conns m (connection p)) of
             Inl err \<Rightarrow> logError ''Error handling answer'' m
           | Inr c' \<Rightarrow> flushPendingIce e p (setConn (connection p) c' m)))"

text \<open>In the direct branch a \<^verbatim>\<open>null\<close> candidate makes \<^verbatim>\<open>new RTCIceCandidate(null)\<close> throw
  inside the \<^verbatim>\<open>try\<close>.\<close>

definition onWebRTCIceCandidate :: "env \<Rightarrow> candidate option \<Rightarrow> string \<Rightarrow> manager \<Rightarrow> manager" where
  "onWebRTCIceCandidate e cand from m =
     (case map_of (peers m) from of
        None \<Rightarrow> m
      | Some p \<Rightarrow>
          if remoteDescription (conns m (connection p)) = None
          then m\<lparr>peers := AList.map_entry from
                    (\<lambda>q. q\<lparr>pendingCandidates :=
                             Some ((case pendingCandidates q of None \<Rightarrow> [] | Some cs \<Rightarrow> cs)
                                   @ [cand])\<rparr>)
                    (peers m)\<rparr>
          else (case cand of
                  None \<Rightarrow> logError ''Error adding ICE candidate'' m
                | Some c \<Rightarrow>
                    (case addIceCandidate e c (conns m (connection p)) of
                       (None, c') \<Rightarrow> setConn (connection p) c' m
                     | (Some err, c') \<Rightarrow>
                         logError ''Error adding ICE candidate'' (setConn (connection p) c' m))))"

subsection \<open>Reconnection\<close>

definition restartIce :: "string \<Rightarrow> manager \<Rightarrow> manager" where
  "restartIce pid m =
     (case map_of (peers m) pid of
        None \<Rightarrow> m
      | Some p \<Rightarrow>
          if signalingState (conns m (connection p)) = Stable
          then setConn (connection p) (connRestartIce (conns m (connection p))) m
          else m)"

text \<open>
  The browser changes the \<^verbatim>\<open>connectionState\<close> of the connection at \<open>cid\<close> to \<open>s\<close> and
  calls its \<^verbatim>\<open>onconnectionstatechange\<close> handler; a closed connection raises no event.
  \<^verbatim>\<open>setTimeout\<close> appends a callback that holds \<^verbatim>\<open>peerId\<close> and \<^verbatim>\<open>connection\<close>.
\<close>

definition onconnectionstatechange :: "env \<Rightarrow> nat \<Rightarrow> connectionState \<Rightarrow> manager \<Rightarrow> manager" where
  "onconnectionstatechange e cid s m =
     (if signalingState (conns m cid) = SigClosed then m
      else
        let m1 = setConn cid ((conns m cid)\<lparr>connectionState := s\<rparr>) m;
            pid = handlerPeerId (conns m cid)
        in if s = Failed \<or> s = Disconnected then m1\<lparr>timers := timers m1 @ [(pid, cid)]\<rparr>
           else if s = ConnClosed then removePeer e pid m1
           else m1)"

text \<open>The oldest pending timeout elapses (all delays are 2000 ms, so the callbacks run
  in the order they were scheduled) and its callback runs.\<close>

definition timerFires :: "manager \<Rightarrow> manager" where
  "timerFires m =
     (case timers m of
        [] \<Rightarrow> m
      | (pid, cid) # ts \<Rightarrow>
          let m1 = m\<lparr>timers := ts\<rparr>
          in if connectionState (conns m1 cid) = Disconnected
                \<or> connectionState (conns m1 cid) = Failed
             then restartIce pid m1
             else m1)"

subsection \<open>Local media\<close>

text \<open>The body of the inner \<^verbatim>\<open>forEach\<close> of \<^verbatim>\<open>setLocalStream\<close>.\<close>

definition syncTrack :: "track \<Rightarrow> connection \<Rightarrow> error + connection" where
  "syncTrack t c =
     (case findSender (kind t) (senders c) of
        Some i \<Rightarrow> Inr (replaceTrack i t c)
      | None \<Rightarrow> addTrack t c)"

text \<open>An exception of \<^verbatim>\<open>addTrack\<close> is not caught in \<^verbatim>\<open>setLocalStream\<close>: it ends both
  loops.\<close>

fun syncTracks :: "track list \<Rightarrow> connection \<Rightarrow> error option \<times> connection" where
  "syncTracks [] c = (None, c)"
| "syncTracks (t # ts) c =
     (case syncTrack t c of
        Inl err \<Rightarrow> (Some err, c)
      | Inr c' \<Rightarrow> syncTracks ts c')"

fun syncPeers :: "track list \<Rightarrow> peer list \<Rightarrow> manager \<Rightarrow> error option \<times> manager" where
  "syncPeers ts [] m = (None, m)"
| "syncPeers ts (p # ps) m =
     (case syncTracks ts (conns m (connection p)) of
        (Some err, c') \<Rightarrow> (Some err, setConn (connection p) c' m)
      | (None, c') \<Rightarrow> syncPeers ts ps (setConn (connection p) c' m))"

definition setLocalStream :: "mediaStream \<Rightarrow> manager \<Rightarrow> error option \<times> manager" where
  "setLocalStream s m = syncPeers s (map snd (peers m)) (m\<lparr>localStream := Some s\<rparr>)"

subsection \<open>Cleanup and the singleton\<close>

text \<open>\<^verbatim>\<open>stream.getTracks().forEach(track => track.stop())\<close> on a stream that may be
  \<^verbatim>\<open>null\<close>.\<close>

definition stopTracks :: "mediaStream option \<Rightarrow> mediaStream option" where
  "stopTracks s = map_option (map (\<lambda>t. t\<lparr>ended := True\<rparr>)) s"

definition cleanup :: "manager \<Rightarrow> manager" where
  "cleanup m =
     (let m1 = foldl closePeer m (map snd (peers m))
      in m1\<lparr>localStream := stopTracks (localStream m1),
            screenStream := stopTracks (screenStream m1),
            peers := [], eventListeners := []\<rparr>)"

text \<open>The static field \<^verbatim>\<open>instance\<close> is an optional manager; \<^verbatim>\<open>getInstance\<close> returns the
  manager and the new value of the field, or the error it throws.\<close>

definition getInstance ::
  "string option \<Rightarrow> string option \<Rightarrow> manager option \<Rightarrow> error + (manager \<times> manager option)" where
  "getInstance uid rid inst =
     (case inst of
        None \<Rightarrow>
          (case (uid, rid) of
             (Some u, Some r) \<Rightarrow>
               if \<not> truthy (Some u) \<or> \<not> truthy (Some r)
               then Inl (Error ''UserId and RoomId required for first initialization'')
               else Inr (constructor u r, Some (constructor u r))
           | _ \<Rightarrow> Inl (Error ''UserId and RoomId required for first initialization''))
      | Some m \<Rightarrow> Inr (m, Some m))"

text \<open>\<^verbatim>\<open>reset\<close> returns the former instance as \<^verbatim>\<open>cleanup\<close> leaves it, and the new value
  of the static field.\<close>

definition reset :: "manager option \<Rightarrow> manager option \<times> manager option" where
  "reset inst = (map_option cleanup inst, None)"

subsection \<open>Runs\<close>

text \<open>Everything that can happen to a manager: the calls of its public methods, the
  three inbound signaling messages, a change of a connection's state, a timeout.\<close>

datatype input =
  CreatePeer string bool
| RemovePeer string
| InOffer description string
| InAnswer description string
| InCandidate "candidate option" string
| SetLocalStream mediaStream
| Cleanup
| OnEvent nat
| OffEvent nat
| ConnectionStateChange nat connectionState
| TimerFires

fun step :: "env \<Rightarrow> manager \<Rightarrow> input \<Rightarrow> manager" where
  "step e m (CreatePeer pid i) = snd (createPeer e pid i m)"
| "step e m (RemovePeer pid) = removePeer e pid m"
| "step e m (InOffer d from) = onWebRTCOffer e d from m"
| "step e m (InAnswer d from) = onWebRTCAnswer e d from m"
| "step e m (InCandidate c from) = onWebRTCIceCandidate e c from m"
| "step e m (SetLocalStream s) = snd (setLocalStream s m)"
| "step e m Cleanup = cleanup m"
| "step e m (OnEvent l) = onEvent l m"
| "step e m (OffEvent l) = offEvent l m"
| "step e m (ConnectionStateChange cid s) = onconnectionstatechange e cid s m"
| "step e m TimerFires = timerFires m"

definition run :: "env \<Rightarrow> manager \<Rightarrow> input list \<Rightarrow> manager" where
  "run e m ins = foldl (step e) m ins"

subsection \<open>Auxiliary notions and example states\<close>

text \<open>The listener an action names, and whether the action registers it.\<close>

fun target :: "action \<Rightarrow> nat" where
  "target (Subscribe l) = l"
| "target (Unsubscribe l) = l"

fun isSubscribe :: "action \<Rightarrow> bool" where
  "isSubscribe (Subscribe l) = True"
| "isSubscribe (Unsubscribe l) = False"

text \<open>Surroundings in which no candidate is rejected, listeners do nothing and the
  socket is connected.\<close>

definition quietEnv :: env where
  "quietEnv = \<lparr>rejects = (\<lambda>c. False), callback = (\<lambda>l ev. []), socketId = Some ''me''\<rparr>"

text \<open>Surroundings in which listener \<open>0\<close> removes itself when it is called.\<close>

definition selfRemovingEnv :: env where
  "selfRemovingEnv =
     \<lparr>rejects = (\<lambda>c. False),
      callback = (\<lambda>l ev. if l = 0 then [Unsubscribe 0] else []),
      socketId = Some ''me''\<rparr>"

text \<open>Surroundings in which listener \<open>0\<close> registers listener \<open>7\<close> when it is called.\<close>

definition subscribingEnv :: env where
  "subscribingEnv =
     \<lparr>rejects = (\<lambda>c. False),
      callback = (\<lambda>l ev. if l = 0 then [Subscribe 7] else []),
      socketId = Some ''me''\<rparr>"

definition threeListeners :: manager where
  "threeListeners = (constructor ''me'' ''room'')\<lparr>eventListeners := [0, 1, 2]\<rparr>"

text \<open>The candidates of a buffer that are not \<^verbatim>\<open>null\<close>, in order.\<close>

fun nonNull :: "'a option list \<Rightarrow> 'a list" where
  "nonNull [] = []"
| "nonNull (None # cs) = nonNull cs"
| "nonNull (Some c # cs) = c # nonNull cs"

text \<open>\<^verbatim>\<open>peer.pendingCandidates\<close> read as a list (\<^verbatim>\<open>undefined\<close> holds nothing).\<close>

definition pendingList :: "peer \<Rightarrow> candidate option list" where
  "pendingList p = (case pendingCandidates p of None \<Rightarrow> [] | Some cs \<Rightarrow> cs)"

text \<open>Of a list of candidates handed to a connection one after the other: those it
  accepts, those it refuses, and the connection afterwards.\<close>

definition accepted :: "env \<Rightarrow> connection \<Rightarrow> candidate list \<Rightarrow> candidate list" where
  "accepted e c cands =
     (if signalingState c = SigClosed \<or> remoteDescription c = None then []
      else filter (\<lambda>x. \<not> rejects e x) cands)"

definition refused :: "env \<Rightarrow> connection \<Rightarrow> candidate list \<Rightarrow> candidate list" where
  "refused e c cands =
     (if signalingState c = SigClosed \<or> remoteDescription c = None then cands
      else filter (rejects e) cands)"

definition iceApplied :: "env \<Rightarrow> candidate list \<Rightarrow> connection \<Rightarrow> connection" where
  "iceApplied e cands c =
     c\<lparr>addIceCalls := addIceCalls c @ cands,
       remoteCandidates := remoteCandidates c @ accepted e c cands\<rparr>"


text \<open>Descriptions as they arrive in signaling messages, and the answer every connection
  of the model creates.\<close>

definition someOffer :: description where
  "someOffer = \<lparr>dtype = Offer, sdp = ''remote offer''\<rparr>"

definition someAnswer :: description where
  "someAnswer = \<lparr>dtype = Answer, sdp = ''remote answer''\<rparr>"

definition localAnswer :: description where
  "localAnswer = \<lparr>dtype = Answer, sdp = ''answer''\<rparr>"

text \<open>User \<open>A\<close> in a room: with a session for \<open>B\<close> created as responder, with one created
  as initiator (its offer is sent and outstanding), and with the responder session after
  the offer of \<open>B\<close> has been answered.\<close>

definition freshResponder :: manager where
  "freshResponder = snd (createPeer quietEnv ''B'' False (constructor ''A'' ''room''))"

definition offeringInitiator :: manager where
  "offeringInitiator = snd (createPeer quietEnv ''B'' True (constructor ''A'' ''room''))"

definition answeredResponder :: manager where
  "answeredResponder = onWebRTCOffer quietEnv someOffer ''B'' freshResponder"

text \<open>The entries of \<open>peers\<close> in those states.\<close>

definition responderPeer :: peer where
  "responderPeer =
     \<lparr>peerId = ''B'', connection = 0, stream = None, dataChannel = None,
      pendingCandidates = None\<rparr>"

definition initiatorPeer :: peer where
  "initiatorPeer =
     \<lparr>peerId = ''B'', connection = 0, stream = None, dataChannel = Some 0,
      pendingCandidates = None\<rparr>"

text \<open>User \<open>A\<close> holding a camera stream, and the same user with a session for \<open>B\<close>
  created as initiator.\<close>

definition camTrack :: track where
  "camTrack = \<lparr>tid = ''cam'', kind = Video, ended = False\<rparr>"

definition cameraManager :: manager where
  "cameraManager = (constructor ''A'' ''room'')\<lparr>localStream := Some [camTrack]\<rparr>"

definition callingManager :: manager where
  "callingManager = snd (createPeer quietEnv ''B'' True cameraManager)"

text \<open>A sender carries a track of kind \<open>k\<close>; the number of such senders of a connection
  is the number of outbound tracks of that kind.\<close>

definition carries :: "trackKind \<Rightarrow> sender \<Rightarrow> bool" where
  "carries k s = (case strack s of Some t \<Rightarrow> kind t = k | None \<Rightarrow> False)"

definition outbound :: "trackKind \<Rightarrow> connection \<Rightarrow> nat" where
  "outbound k c = length (filter (carries k) (senders c))"

text \<open>A second camera track and a microphone track.\<close>

definition camTrack2 :: track where
  "camTrack2 = \<lparr>tid = ''cam2'', kind = Video, ended = False\<rparr>"

definition micTrack :: track where
  "micTrack = \<lparr>tid = ''mic'', kind = Audio, ended = False\<rparr>"

text \<open>What \<^verbatim>\<open>createPeer\<close> sends for an initiator: the offer, if the socket has an id.\<close>

definition offerSignal :: "env \<Rightarrow> string \<Rightarrow> signal list" where
  "offerSignal e pid =
     (case socketId e of
        None \<Rightarrow> []
      | Some sid \<Rightarrow>
          if sid \<noteq> [] then [WebRTCOffer pid \<lparr>dtype = Offer, sdp = ''offer''\<rparr> sid] else [])"

text \<open>User \<open>A\<close> after the responder session for \<open>B\<close> has been removed again.\<close>

definition removedState :: manager where
  "removedState = removePeer quietEnv ''B'' freshResponder"





text \<open>
  The shape of the states a manager can reach: the keys of \<open>peers\<close> are distinct; every
  entry is stored under its own \<open>peerId\<close> and refers to an allocated, open connection
  whose closures captured that \<open>peerId\<close>; every open connection is the connection of the
  entry of the peer it was created for; a closed connection has connectivity \<^verbatim>\<open>closed\<close>;
  a pending timeout holds an allocated connection and the \<open>peerId\<close> that connection was
  created for; no connection has two outbound tracks of one kind.
\<close>

definition wellFormed :: "manager \<Rightarrow> bool" where
  "wellFormed m =
     (distinct (map fst (peers m))
      \<and> (\<forall>k p. map_of (peers m) k = Some p \<longrightarrow>
             peerId p = k \<and> connection p < nextConn m
             \<and> handlerPeerId (conns m (connection p)) = k
             \<and> signalingState (conns m (connection p)) \<noteq> SigClosed)
      \<and> (\<forall>c. signalingState (conns m c) \<noteq> SigClosed \<longrightarrow>
             (\<exists>p. map_of (peers m) (handlerPeerId (conns m c)) = Some p \<and> connection p = c))
      \<and> (\<forall>c. signalingState (conns m c) = SigClosed \<longrightarrow>
             connectionState (conns m c) = ConnClosed)
      \<and> (\<forall>t\<in>set (timers m). snd t < nextConn m \<and> handlerPeerId (conns m (snd t)) = fst t)
      \<and> (\<forall>c k. outbound k (conns m c) \<le> 1))"

text \<open>User \<open>A\<close> with the responder session for \<open>B\<close> after its connection has lost
  connectivity; the session that replaces it; the same session once its connection is
  connected; a run in which \<open>B\<close> is created twice.\<close>

definition disconnectedState :: manager where
  "disconnectedState = onconnectionstatechange quietEnv 0 Disconnected freshResponder"

definition replacementPeer :: peer where
  "replacementPeer =
     \<lparr>peerId = ''B'', connection = 1, stream = None, dataChannel = None,
      pendingCandidates = None\<rparr>"

definition connectedState :: manager where
  "connectedState = onconnectionstatechange quietEnv 0 Connected freshResponder"

definition twiceCreated :: "input list" where
  "twiceCreated = [CreatePeer ''B'' True, CreatePeer ''B'' True, CreatePeer ''C'' False]"

text \<open>Connectivity of connection \<open>0\<close> going from \<^verbatim>\<open>disconnected\<close> to \<^verbatim>\<open>failed\<close>, and the two
  timeouts that follow.\<close>

definition degrading :: "input list" where
  "degrading = [ConnectionStateChange 0 Disconnected, ConnectionStateChange 0 Failed]"

definition degradingThenTimeouts :: "input list" where
  "degradingThenTimeouts =
     [ConnectionStateChange 0 Disconnected, ConnectionStateChange 0 Failed, TimerFires, TimerFires]"

text \<open>Connectivity of connection \<open>0\<close> lost and recovered before the timeout.\<close>

definition recovering :: "input list" where
  "recovering =
     [ConnectionStateChange 0 Disconnected, ConnectionStateChange 0 Connected, TimerFires]"

text \<open>The supplied tracks of kind \<open>k\<close>, in the order of the stream.\<close>

definition ofKind :: "trackKind \<Rightarrow> track list \<Rightarrow> track list" where
  "ofKind k ts = filter (\<lambda>t. kind t = k) ts"

text \<open>User \<open>A\<close> with the initiator session for \<open>B\<close>, which has a data channel, after its
  connection has lost connectivity; the session that replaces it.\<close>

definition disconnectedInitiator :: manager where
  "disconnectedInitiator = onconnectionstatechange quietEnv 0 Disconnected offeringInitiator"

definition replacementInitiator :: peer where
  "replacementInitiator =
     \<lparr>peerId = ''B'', connection = 1, stream = None, dataChannel = Some 1,
      pendingCandidates = None\<rparr>"

text \<open>The same loss and recovery, up to the moment before the timeout.\<close>

definition reconnected :: "input list" where
  "reconnected = [ConnectionStateChange 0 Disconnected, ConnectionStateChange 0 Connected]"

section \<open>Properties\<close>

subsection \<open>What each operation leaves alone\<close>

lemma runAction_fields [simp]:
  "delivered (runAction m a) = delivered m"
  "emitted (runAction m a) = emitted m"
  "peers (runAction m a) = peers m"
  "conns (runAction m a) = conns m"
  "sent (runAction m a) = sent m"
  "errors (runAction m a) = errors m"
  "timers (runAction m a) = timers m"
  "nextConn (runAction m a) = nextConn m"
  "chanClosed (runAction m a) = chanClosed m"
  "nextChan (runAction m a) = nextChan m"
  "localStream (runAction m a) = localStream m"
  "screenStream (runAction m a) = screenStream m"
  "userId (runAction m a) = userId m"
  "roomId (runAction m a) = roomId m"
  by (cases a; simp add: onEvent_def offEvent_def)+

lemma foldl_runAction_delivered [simp]:
  "delivered (foldl runAction m as) = delivered m"
  by (induction as arbitrary: m) simp_all

lemma foldl_runAction_subscribe:
  "\<forall>a\<in>set as. isSubscribe a \<Longrightarrow>
   eventListeners (foldl runAction m as) = eventListeners m @ map target as"
proof (induction as arbitrary: m)
  case Nil
  then show ?case by simp
next
  case (Cons a as)
  then obtain l where a: "a = Subscribe l" by (cases a) auto
  from Cons show ?case by (simp add: a onEvent_def)
qed

lemma visit_prefix:
  assumes n: "n < length ls"
    and ls: "eventListeners m = ls @ added"
    and sub: "\<forall>a\<in>set (callback e (ls ! n) ev). isSubscribe a"
  shows "eventListeners (visit e ev m n) = ls @ added @ map target (callback e (ls ! n) ev)"
    and "delivered (visit e ev m n) = delivered m @ [(ls ! n, ev)]"
  using assms by (simp_all add: visit_def Let_def nth_append foldl_runAction_subscribe)

lemma forEach_prefix:
  assumes sub: "\<forall>l\<in>set ls. \<forall>a\<in>set (callback e l ev). isSubscribe a"
    and ls: "eventListeners m = ls"
  shows "n \<le> length ls \<Longrightarrow>
     eventListeners (foldl (visit e ev) m [0..<n])
       = ls @ concat (map (\<lambda>l. map target (callback e l ev)) (take n ls))
     \<and> delivered (foldl (visit e ev) m [0..<n]) = delivered m @ map (\<lambda>l. (l, ev)) (take n ls)"
proof (induction n)
  case 0
  then show ?case by (simp add: ls)
next
  case (Suc n)
  then have n: "n < length ls" by simp
  let ?m = "foldl (visit e ev) m [0..<n]"
  from Suc have IH1: "eventListeners ?m = ls @ concat (map (\<lambda>l. map target (callback e l ev)) (take n ls))"
    and IH2: "delivered ?m = delivered m @ map (\<lambda>l. (l, ev)) (take n ls)" by simp_all
  from sub n have s: "\<forall>a\<in>set (callback e (ls ! n) ev). isSubscribe a" using nth_mem by blast
  show ?case
    using visit_prefix [OF n IH1 s] IH2 n
    by (simp add: take_Suc_conv_app_nth)
qed

lemma runAction_eventListeners_only:
  "runAction m a = m\<lparr>eventListeners := eventListeners (runAction m a)\<rparr>"
  by (cases a) (simp_all add: onEvent_def offEvent_def)

lemma foldl_runAction_frame [simp]:
  "emitted (foldl runAction m as) = emitted m"
  "peers (foldl runAction m as) = peers m"
  "conns (foldl runAction m as) = conns m"
  "sent (foldl runAction m as) = sent m"
  "errors (foldl runAction m as) = errors m"
  "timers (foldl runAction m as) = timers m"
  "nextConn (foldl runAction m as) = nextConn m"
  "chanClosed (foldl runAction m as) = chanClosed m"
  "nextChan (foldl runAction m as) = nextChan m"
  "localStream (foldl runAction m as) = localStream m"
  "screenStream (foldl runAction m as) = screenStream m"
  "userId (foldl runAction m as) = userId m"
  "roomId (foldl runAction m as) = roomId m"
  by (induction as arbitrary: m; simp)+

lemma visit_frame [simp]:
  "emitted (visit e ev m k) = emitted m"
  "peers (visit e ev m k) = peers m"
  "conns (visit e ev m k) = conns m"
  "sent (visit e ev m k) = sent m"
  "errors (visit e ev m k) = errors m"
  "timers (visit e ev m k) = timers m"
  "nextConn (visit e ev m k) = nextConn m"
  "chanClosed (visit e ev m k) = chanClosed m"
  "nextChan (visit e ev m k) = nextChan m"
  "localStream (visit e ev m k) = localStream m"
  "screenStream (visit e ev m k) = screenStream m"
  "userId (visit e ev m k) = userId m"
  "roomId (visit e ev m k) = roomId m"
  by (simp_all add: visit_def Let_def)

lemma foldl_visit_frame [simp]:
  "emitted (foldl (visit e ev) m ks) = emitted m"
  "peers (foldl (visit e ev) m ks) = peers m"
  "conns (foldl (visit e ev) m ks) = conns m"
  "sent (foldl (visit e ev) m ks) = sent m"
  "errors (foldl (visit e ev) m ks) = errors m"
  "timers (foldl (visit e ev) m ks) = timers m"
  "nextConn (foldl (visit e ev) m ks) = nextConn m"
  "chanClosed (foldl (visit e ev) m ks) = chanClosed m"
  "nextChan (foldl (visit e ev) m ks) = nextChan m"
  "localStream (foldl (visit e ev) m ks) = localStream m"
  "screenStream (foldl (visit e ev) m ks) = screenStream m"
  "userId (foldl (visit e ev) m ks) = userId m"
  "roomId (foldl (visit e ev) m ks) = roomId m"
  by (induction ks arbitrary: m; simp)+

lemma emitEvent_frame [simp]:
  "emitted (emitEvent e ev m) = emitted m @ [ev]"
  "peers (emitEvent e ev m) = peers m"
  "conns (emitEvent e ev m) = conns m"
  "sent (emitEvent e ev m) = sent m"
  "errors (emitEvent e ev m) = errors m"
  "timers (emitEvent e ev m) = timers m"
  "nextConn (emitEvent e ev m) = nextConn m"
  "chanClosed (emitEvent e ev m) = chanClosed m"
  "nextChan (emitEvent e ev m) = nextChan m"
  "localStream (emitEvent e ev m) = localStream m"
  "screenStream (emitEvent e ev m) = screenStream m"
  "userId (emitEvent e ev m) = userId m"
  "roomId (emitEvent e ev m) = roomId m"
  by (simp_all add: emitEvent_def)

lemma setConn_fields [simp]:
  "conns (setConn cid c m) = (conns m)(cid := c)"
  "peers (setConn cid c m) = peers m"
  "emitted (setConn cid c m) = emitted m"
  "delivered (setConn cid c m) = delivered m"
  "eventListeners (setConn cid c m) = eventListeners m"
  "sent (setConn cid c m) = sent m"
  "errors (setConn cid c m) = errors m"
  "timers (setConn cid c m) = timers m"
  "nextConn (setConn cid c m) = nextConn m"
  "chanClosed (setConn cid c m) = chanClosed m"
  "nextChan (setConn cid c m) = nextChan m"
  "localStream (setConn cid c m) = localStream m"
  "screenStream (setConn cid c m) = screenStream m"
  "userId (setConn cid c m) = userId m"
  "roomId (setConn cid c m) = roomId m"
  by (simp_all add: setConn_def)

lemma logError_fields [simp]:
  "errors (logError msg m) = errors m @ [msg]"
  "conns (logError msg m) = conns m"
  "peers (logError msg m) = peers m"
  "emitted (logError msg m) = emitted m"
  "delivered (logError msg m) = delivered m"
  "eventListeners (logError msg m) = eventListeners m"
  "sent (logError msg m) = sent m"
  "timers (logError msg m) = timers m"
  "nextConn (logError msg m) = nextConn m"
  "chanClosed (logError msg m) = chanClosed m"
  "nextChan (logError msg m) = nextChan m"
  "localStream (logError msg m) = localStream m"
  "screenStream (logError msg m) = screenStream m"
  "userId (logError msg m) = userId m"
  "roomId (logError msg m) = roomId m"
  by (simp_all add: logError_def)

lemma closePeer_fields [simp]:
  "conns (closePeer m p) = (conns m)(connection p := close (conns m (connection p)))"
  "peers (closePeer m p) = peers m"
  "emitted (closePeer m p) = emitted m"
  "delivered (closePeer m p) = delivered m"
  "eventListeners (closePeer m p) = eventListeners m"
  "sent (closePeer m p) = sent m"
  "errors (closePeer m p) = errors m"
  "timers (closePeer m p) = timers m"
  "nextConn (closePeer m p) = nextConn m"
  "nextChan (closePeer m p) = nextChan m"
  "localStream (closePeer m p) = localStream m"
  "screenStream (closePeer m p) = screenStream m"
  "userId (closePeer m p) = userId m"
  "roomId (closePeer m p) = roomId m"
  by (simp_all add: closePeer_def Let_def split: option.split)

lemma closePeer_chanClosed:
  "chanClosed (closePeer m p) ch = (chanClosed m ch \<or> dataChannel p = Some ch)"
  by (auto simp: closePeer_def Let_def setConn_def split: option.split)

lemma removePeer_absent: "map_of (peers m) pid = None \<Longrightarrow> removePeer e pid m = m"
  by (simp add: removePeer_def)

lemma delete_absent: "map_of al k = None \<Longrightarrow> AList.delete k al = al"
  by (induction al) (auto simp: AList.delete_eq split: if_splits)

lemma removePeer_fields:
  "peers (removePeer e pid m) = AList.delete pid (peers m)"
  "sent (removePeer e pid m) = sent m"
  "errors (removePeer e pid m) = errors m"
  "timers (removePeer e pid m) = timers m"
  "nextConn (removePeer e pid m) = nextConn m"
  "nextChan (removePeer e pid m) = nextChan m"
  "localStream (removePeer e pid m) = localStream m"
  "screenStream (removePeer e pid m) = screenStream m"
  "userId (removePeer e pid m) = userId m"
  "roomId (removePeer e pid m) = roomId m"
  by (simp_all add: removePeer_def Let_def delete_absent split: option.split)

lemma removePeer_gone: "map_of (peers (removePeer e pid m)) pid = None"
  by (simp add: removePeer_fields delete_conv')

subsection \<open>The event bus\<close>

text \<open>
  Claim C6, as amended. \<^verbatim>\<open>emitEvent\<close> walks the live listener array by index, with the
  number of rounds fixed when the emission starts; there is no snapshot. If no listener
  called for the event removes a listener during delivery (listeners may register new
  ones), then exactly the listeners registered at emission time are called, once each and
  in registration order, and the listeners registered during delivery are appended to the
  list without being called for this event.
\<close>

theorem emitEvent_registration_order:
  assumes "\<forall>l\<in>set (eventListeners m). \<forall>a\<in>set (callback e l ev). isSubscribe a"
  shows "delivered (emitEvent e ev m) = delivered m @ map (\<lambda>l. (l, ev)) (eventListeners m)
     \<and> eventListeners (emitEvent e ev m)
         = eventListeners m @ concat (map (\<lambda>l. map target (callback e l ev)) (eventListeners m))"
  using forEach_prefix [of "eventListeners m" e ev "m\<lparr>emitted := emitted m @ [ev]\<rparr>"
      "length (eventListeners m)"] assms
  by (simp add: emitEvent_def)

theorem emitEvent_registration_order_witness:
  "list_all (\<lambda>l. list_all isSubscribe (callback subscribingEnv l (PeerRemoved ''p'')))
     (eventListeners threeListeners)
   \<and> delivered (emitEvent subscribingEnv (PeerRemoved ''p'') threeListeners)
       = [(0, PeerRemoved ''p''), (1, PeerRemoved ''p''), (2, PeerRemoved ''p'')]
   \<and> eventListeners (emitEvent subscribingEnv (PeerRemoved ''p'') threeListeners) = [0, 1, 2, 7]"
proof -
  have h: "\<forall>l\<in>set (eventListeners threeListeners).
      \<forall>a\<in>set (callback subscribingEnv l (PeerRemoved ''p'')). isSubscribe a"
    by (simp add: threeListeners_def subscribingEnv_def constructor_def)
  from emitEvent_registration_order [OF h] show ?thesis
    by (simp add: threeListeners_def subscribingEnv_def constructor_def)
qed

text \<open>
  Claim C6 as stated fails: with listeners \<open>0, 1, 2\<close> registered and listener \<open>0\<close> removing
  itself when called, listener \<open>1\<close> is never called for the event.
\<close>

theorem emitEvent_snapshot_counterexample:
  "eventListeners threeListeners = [0, 1, 2]
   \<and> map fst (delivered (emitEvent selfRemovingEnv (PeerRemoved ''p'') threeListeners)) = [0, 2]"
  by (simp add: threeListeners_def selfRemovingEnv_def emitEvent_def visit_def constructor_def
      upt_rec offEvent_def)

subsection \<open>The singleton accessor\<close>

text \<open>
  Claim C10. Without an instance, \<^verbatim>\<open>getInstance\<close> throws exactly when \<^verbatim>\<open>userId\<close> or
  \<^verbatim>\<open>roomId\<close> is missing (\<^verbatim>\<open>undefined\<close> or the empty string, the two falsy values of the
  type); with both present it constructs the instance from them and stores it; with an
  instance stored it returns that instance unchanged whatever arguments are passed, so
  the stored identifiers are never updated. After \<^verbatim>\<open>reset\<close> there is no instance again.
\<close>

theorem getInstance_singleton:
  "(\<not> truthy uid \<or> \<not> truthy rid \<longrightarrow>
      getInstance uid rid None
        = Inl (Error ''UserId and RoomId required for first initialization''))
   \<and> (truthy (Some u) \<and> truthy (Some r) \<longrightarrow>
        getInstance (Some u) (Some r) None = Inr (constructor u r, Some (constructor u r))
        \<and> userId (constructor u r) = u \<and> roomId (constructor u r) = r)
   \<and> getInstance uid rid (Some m) = Inr (m, Some m)
   \<and> getInstance uid rid (snd (reset inst)) = getInstance uid rid None"
  by (cases uid; cases rid) (auto simp: getInstance_def constructor_def reset_def)

theorem getInstance_singleton_witness:
  "\<not> truthy None
   \<and> getInstance None (Some ''room'') None
       = Inl (Error ''UserId and RoomId required for first initialization'')
   \<and> truthy (Some ''me'') \<and> truthy (Some ''room'')
   \<and> getInstance (Some ''me'') (Some ''room'') None
       = Inr (constructor ''me'' ''room'', Some (constructor ''me'' ''room''))
   \<and> getInstance (Some ''you'') (Some ''hall'') (Some (constructor ''me'' ''room''))
       = Inr (constructor ''me'' ''room'', Some (constructor ''me'' ''room''))
   \<and> userId (constructor ''me'' ''room'') = ''me''"
  using getInstance_singleton [of None "Some ''room''" "''me''" "''room''"
      "constructor ''me'' ''room''" None]
    getInstance_singleton [of "Some ''you''" "Some ''hall''" "''me''" "''room''"
      "constructor ''me'' ''room''" None]
  by simp

subsection \<open>The candidate buffer\<close>

lemma nonNull_append [simp]: "nonNull (xs @ ys) = nonNull xs @ nonNull ys"
  by (induction xs rule: nonNull.induct) simp_all

lemma accepted_simps [simp]:
  "accepted e c [] = []"
  "refused e c [] = []"
  by (simp_all add: accepted_def refused_def)

lemma remoteDescription_ice [simp]:
  "remoteDescription (c\<lparr>addIceCalls := x\<rparr>) = remoteDescription c"
  "remoteDescription (c\<lparr>remoteCandidates := y\<rparr>) = remoteDescription c"
  "remoteDescription (c\<lparr>senders := z\<rparr>) = remoteDescription c"
  "remoteDescription (c\<lparr>restarts := n\<rparr>) = remoteDescription c"
  "remoteDescription (c\<lparr>connectionState := s\<rparr>) = remoteDescription c"
  by (simp_all add: remoteDescription_def split: option.split)

lemma iceApplied_fields [simp]:
  "signalingState (iceApplied e cs c) = signalingState c"
  "connectionState (iceApplied e cs c) = connectionState c"
  "pendingLocal (iceApplied e cs c) = pendingLocal c"
  "currentLocal (iceApplied e cs c) = currentLocal c"
  "pendingRemote (iceApplied e cs c) = pendingRemote c"
  "currentRemote (iceApplied e cs c) = currentRemote c"
  "senders (iceApplied e cs c) = senders c"
  "restarts (iceApplied e cs c) = restarts c"
  "handlerPeerId (iceApplied e cs c) = handlerPeerId c"
  "remoteDescription (iceApplied e cs c) = remoteDescription c"
  "addIceCalls (iceApplied e cs c) = addIceCalls c @ cs"
  "remoteCandidates (iceApplied e cs c) = remoteCandidates c @ accepted e c cs"
  by (simp_all add: iceApplied_def)

lemma iceApplied_Nil [simp]: "iceApplied e [] c = c"
  by (simp add: iceApplied_def)

lemma accepted_iceApplied [simp]:
  "accepted e (iceApplied e cs c) xs = accepted e c xs"
  "refused e (iceApplied e cs c) xs = refused e c xs"
  by (simp_all add: accepted_def refused_def)

lemma iceApplied_step:
  "iceApplied e xs (iceApplied e [x] c) = iceApplied e (x # xs) c"
  by (simp add: iceApplied_def accepted_def)

lemma addIceCandidate_iceApplied:
  "snd (addIceCandidate e x c) = iceApplied e [x] c"
  "(fst (addIceCandidate e x c) = None) = (refused e c [x] = [])"
  by (simp_all add: addIceCandidate_def iceApplied_def accepted_def refused_def Let_def)

lemma addPending_Some:
  "addPending e cid m (Some x) =
     m\<lparr>conns := (conns m)(cid := iceApplied e [x] (conns m cid)),
       errors := errors m @ map (\<lambda>_. ''Error adding pending ICE candidate'')
                              (refused e (conns m cid) [x])\<rparr>"
proof (cases "addIceCandidate e x (conns m cid)")
  case (Pair r c')
  with addIceCandidate_iceApplied [of e x "conns m cid"]
  have c': "c' = iceApplied e [x] (conns m cid)"
    and r: "(r = None) = (refused e (conns m cid) [x] = [])" by simp_all
  show ?thesis
  proof (cases r)
    case None
    with Pair c' r show ?thesis by (simp add: addPending_def setConn_def)
  next
    case (Some err)
    with r have "refused e (conns m cid) [x] = [x]"
      by (simp add: refused_def split: if_splits)
    with Pair c' Some show ?thesis by (simp add: addPending_def setConn_def logError_def)
  qed
qed

lemma refused_Cons:
  "refused e c (x # xs) = refused e c [x] @ refused e c xs"
  by (simp add: refused_def)

lemma foldl_addPending:
  "foldl (addPending e cid) m cs =
     m\<lparr>conns := (conns m)(cid := iceApplied e (nonNull cs) (conns m cid)),
       errors := errors m @ map (\<lambda>_. ''Error adding pending ICE candidate'')
                              (refused e (conns m cid) (nonNull cs))\<rparr>"
proof (induction cs arbitrary: m)
  case Nil
  show ?case by simp
next
  case (Cons c cs)
  show ?case
  proof (cases c)
    case None
    with Cons show ?thesis by (simp add: addPending_def)
  next
    case (Some x)
    show ?thesis
      by (simp add: Some Cons addPending_Some iceApplied_step fun_eq_iff
          refused_Cons [of e _ x "nonNull cs"])
  qed
qed

lemma flushPendingIce_eq:
  "flushPendingIce e p m =
     m\<lparr>conns := (conns m)(connection p :=
                   iceApplied e (nonNull (pendingList p)) (conns m (connection p))),
       errors := errors m @ map (\<lambda>_. ''Error adding pending ICE candidate'')
                              (refused e (conns m (connection p)) (nonNull (pendingList p))),
       peers := (if pendingList p = [] then peers m
                 else AList.map_entry (peerId p) (\<lambda>q. q\<lparr>pendingCandidates := Some []\<rparr>)
                        (peers m))\<rparr>"
proof (cases "pendingCandidates p")
  case None
  then show ?thesis by (simp add: flushPendingIce_def pendingList_def)
next
  case (Some cs)
  then show ?thesis
    by (cases cs) (simp_all add: flushPendingIce_def pendingList_def foldl_addPending Let_def
        del: foldl_Cons)
qed

subsection \<open>The signaling handlers\<close>

lemma sendAnswer_fields [simp]:
  "conns (sendAnswer e from a m) = conns m"
  "peers (sendAnswer e from a m) = peers m"
  "emitted (sendAnswer e from a m) = emitted m"
  "delivered (sendAnswer e from a m) = delivered m"
  "eventListeners (sendAnswer e from a m) = eventListeners m"
  "timers (sendAnswer e from a m) = timers m"
  "nextConn (sendAnswer e from a m) = nextConn m"
  "chanClosed (sendAnswer e from a m) = chanClosed m"
  "nextChan (sendAnswer e from a m) = nextChan m"
  "localStream (sendAnswer e from a m) = localStream m"
  "screenStream (sendAnswer e from a m) = screenStream m"
  by (simp_all add: sendAnswer_def split: option.split)

lemma sendAnswer_sent:
  "socketId e = Some sid \<Longrightarrow> sid \<noteq> [] \<Longrightarrow>
     sent (sendAnswer e from a m) = sent m @ [WebRTCAnswer from a sid]
     \<and> errors (sendAnswer e from a m) = errors m"
  by (simp add: sendAnswer_def)

lemma map_of_map_entry_present:
  "(map_of (AList.map_entry k f al) k' = None) = (map_of al k' = None)"
  by (simp add: map_of_map_entry split: option.split)

text \<open>Answering an offer on a connection in state \<open>Stable\<close>.\<close>

lemma answerOffer_stable:
  assumes st: "signalingState (conns m (connection p)) = Stable"
    and off: "dtype offer = Offer"
  shows "signalingState (conns (answerOffer e offer from p m) (connection p)) = Stable"
    and "currentRemote (conns (answerOffer e offer from p m) (connection p)) = Some offer"
    and "currentLocal (conns (answerOffer e offer from p m) (connection p)) = Some localAnswer"
    and "pendingLocal (conns (answerOffer e offer from p m) (connection p)) = None"
    and "pendingRemote (conns (answerOffer e offer from p m) (connection p)) = None"
    and "(map_of (peers (answerOffer e offer from p m)) k = None) = (map_of (peers m) k = None)"
    and "emitted (answerOffer e offer from p m) = emitted m"
    and "nextConn (answerOffer e offer from p m) = nextConn m"
    and "socketId e = Some sid \<Longrightarrow> sid \<noteq> [] \<Longrightarrow>
         sent (answerOffer e offer from p m) = sent m @ [WebRTCAnswer from localAnswer sid]"
  using st off
  by (simp_all add: answerOffer_def setRemoteDescription_def createAnswer_def
      setLocalDescription_def flushPendingIce_eq sendAnswer_sent localAnswer_def
      map_of_map_entry_present)
lemma answerOffer_connection:
  assumes "signalingState (conns m (connection p)) = Stable" and "dtype offer = Offer"
    and "map_of (peers m) k = Some q"
  shows "\<exists>q'. map_of (peers (answerOffer e offer from p m)) k = Some q'
           \<and> connection q' = connection q"
  using assms
  by (auto simp: answerOffer_def setRemoteDescription_def createAnswer_def
      setLocalDescription_def flushPendingIce_eq map_of_map_entry)

lemma example_states:
  "peers freshResponder = [(''B'', responderPeer)]"
  "peers offeringInitiator = [(''B'', initiatorPeer)]"
  "signalingState (conns freshResponder 0) = Stable"
  "remoteDescription (conns freshResponder 0) = None"
  "signalingState (conns offeringInitiator 0) = HaveLocalOffer"
  "sent offeringInitiator = [WebRTCOffer ''B'' \<lparr>dtype = Offer, sdp = ''offer''\<rparr> ''me'']"
  by (simp_all add: freshResponder_def offeringInitiator_def responderPeer_def
      initiatorPeer_def createPeer_def buildPeer_def constructor_def quietEnv_def
      newConnection_def createDataChannel_def createOffer_def setLocalDescription_def
      sendOffer_def setConn_def remoteDescription_def Let_def)

text \<open>
  Claim C1, as amended. The code keeps no role. When a remote offer arrives for a peer
  whose connection is in \<^verbatim>\<open>have-local-offer\<close>, the handler rolls the local offer back,
  takes the incoming offer as remote description, answers it and ends in \<^verbatim>\<open>stable\<close>,
  whether the session was created as initiator or as responder; the peer stays in the
  map and the answer is sent when the socket has an id. The peer's own offer does not
  survive: an answer to it that arrives afterwards is rejected and only logged.
\<close>

theorem offer_collision_rolls_back:
  assumes "map_of (peers m) from = Some p"
    and "signalingState (conns m (connection p)) = HaveLocalOffer"
    and "dtype offer = Offer"
    and "dtype answer = Answer"
  shows "signalingState (conns (onWebRTCOffer e offer from m) (connection p)) = Stable
     \<and> pendingLocal (conns (onWebRTCOffer e offer from m) (connection p)) = None
     \<and> currentRemote (conns (onWebRTCOffer e offer from m) (connection p)) = Some offer
     \<and> currentLocal (conns (onWebRTCOffer e offer from m) (connection p)) = Some localAnswer
     \<and> map_of (peers (onWebRTCOffer e offer from m)) from \<noteq> None
     \<and> (socketId e = Some sid \<and> sid \<noteq> [] \<longrightarrow>
          sent (onWebRTCOffer e offer from m) = sent m @ [WebRTCAnswer from localAnswer sid])
     \<and> onWebRTCAnswer e answer from (onWebRTCOffer e offer from m)
         = logError ''Error handling answer'' (onWebRTCOffer e offer from m)"
proof -
  let ?c = "(conns m (connection p))\<lparr>signalingState := Stable, pendingLocal := None,
                                       pendingRemote := None\<rparr>"
  let ?m1 = "setConn (connection p) ?c m"
  have eq: "onWebRTCOffer e offer from m = answerOffer e offer from p ?m1"
    using assms by (simp add: onWebRTCOffer_def acceptOffer_def setLocalDescription_def)
  have st: "signalingState (conns ?m1 (connection p)) = Stable" by simp
  have pm: "map_of (peers ?m1) from = Some p" using assms by simp
  from answerOffer_connection [OF st assms(3) pm, of e "from"]
  obtain q' where q': "map_of (peers (answerOffer e offer from p ?m1)) from = Some q'"
    and cq: "connection q' = connection p" by blast
  have late: "onWebRTCAnswer e answer from (answerOffer e offer from p ?m1)
      = logError ''Error handling answer'' (answerOffer e offer from p ?m1)"
    using q' cq assms(4) answerOffer_stable(1) [OF st assms(3), of e "from"]
    by (simp add: onWebRTCAnswer_def setRemoteDescription_def)
  have present: "map_of (peers (answerOffer e offer from p ?m1)) from \<noteq> None"
    using q' by simp
  have snt: "socketId e = Some sid \<and> sid \<noteq> [] \<longrightarrow>
      sent (answerOffer e offer from p ?m1) = sent m @ [WebRTCAnswer from localAnswer sid]"
    using answerOffer_stable(9) [OF st assms(3), of e sid "from"] by simp
  note fields = answerOffer_stable(1-4) [OF st assms(3), of e "from"]
  show ?thesis
    unfolding eq
    using fields present snt late by blast
qed

theorem offer_collision_rolls_back_witness:
  "map_of (peers offeringInitiator) ''B'' = Some initiatorPeer
   \<and> signalingState (conns offeringInitiator (connection initiatorPeer)) = HaveLocalOffer
   \<and> signalingState (conns (onWebRTCOffer quietEnv someOffer ''B'' offeringInitiator)
        (connection initiatorPeer)) = Stable
   \<and> currentRemote (conns (onWebRTCOffer quietEnv someOffer ''B'' offeringInitiator)
        (connection initiatorPeer)) = Some someOffer
   \<and> sent (onWebRTCOffer quietEnv someOffer ''B'' offeringInitiator)
       = sent offeringInitiator @ [WebRTCAnswer ''B'' localAnswer ''me'']"
proof -
  have h1: "map_of (peers offeringInitiator) ''B'' = Some initiatorPeer"
    by (simp add: example_states)
  have h2: "signalingState (conns offeringInitiator (connection initiatorPeer)) = HaveLocalOffer"
    by (simp add: example_states initiatorPeer_def)
  have h3: "dtype someOffer = Offer" by (simp add: someOffer_def)
  have h4: "dtype someAnswer = Answer" by (simp add: someAnswer_def)
  have s: "socketId quietEnv = Some ''me''" by (simp add: quietEnv_def)
  from offer_collision_rolls_back [OF h1 h2 h3 h4, of quietEnv "''me''"] h1 h2 s
  show ?thesis by simp
qed

text \<open>
  Claim C1 as stated fails: a session created as initiator, with its offer outstanding,
  does not ignore an incoming offer. It gives up its own offer, ends in \<^verbatim>\<open>stable\<close> on
  the remote offer and sends an answer.
\<close>

theorem initiator_glare_counterexample:
  "peers offeringInitiator = [(''B'', initiatorPeer)]
   \<and> signalingState (conns offeringInitiator 0) = HaveLocalOffer
   \<and> signalingState (conns (onWebRTCOffer quietEnv someOffer ''B'' offeringInitiator) 0) = Stable
   \<and> pendingLocal (conns (onWebRTCOffer quietEnv someOffer ''B'' offeringInitiator) 0) = None
   \<and> currentRemote (conns (onWebRTCOffer quietEnv someOffer ''B'' offeringInitiator) 0)
       = Some someOffer
   \<and> sent (onWebRTCOffer quietEnv someOffer ''B'' offeringInitiator)
       = [WebRTCOffer ''B'' \<lparr>dtype = Offer, sdp = ''offer''\<rparr> ''me'',
          WebRTCAnswer ''B'' localAnswer ''me'']"
  by (simp add: example_states onWebRTCOffer_def acceptOffer_def answerOffer_def
      initiatorPeer_def someOffer_def localAnswer_def setLocalDescription_def
      setRemoteDescription_def createAnswer_def flushPendingIce_def sendAnswer_def
      quietEnv_def)

text \<open>
  Claim C2, as amended. The handler passes every inbound answer for an existing peer to
  \<^verbatim>\<open>setRemoteDescription\<close>, whatever the state. The connection takes it exactly in the
  states \<^verbatim>\<open>have-local-offer\<close> and \<^verbatim>\<open>have-remote-pranswer\<close>: then the answer becomes the
  remote description, the state becomes \<^verbatim>\<open>stable\<close> and the candidate buffer is flushed.
  In every other state, also when the peer has no remote description at all, the
  connection rejects it and the only effect is one logged error.
\<close>

theorem answer_applied_only_when_expected:
  assumes "map_of (peers m) from = Some p"
    and "dtype answer = Answer"
  shows "(signalingState (conns m (connection p)) = HaveLocalOffer
          \<or> signalingState (conns m (connection p)) = HaveRemotePranswer \<longrightarrow>
            onWebRTCAnswer e answer from m
              = flushPendingIce e p
                  (setConn (connection p)
                     ((conns m (connection p))\<lparr>signalingState := Stable,
                        currentRemote := Some answer,
                        currentLocal := pendingLocal (conns m (connection p)),
                        pendingLocal := None, pendingRemote := None\<rparr>) m)
            \<and> signalingState (conns (onWebRTCAnswer e answer from m) (connection p)) = Stable
            \<and> remoteDescription (conns (onWebRTCAnswer e answer from m) (connection p))
                = Some answer)
     \<and> (signalingState (conns m (connection p)) \<noteq> HaveLocalOffer
        \<and> signalingState (conns m (connection p)) \<noteq> HaveRemotePranswer \<longrightarrow>
          onWebRTCAnswer e answer from m = logError ''Error handling answer'' m)"
  using assms
  by (auto simp: onWebRTCAnswer_def setRemoteDescription_def flushPendingIce_eq
      remoteDescription_def)

theorem answer_applied_only_when_expected_witness:
  "map_of (peers offeringInitiator) ''B'' = Some initiatorPeer
   \<and> signalingState (conns offeringInitiator (connection initiatorPeer)) = HaveLocalOffer
   \<and> remoteDescription (conns (onWebRTCAnswer quietEnv someAnswer ''B'' offeringInitiator)
        (connection initiatorPeer)) = Some someAnswer
   \<and> map_of (peers answeredResponder) ''B'' = Some responderPeer
   \<and> signalingState (conns answeredResponder (connection responderPeer)) = Stable
   \<and> onWebRTCAnswer quietEnv someAnswer ''B'' answeredResponder
       = logError ''Error handling answer'' answeredResponder"
proof -
  have h1: "map_of (peers offeringInitiator) ''B'' = Some initiatorPeer"
    by (simp add: example_states)
  have h2: "signalingState (conns offeringInitiator (connection initiatorPeer)) = HaveLocalOffer"
    by (simp add: example_states initiatorPeer_def)
  have h3: "dtype someAnswer = Answer" by (simp add: someAnswer_def)
  have k0: "answeredResponder = answerOffer quietEnv someOffer ''B'' responderPeer freshResponder"
    by (simp add: answeredResponder_def onWebRTCOffer_def acceptOffer_def example_states
        responderPeer_def)
  have st: "signalingState (conns freshResponder (connection responderPeer)) = Stable"
    by (simp add: example_states responderPeer_def)
  have off: "dtype someOffer = Offer" by (simp add: someOffer_def)
  have k1: "map_of (peers answeredResponder) ''B'' = Some responderPeer"
    unfolding k0
    by (simp add: answerOffer_def setRemoteDescription_def createAnswer_def
        setLocalDescription_def flushPendingIce_def example_states responderPeer_def
        someOffer_def sendAnswer_def quietEnv_def)
  have k2: "signalingState (conns answeredResponder (connection responderPeer)) = Stable"
    unfolding k0 by (rule answerOffer_stable(1) [OF st off])
  have k3: "signalingState (conns answeredResponder (connection responderPeer)) \<noteq> HaveLocalOffer
      \<and> signalingState (conns answeredResponder (connection responderPeer)) \<noteq> HaveRemotePranswer"
    using k2 by simp
  from answer_applied_only_when_expected [OF h1 h3, of quietEnv]
    answer_applied_only_when_expected [OF k1 h3, of quietEnv] h1 h2 k1 k2 k3
  show ?thesis by blast
qed

text \<open>
  Claim C2 as stated fails: a peer that has no remote description at all, in state
  \<^verbatim>\<open>stable\<close>, does not get the answer applied. Its remote description stays empty, and
  the rejection is logged.
\<close>

theorem defensive_answer_counterexample:
  "peers freshResponder = [(''B'', responderPeer)]
   \<and> remoteDescription (conns freshResponder 0) = None
   \<and> signalingState (conns freshResponder 0) = Stable
   \<and> remoteDescription (conns (onWebRTCAnswer quietEnv someAnswer ''B'' freshResponder) 0) = None
   \<and> errors (onWebRTCAnswer quietEnv someAnswer ''B'' freshResponder)
       = [''Error handling answer'']"
  by (simp add: example_states onWebRTCAnswer_def responderPeer_def someAnswer_def
      setRemoteDescription_def freshResponder_def createPeer_def buildPeer_def
      constructor_def newConnection_def remoteDescription_def Let_def)

subsection \<open>Cleanup\<close>

lemma close_close [simp]: "close (close c) = close c"
  by (simp add: close_def)

lemma close_fields [simp]:
  "signalingState (close c) = SigClosed"
  "connectionState (close c) = ConnClosed"
  "senders (close c) = senders c"
  "restarts (close c) = restarts c"
  "handlerPeerId (close c) = handlerPeerId c"
  "addIceCalls (close c) = addIceCalls c"
  "remoteCandidates (close c) = remoteCandidates c"
  by (simp_all add: close_def)

lemma foldl_closePeer_fields [simp]:
  "peers (foldl closePeer m ps) = peers m"
  "emitted (foldl closePeer m ps) = emitted m"
  "delivered (foldl closePeer m ps) = delivered m"
  "eventListeners (foldl closePeer m ps) = eventListeners m"
  "sent (foldl closePeer m ps) = sent m"
  "errors (foldl closePeer m ps) = errors m"
  "timers (foldl closePeer m ps) = timers m"
  "nextConn (foldl closePeer m ps) = nextConn m"
  "nextChan (foldl closePeer m ps) = nextChan m"
  "localStream (foldl closePeer m ps) = localStream m"
  "screenStream (foldl closePeer m ps) = screenStream m"
  "userId (foldl closePeer m ps) = userId m"
  "roomId (foldl closePeer m ps) = roomId m"
  by (induction ps arbitrary: m; simp)+

lemma foldl_closePeer_conns:
  "conns (foldl closePeer m ps) c =
     (if c \<in> connection ` set ps then close (conns m c) else conns m c)"
  by (induction ps arbitrary: m) auto

lemma foldl_closePeer_chanClosed:
  "chanClosed (foldl closePeer m ps) ch = (chanClosed m ch \<or> Some ch \<in> dataChannel ` set ps)"
  by (induction ps arbitrary: m) (auto simp: closePeer_chanClosed)

lemma stopTracks_idem [simp]: "stopTracks (stopTracks s) = stopTracks s"
  by (cases s) (simp_all add: stopTracks_def)

lemma stopTracks_None [simp]: "(stopTracks s = None) = (s = None)"
  by (simp add: stopTracks_def)

lemma cleanup_fields [simp]:
  "peers (cleanup m) = []"
  "eventListeners (cleanup m) = []"
  "localStream (cleanup m) = stopTracks (localStream m)"
  "screenStream (cleanup m) = stopTracks (screenStream m)"
  "emitted (cleanup m) = emitted m"
  "delivered (cleanup m) = delivered m"
  "errors (cleanup m) = errors m"
  "sent (cleanup m) = sent m"
  "timers (cleanup m) = timers m"
  "nextConn (cleanup m) = nextConn m"
  "nextChan (cleanup m) = nextChan m"
  by (simp_all add: cleanup_def Let_def)

lemma cleanup_conns:
  "conns (cleanup m) c =
     (if c \<in> connection ` snd ` set (peers m) then close (conns m c) else conns m c)"
  by (simp add: cleanup_def Let_def foldl_closePeer_conns image_image)

lemma cleanup_chanClosed:
  "chanClosed (cleanup m) ch
     = (chanClosed m ch \<or> Some ch \<in> dataChannel ` snd ` set (peers m))"
  by (simp add: cleanup_def Let_def foldl_closePeer_chanClosed image_image)

lemma cleanup_idem: "cleanup (cleanup m) = cleanup m"
  by (simp add: cleanup_def Let_def)

lemma calling_state:
  "peers callingManager = [(''B'', initiatorPeer)]"
  "localStream callingManager = Some [camTrack]"
  by (simp_all add: callingManager_def cameraManager_def createPeer_def buildPeer_def
      constructor_def quietEnv_def initiatorPeer_def newConnection_def addLocalTrack_def
      addTrack_def camTrack_def createDataChannel_def createOffer_def
      setLocalDescription_def sendOffer_def setConn_def Let_def)

text \<open>
  Claim C8, as amended. \<^verbatim>\<open>cleanup\<close> closes the connection and the data channel of every
  peer, empties \<open>peers\<close>, stops every track of the local camera and screen streams and
  empties the listener list. It keeps the references to the two streams (it does not
  clear them). It emits no event and logs no error, and running it a second time changes
  nothing.
\<close>

theorem cleanup_effects:
  "peers (cleanup m) = [] \<and> eventListeners (cleanup m) = []
   \<and> (\<forall>p\<in>snd ` set (peers m).
         signalingState (conns (cleanup m) (connection p)) = SigClosed
         \<and> connectionState (conns (cleanup m) (connection p)) = ConnClosed
         \<and> (\<forall>ch. dataChannel p = Some ch \<longrightarrow> chanClosed (cleanup m) ch))
   \<and> localStream (cleanup m) = stopTracks (localStream m)
   \<and> screenStream (cleanup m) = stopTracks (screenStream m)
   \<and> (localStream m \<noteq> None \<longrightarrow> localStream (cleanup m) \<noteq> None)
   \<and> (screenStream m \<noteq> None \<longrightarrow> screenStream (cleanup m) \<noteq> None)
   \<and> emitted (cleanup m) = emitted m \<and> delivered (cleanup m) = delivered m
   \<and> errors (cleanup m) = errors m
   \<and> cleanup (cleanup m) = cleanup m"
proof -
  have "\<forall>p\<in>snd ` set (peers m).
         signalingState (conns (cleanup m) (connection p)) = SigClosed
         \<and> connectionState (conns (cleanup m) (connection p)) = ConnClosed
         \<and> (\<forall>ch. dataChannel p = Some ch \<longrightarrow> chanClosed (cleanup m) ch)"
    by (auto simp: cleanup_conns cleanup_chanClosed intro: rev_image_eqI)
  then show ?thesis by (simp add: cleanup_idem)
qed

theorem cleanup_effects_witness:
  "peers callingManager = [(''B'', initiatorPeer)]
   \<and> peers (cleanup callingManager) = []
   \<and> signalingState (conns (cleanup callingManager) 0) = SigClosed
   \<and> chanClosed (cleanup callingManager) 0
   \<and> localStream (cleanup callingManager) = Some [camTrack\<lparr>ended := True\<rparr>]
   \<and> cleanup (cleanup callingManager) = cleanup callingManager
   \<and> emitted (cleanup (cleanup callingManager)) = emitted callingManager"
proof -
  have p: "initiatorPeer \<in> snd ` set (peers callingManager)"
    by (simp add: calling_state)
  have c: "connection initiatorPeer = 0" "dataChannel initiatorPeer = Some 0"
    by (simp_all add: initiatorPeer_def)
  from cleanup_effects [of callingManager] p c show ?thesis
    by (auto simp: calling_state stopTracks_def)
qed

text \<open>
  Claim C8 as stated fails: after \<^verbatim>\<open>cleanup\<close> the manager still holds its local stream;
  the tracks are stopped, the reference is not cleared.
\<close>

theorem cleanup_keeps_stream_counterexample:
  "localStream callingManager = Some [camTrack]
   \<and> localStream (cleanup callingManager) = Some [camTrack\<lparr>ended := True\<rparr>]"
  by (simp add: calling_state stopTracks_def)

subsection \<open>Local media\<close>

lemma findSender_None: "(findSender k ss = None) = (filter (carries k) ss = [])"
  by (induction ss) (auto simp: carries_def split: option.splits)

lemma findSender_Some:
  "findSender k ss = Some i \<Longrightarrow> i < length ss \<and> carries k (ss ! i)"
proof (induction ss arbitrary: i)
  case Nil
  then show ?case by simp
next
  case (Cons s ss)
  show ?case
  proof (cases "carries k s")
    case True
    with Cons.prems show ?thesis by (auto simp: carries_def split: option.splits)
  next
    case False
    with Cons.prems obtain j where j: "findSender k ss = Some j" and i: "i = Suc j"
      by (auto simp: carries_def split: option.splits if_splits)
    from Cons.IH [OF j] i show ?thesis by simp
  qed
qed

lemma filter_update_same:
  "i < length xs \<Longrightarrow> P y = P (xs ! i) \<Longrightarrow>
     length (filter P (xs[i := y])) = length (filter P xs)"
proof (induction xs arbitrary: i)
  case Nil
  then show ?case by simp
next
  case (Cons x xs)
  then show ?case by (cases i) auto
qed

lemma carries_new [simp]: "carries k \<lparr>strack = Some t\<rparr> = (kind t = k)"
  by (simp add: carries_def)

lemma carries_unique: "carries k s \<Longrightarrow> carries k' s \<Longrightarrow> k = k'"
  by (auto simp: carries_def split: option.splits)

lemma replaceTrack_outbound:
  assumes "findSender (kind t) (senders c) = Some i"
  shows "outbound k (replaceTrack i t c) = outbound k c"
proof -
  from findSender_Some [OF assms]
  have i: "i < length (senders c)" and ci: "carries (kind t) (senders c ! i)" by simp_all
  have "carries k \<lparr>strack = Some t\<rparr> = carries k (senders c ! i)"
    using ci carries_unique by auto
  with i show ?thesis
    by (simp add: replaceTrack_def outbound_def filter_update_same)
qed

lemma addTrack_outbound:
  assumes "findSender (kind t) (senders c) = None" and "addTrack t c = Inr c'"
  shows "outbound k c' = (if k = kind t then 1 else outbound k c)"
  using assms
  by (auto simp: addTrack_def outbound_def findSender_None split: if_splits)

lemma syncTrack_outbound:
  assumes "syncTrack t c = Inr c'"
  shows "outbound k c' = (if k = kind t then max 1 (outbound k c) else outbound k c)"
proof (cases "findSender (kind t) (senders c)")
  case None
  with assms have a: "addTrack t c = Inr c'" by (simp add: syncTrack_def)
  from None have "outbound (kind t) c = 0" by (simp add: findSender_None outbound_def)
  with addTrack_outbound [OF None a, of k] show ?thesis by auto
next
  case (Some i)
  with assms have c': "c' = replaceTrack i t c" by (simp add: syncTrack_def)
  from findSender_Some [OF Some] have "outbound (kind t) c \<ge> 1"
    by (auto simp: outbound_def Suc_le_eq length_pos_if_in_set filter_empty_conv
        intro!: length_pos_if_in_set [of "senders c ! i"])
  with replaceTrack_outbound [OF Some, of k] c' show ?thesis by auto
qed

lemma syncTracks_outbound:
  "outbound k c \<le> 1 \<Longrightarrow> outbound k (snd (syncTracks ts c)) \<le> 1"
proof (induction ts arbitrary: c)
  case Nil
  then show ?case by simp
next
  case (Cons t ts)
  show ?case
  proof (cases "syncTrack t c")
    case (Inl err)
    with Cons.prems show ?thesis by simp
  next
    case (Inr c')
    from syncTrack_outbound [OF Inr, of k] Cons.prems have "outbound k c' \<le> 1" by auto
    from Cons.IH [OF this] Inr show ?thesis by simp
  qed
qed

lemma syncPeers_outbound:
  "outbound k (conns m cid) \<le> 1 \<Longrightarrow> outbound k (conns (snd (syncPeers ts ps m)) cid) \<le> 1"
proof (induction ps arbitrary: m)
  case Nil
  then show ?case by simp
next
  case (Cons p ps)
  obtain r c' where s: "syncTracks ts (conns m (connection p)) = (r, c')"
    by (cases "syncTracks ts (conns m (connection p))")
  have c': "outbound k (conns (setConn (connection p) c' m) cid) \<le> 1"
    using syncTracks_outbound [of k "conns m (connection p)" ts] s Cons.prems by auto
  show ?case
  proof (cases r)
    case None
    with s Cons.IH [OF c'] show ?thesis by simp
  next
    case (Some err)
    with s c' show ?thesis by simp
  qed
qed

lemma syncPeers_localStream [simp]:
  "localStream (snd (syncPeers ts ps m)) = localStream m"
  "peers (snd (syncPeers ts ps m)) = peers m"
  by (induction ps arbitrary: m; simp split: prod.split option.split)+

text \<open>On an open connection a track is always taken.\<close>

lemma syncTrack_open:
  assumes "signalingState c \<noteq> SigClosed"
  shows "\<exists>c'. syncTrack t c = Inr c' \<and> signalingState c' = signalingState c"
proof (cases "findSender (kind t) (senders c)")
  case None
  then have "filter (carries (kind t)) (senders c) = []" by (simp add: findSender_None)
  then have "Some t \<notin> strack ` set (senders c)"
    by (force simp: filter_empty_conv carries_def split: option.splits)
  with None assms show ?thesis by (simp add: syncTrack_def addTrack_def)
next
  case (Some i)
  with assms show ?thesis by (simp add: syncTrack_def replaceTrack_def)
qed

lemma syncTracks_open:
  "signalingState c \<noteq> SigClosed \<Longrightarrow>
     fst (syncTracks ts c) = None \<and> signalingState (snd (syncTracks ts c)) = signalingState c"
proof (induction ts arbitrary: c)
  case Nil
  then show ?case by simp
next
  case (Cons t ts)
  from syncTrack_open [OF Cons.prems, of t] obtain c'
    where c': "syncTrack t c = Inr c'" and s: "signalingState c' = signalingState c" by blast
  with Cons.prems have "signalingState c' \<noteq> SigClosed" by simp
  from Cons.IH [OF this] c' s show ?case by simp
qed

lemma syncPeers_open:
  assumes "\<forall>p\<in>set ps. signalingState (conns m (connection p)) \<noteq> SigClosed"
    and "distinct (map connection ps)"
  shows "fst (syncPeers ts ps m) = None
     \<and> (\<forall>c. conns (snd (syncPeers ts ps m)) c =
             (if c \<in> connection ` set ps then snd (syncTracks ts (conns m c)) else conns m c))"
  using assms
proof (induction ps arbitrary: m)
  case Nil
  then show ?case by simp
next
  case (Cons p ps)
  let ?c = "conns m (connection p)"
  let ?m1 = "setConn (connection p) (snd (syncTracks ts ?c)) m"
  from Cons.prems have op: "signalingState ?c \<noteq> SigClosed" by simp
  from syncTracks_open [OF op, of ts]
  have r: "syncTracks ts ?c = (None, snd (syncTracks ts ?c))" by (simp add: prod_eq_iff)
  have step: "syncPeers ts (p # ps) m = syncPeers ts ps ?m1"
    using r by (metis (mono_tags, lifting) syncPeers.simps(2) case_prod_conv option.simps(4))
  from Cons.prems have notin: "connection p \<notin> connection ` set ps" by auto
  have pre: "\<forall>q\<in>set ps. signalingState (conns ?m1 (connection q)) \<noteq> SigClosed"
  proof
    fix q assume q: "q \<in> set ps"
    with notin have "connection q \<noteq> connection p" by (metis imageI)
    with q Cons.prems show "signalingState (conns ?m1 (connection q)) \<noteq> SigClosed" by simp
  qed
  from Cons.prems have d: "distinct (map connection ps)" by simp
  from Cons.IH [OF pre d] notin show ?case
    unfolding step by auto
qed

lemma calling_connection:
  "senders (conns callingManager 0) = [\<lparr>strack = Some camTrack\<rparr>]"
  "signalingState (conns callingManager 0) = HaveLocalOffer"
  by (simp_all add: callingManager_def cameraManager_def createPeer_def buildPeer_def
      constructor_def quietEnv_def newConnection_def addLocalTrack_def
      addTrack_def camTrack_def createDataChannel_def createOffer_def
      setLocalDescription_def sendOffer_def setConn_def Let_def)

subsection \<open>Creating peers\<close>

lemma addTrack_Inr:
  "addTrack t c = Inr c' \<Longrightarrow> c' = c\<lparr>senders := senders c @ [\<lparr>strack = Some t\<rparr>]\<rparr>"
  by (simp add: addTrack_def split: if_splits)

lemma addLocalTrack_fields [simp]:
  "peers (addLocalTrack cid m t) = peers m"
  "emitted (addLocalTrack cid m t) = emitted m"
  "delivered (addLocalTrack cid m t) = delivered m"
  "eventListeners (addLocalTrack cid m t) = eventListeners m"
  "sent (addLocalTrack cid m t) = sent m"
  "timers (addLocalTrack cid m t) = timers m"
  "nextConn (addLocalTrack cid m t) = nextConn m"
  "chanClosed (addLocalTrack cid m t) = chanClosed m"
  "nextChan (addLocalTrack cid m t) = nextChan m"
  "localStream (addLocalTrack cid m t) = localStream m"
  "screenStream (addLocalTrack cid m t) = screenStream m"
  "userId (addLocalTrack cid m t) = userId m"
  "roomId (addLocalTrack cid m t) = roomId m"
  "signalingState (conns (addLocalTrack cid m t) c) = signalingState (conns m c)"
  "connectionState (conns (addLocalTrack cid m t) c) = connectionState (conns m c)"
  "pendingLocal (conns (addLocalTrack cid m t) c) = pendingLocal (conns m c)"
  "currentLocal (conns (addLocalTrack cid m t) c) = currentLocal (conns m c)"
  "pendingRemote (conns (addLocalTrack cid m t) c) = pendingRemote (conns m c)"
  "currentRemote (conns (addLocalTrack cid m t) c) = currentRemote (conns m c)"
  "addIceCalls (conns (addLocalTrack cid m t) c) = addIceCalls (conns m c)"
  "remoteCandidates (conns (addLocalTrack cid m t) c) = remoteCandidates (conns m c)"
  "restarts (conns (addLocalTrack cid m t) c) = restarts (conns m c)"
  "handlerPeerId (conns (addLocalTrack cid m t) c) = handlerPeerId (conns m c)"
  "remoteDescription (conns (addLocalTrack cid m t) c) = remoteDescription (conns m c)"
  by (auto simp: addLocalTrack_def split: option.split sum.split dest!: addTrack_Inr)

lemma addLocalTrack_other [simp]:
  "c \<noteq> cid \<Longrightarrow> conns (addLocalTrack cid m t) c = conns m c"
  by (simp add: addLocalTrack_def split: option.split sum.split)

lemma addLocalTrack_outbound:
  "outbound k (conns m c) \<le> 1 \<Longrightarrow> outbound k (conns (addLocalTrack cid m t) c) \<le> 1"
proof (cases "c = cid")
  case False
  assume "outbound k (conns m c) \<le> 1"
  with False show ?thesis by simp
next
  case True
  assume h: "outbound k (conns m c) \<le> 1"
  show ?thesis
  proof (cases "findSender (kind t) (senders (conns m cid))")
    case (Some i)
    with h True show ?thesis by (simp add: addLocalTrack_def)
  next
    case None
    show ?thesis
    proof (cases "addTrack t (conns m cid)")
      case (Inl err)
      with None h True show ?thesis by (simp add: addLocalTrack_def outbound_def)
    next
      case (Inr c')
      from addTrack_outbound [OF None Inr, of k] h True None Inr
      show ?thesis by (simp add: addLocalTrack_def)
    qed
  qed
qed

lemma foldl_addLocalTrack_fields [simp]:
  "peers (foldl (addLocalTrack cid) m ts) = peers m"
  "emitted (foldl (addLocalTrack cid) m ts) = emitted m"
  "delivered (foldl (addLocalTrack cid) m ts) = delivered m"
  "eventListeners (foldl (addLocalTrack cid) m ts) = eventListeners m"
  "sent (foldl (addLocalTrack cid) m ts) = sent m"
  "timers (foldl (addLocalTrack cid) m ts) = timers m"
  "nextConn (foldl (addLocalTrack cid) m ts) = nextConn m"
  "chanClosed (foldl (addLocalTrack cid) m ts) = chanClosed m"
  "nextChan (foldl (addLocalTrack cid) m ts) = nextChan m"
  "localStream (foldl (addLocalTrack cid) m ts) = localStream m"
  "screenStream (foldl (addLocalTrack cid) m ts) = screenStream m"
  "userId (foldl (addLocalTrack cid) m ts) = userId m"
  "roomId (foldl (addLocalTrack cid) m ts) = roomId m"
  "signalingState (conns (foldl (addLocalTrack cid) m ts) c) = signalingState (conns m c)"
  "connectionState (conns (foldl (addLocalTrack cid) m ts) c) = connectionState (conns m c)"
  "pendingLocal (conns (foldl (addLocalTrack cid) m ts) c) = pendingLocal (conns m c)"
  "currentLocal (conns (foldl (addLocalTrack cid) m ts) c) = currentLocal (conns m c)"
  "pendingRemote (conns (foldl (addLocalTrack cid) m ts) c) = pendingRemote (conns m c)"
  "currentRemote (conns (foldl (addLocalTrack cid) m ts) c) = currentRemote (conns m c)"
  "addIceCalls (conns (foldl (addLocalTrack cid) m ts) c) = addIceCalls (conns m c)"
  "remoteCandidates (conns (foldl (addLocalTrack cid) m ts) c) = remoteCandidates (conns m c)"
  "restarts (conns (foldl (addLocalTrack cid) m ts) c) = restarts (conns m c)"
  "handlerPeerId (conns (foldl (addLocalTrack cid) m ts) c) = handlerPeerId (conns m c)"
  "remoteDescription (conns (foldl (addLocalTrack cid) m ts) c) = remoteDescription (conns m c)"
  by (induction ts arbitrary: m; simp)+

lemma addTrack_fresh:
  assumes "findSender (kind t) (senders c) = None" and "signalingState c \<noteq> SigClosed"
  shows "addTrack t c = Inr (c\<lparr>senders := senders c @ [\<lparr>strack = Some t\<rparr>]\<rparr>)"
proof -
  from assms(1) have "filter (carries (kind t)) (senders c) = []" by (simp add: findSender_None)
  then have "Some t \<notin> strack ` set (senders c)"
    by (force simp: filter_empty_conv carries_def split: option.splits)
  with assms(2) show ?thesis by (simp add: addTrack_def)
qed

lemma addLocalTrack_errors:
  "signalingState (conns m cid) \<noteq> SigClosed \<Longrightarrow> errors (addLocalTrack cid m t) = errors m"
  by (simp add: addLocalTrack_def addTrack_fresh split: option.split)

lemma foldl_addLocalTrack_errors:
  "signalingState (conns m cid) \<noteq> SigClosed \<Longrightarrow>
     errors (foldl (addLocalTrack cid) m ts) = errors m"
  by (induction ts arbitrary: m) (simp_all add: addLocalTrack_errors)

lemma foldl_addLocalTrack_other [simp]:
  "c \<noteq> cid \<Longrightarrow> conns (foldl (addLocalTrack cid) m ts) c = conns m c"
  by (induction ts arbitrary: m) simp_all

lemma foldl_addLocalTrack_outbound:
  "outbound k (conns m c) \<le> 1 \<Longrightarrow> outbound k (conns (foldl (addLocalTrack cid) m ts) c) \<le> 1"
proof (induction ts arbitrary: m)
  case Nil
  then show ?case by simp
next
  case (Cons t ts)
  from Cons.IH [OF addLocalTrack_outbound [OF Cons.prems]] show ?case by simp
qed

lemma sendOffer_fields [simp]:
  "conns (sendOffer e pid d m) = conns m"
  "peers (sendOffer e pid d m) = peers m"
  "emitted (sendOffer e pid d m) = emitted m"
  "delivered (sendOffer e pid d m) = delivered m"
  "eventListeners (sendOffer e pid d m) = eventListeners m"
  "errors (sendOffer e pid d m) = errors m"
  "timers (sendOffer e pid d m) = timers m"
  "nextConn (sendOffer e pid d m) = nextConn m"
  "chanClosed (sendOffer e pid d m) = chanClosed m"
  "nextChan (sendOffer e pid d m) = nextChan m"
  "localStream (sendOffer e pid d m) = localStream m"
  "screenStream (sendOffer e pid d m) = screenStream m"
  by (simp_all add: sendOffer_def split: option.split)

lemma sendOffer_sent:
  "sent (sendOffer e pid \<lparr>dtype = Offer, sdp = ''offer''\<rparr> m) = sent m @ offerSignal e pid"
  by (simp add: sendOffer_def offerSignal_def split: option.split)

lemma newConnection_fields [simp]:
  "signalingState (newConnection pid) = Stable"
  "connectionState (newConnection pid) = ConnNew"
  "pendingLocal (newConnection pid) = None"
  "currentLocal (newConnection pid) = None"
  "pendingRemote (newConnection pid) = None"
  "currentRemote (newConnection pid) = None"
  "remoteDescription (newConnection pid) = None"
  "senders (newConnection pid) = []"
  "addIceCalls (newConnection pid) = []"
  "remoteCandidates (newConnection pid) = []"
  "restarts (newConnection pid) = 0"
  "handlerPeerId (newConnection pid) = pid"
  "outbound k (newConnection pid) = 0"
  by (simp_all add: newConnection_def remoteDescription_def outbound_def)

text \<open>The session that \<^verbatim>\<open>createPeer\<close> builds for \<open>pid\<close> in state \<open>m\<close>.\<close>

lemma buildPeer_result:
  "fst (buildPeer e pid i m) =
     Inr \<lparr>peerId = pid, connection = nextConn m, stream = None,
          dataChannel = (if i then Some (nextChan m) else None), pendingCandidates = None\<rparr>"
  "peers (snd (buildPeer e pid i m)) =
     AList.update pid
       \<lparr>peerId = pid, connection = nextConn m, stream = None,
        dataChannel = (if i then Some (nextChan m) else None), pendingCandidates = None\<rparr>
       (peers m)"
  "nextConn (snd (buildPeer e pid i m)) = Suc (nextConn m)"
  "emitted (snd (buildPeer e pid i m)) = emitted m"
  "delivered (snd (buildPeer e pid i m)) = delivered m"
  "eventListeners (snd (buildPeer e pid i m)) = eventListeners m"
  "timers (snd (buildPeer e pid i m)) = timers m"
  "localStream (snd (buildPeer e pid i m)) = localStream m"
  "screenStream (snd (buildPeer e pid i m)) = screenStream m"
  "sent (snd (buildPeer e pid i m)) = (if i then sent m @ offerSignal e pid else sent m)"
  "errors (snd (buildPeer e pid i m)) = errors m"
  by (simp_all add: buildPeer_def Let_def createDataChannel_def createOffer_def
      setLocalDescription_def sendOffer_sent foldl_addLocalTrack_errors split: option.split)

lemma buildPeer_connection:
  "signalingState (conns (snd (buildPeer e pid i m)) (nextConn m))
     = (if i then HaveLocalOffer else Stable)"
  "connectionState (conns (snd (buildPeer e pid i m)) (nextConn m)) = ConnNew"
  "remoteDescription (conns (snd (buildPeer e pid i m)) (nextConn m)) = None"
  "handlerPeerId (conns (snd (buildPeer e pid i m)) (nextConn m)) = pid"
  "restarts (conns (snd (buildPeer e pid i m)) (nextConn m)) = 0"
  "addIceCalls (conns (snd (buildPeer e pid i m)) (nextConn m)) = []"
  by (simp_all add: buildPeer_def Let_def createDataChannel_def createOffer_def
      setLocalDescription_def remoteDescription_def split: option.split)

lemma buildPeer_other:
  "c \<noteq> nextConn m \<Longrightarrow> conns (snd (buildPeer e pid i m)) c = conns m c"
  by (simp add: buildPeer_def Let_def createDataChannel_def createOffer_def
      setLocalDescription_def split: option.split)
lemma removePeer_present:
  assumes "map_of (peers m) pid = Some p"
  shows "emitted (removePeer e pid m) = emitted m @ [PeerRemoved pid]"
    and "conns (removePeer e pid m) = (conns m)(connection p := close (conns m (connection p)))"
    and "chanClosed (removePeer e pid m) ch = (chanClosed m ch \<or> dataChannel p = Some ch)"
  using assms by (simp_all add: removePeer_def Let_def closePeer_chanClosed)

lemma createPeer_absent:
  "map_of (peers m) pid = None \<Longrightarrow> createPeer e pid i m = buildPeer e pid i m"
  by (simp add: createPeer_def)

lemma answerOffer_rejected:
  assumes "signalingState (conns m (connection p)) = Stable" and "dtype offer \<noteq> Offer"
  shows "answerOffer e offer from p m = offerCatch e from m"
  using assms by (cases "dtype offer") (simp_all add: answerOffer_def setRemoteDescription_def)

text \<open>An offer from a peer that has no session.\<close>

lemma onWebRTCOffer_absent:
  assumes "map_of (peers m) pid = None"
  shows "onWebRTCOffer e offer pid m =
           answerOffer e offer pid
             \<lparr>peerId = pid, connection = nextConn m, stream = None, dataChannel = None,
              pendingCandidates = None\<rparr>
             (snd (buildPeer e pid False m))"
proof -
  let ?p = "\<lparr>peerId = pid, connection = nextConn m, stream = None, dataChannel = None,
              pendingCandidates = None\<rparr>"
  let ?m1 = "snd (buildPeer e pid False m)"
  obtain r m1 where b: "buildPeer e pid False m = (r, m1)"
    by (cases "buildPeer e pid False m")
  from b buildPeer_result(1) [of e pid False m] have r: "r = Inr ?p" by simp
  from b have m1: "m1 = ?m1" by simp
  have l: "map_of (peers ?m1) pid = Some ?p"
    by (simp add: buildPeer_result update_conv')
  have s: "signalingState (conns ?m1 (connection ?p)) = Stable"
    using buildPeer_connection(1) [of e pid False m] by simp
  have "onWebRTCOffer e offer pid m = acceptOffer e offer pid m1"
    using assms b r by (simp add: onWebRTCOffer_def createPeer_absent)
  also have "\<dots> = answerOffer e offer pid ?p ?m1"
    using l s by (simp add: acceptOffer_def m1)
  finally show ?thesis .
qed

text \<open>
  Claim C5, as amended. A peer that has been removed has no entry in \<open>peers\<close>. As long
  as it has none, an inbound answer and an inbound candidate from it change nothing at
  all: no exception, no event, no session, nothing sent. An inbound offer is not a
  no-op: the handler constructs a new connection for the peer in every case; for a
  well-typed offer it keeps the new responder session, in state \<^verbatim>\<open>stable\<close> on that
  offer, and sends an answer when the socket has an id; for a payload that is no offer
  it removes the session again, which logs an error and emits a \<^verbatim>\<open>peerRemoved\<close> event.
\<close>

theorem removed_peer_messages:
  assumes "map_of (peers m) pid = None"
  shows "map_of (peers (removePeer e pid m0)) pid = None
     \<and> onWebRTCAnswer e answer pid m = m
     \<and> onWebRTCIceCandidate e cand pid m = m
     \<and> nextConn (onWebRTCOffer e offer pid m) = Suc (nextConn m)
     \<and> (dtype offer = Offer \<longrightarrow>
          map_of (peers (onWebRTCOffer e offer pid m)) pid \<noteq> None
          \<and> signalingState (conns (onWebRTCOffer e offer pid m) (nextConn m)) = Stable
          \<and> currentRemote (conns (onWebRTCOffer e offer pid m) (nextConn m)) = Some offer
          \<and> emitted (onWebRTCOffer e offer pid m) = emitted m
          \<and> (socketId e = Some sid \<and> sid \<noteq> [] \<longrightarrow>
               sent (onWebRTCOffer e offer pid m)
                 = sent m @ [WebRTCAnswer pid localAnswer sid]))
     \<and> (dtype offer \<noteq> Offer \<longrightarrow>
          map_of (peers (onWebRTCOffer e offer pid m)) pid = None
          \<and> emitted (onWebRTCOffer e offer pid m) = emitted m @ [PeerRemoved pid]
          \<and> errors (onWebRTCOffer e offer pid m) = errors m @ [''Error handling offer''])"
proof -
  let ?p = "\<lparr>peerId = pid, connection = nextConn m, stream = None, dataChannel = None,
              pendingCandidates = None\<rparr>"
  let ?m1 = "snd (buildPeer e pid False m)"
  note eq = onWebRTCOffer_absent [OF assms, of e offer]
  have l: "map_of (peers ?m1) pid = Some ?p"
    by (simp add: buildPeer_result update_conv')
  have s: "signalingState (conns ?m1 (connection ?p)) = Stable"
    using buildPeer_connection(1) [of e pid False m] by simp
  have good: "dtype offer = Offer \<longrightarrow>
          map_of (peers (onWebRTCOffer e offer pid m)) pid \<noteq> None
          \<and> signalingState (conns (onWebRTCOffer e offer pid m) (nextConn m)) = Stable
          \<and> currentRemote (conns (onWebRTCOffer e offer pid m) (nextConn m)) = Some offer
          \<and> emitted (onWebRTCOffer e offer pid m) = emitted m
          \<and> nextConn (onWebRTCOffer e offer pid m) = Suc (nextConn m)
          \<and> (socketId e = Some sid \<and> sid \<noteq> [] \<longrightarrow>
               sent (onWebRTCOffer e offer pid m)
                 = sent m @ [WebRTCAnswer pid localAnswer sid])"
  proof
    assume off: "dtype offer = Offer"
    note a = answerOffer_stable(1-8) [OF s off, of e pid]
    note a9 = answerOffer_stable(9) [OF s off, of e sid pid]
    from a(6) [of pid] l
    have 1: "map_of (peers (onWebRTCOffer e offer pid m)) pid \<noteq> None" by (simp add: eq)
    from a(1,2) have 2: "signalingState (conns (onWebRTCOffer e offer pid m) (nextConn m)) = Stable"
      "currentRemote (conns (onWebRTCOffer e offer pid m) (nextConn m)) = Some offer"
      by (simp_all add: eq)
    from a(7,8) have 3: "emitted (onWebRTCOffer e offer pid m) = emitted m"
      "nextConn (onWebRTCOffer e offer pid m) = Suc (nextConn m)"
      by (simp_all add: eq buildPeer_result)
    have 4: "socketId e = Some sid \<and> sid \<noteq> [] \<longrightarrow>
               sent (onWebRTCOffer e offer pid m)
                 = sent m @ [WebRTCAnswer pid localAnswer sid]"
      using a9 by (simp add: eq buildPeer_result)
    from 1 2 3 4 show "map_of (peers (onWebRTCOffer e offer pid m)) pid \<noteq> None
          \<and> signalingState (conns (onWebRTCOffer e offer pid m) (nextConn m)) = Stable
          \<and> currentRemote (conns (onWebRTCOffer e offer pid m) (nextConn m)) = Some offer
          \<and> emitted (onWebRTCOffer e offer pid m) = emitted m
          \<and> nextConn (onWebRTCOffer e offer pid m) = Suc (nextConn m)
          \<and> (socketId e = Some sid \<and> sid \<noteq> [] \<longrightarrow>
               sent (onWebRTCOffer e offer pid m)
                 = sent m @ [WebRTCAnswer pid localAnswer sid])" by blast
  qed
  have bad: "dtype offer \<noteq> Offer \<longrightarrow>
          map_of (peers (onWebRTCOffer e offer pid m)) pid = None
          \<and> emitted (onWebRTCOffer e offer pid m) = emitted m @ [PeerRemoved pid]
          \<and> errors (onWebRTCOffer e offer pid m) = errors m @ [''Error handling offer'']
          \<and> nextConn (onWebRTCOffer e offer pid m) = Suc (nextConn m)"
  proof
    assume off: "dtype offer \<noteq> Offer"
    have c: "onWebRTCOffer e offer pid m
        = removePeer e pid (logError ''Error handling offer'' ?m1)"
      using l by (simp add: eq answerOffer_rejected [OF s off] offerCatch_def Let_def)
    have l': "map_of (peers (logError ''Error handling offer'' ?m1)) pid = Some ?p"
      using l by simp
    have er: "errors ?m1 = errors m"
      by (simp add: buildPeer_result)
    show "map_of (peers (onWebRTCOffer e offer pid m)) pid = None
          \<and> emitted (onWebRTCOffer e offer pid m) = emitted m @ [PeerRemoved pid]
          \<and> errors (onWebRTCOffer e offer pid m) = errors m @ [''Error handling offer'']
          \<and> nextConn (onWebRTCOffer e offer pid m) = Suc (nextConn m)"
      unfolding c
      using removePeer_present(1) [OF l', of e]
      by (simp add: removePeer_fields delete_conv' buildPeer_result er)
  qed
  have n: "nextConn (onWebRTCOffer e offer pid m) = Suc (nextConn m)"
    using good bad by blast
  have quiet: "onWebRTCAnswer e answer pid m = m" "onWebRTCIceCandidate e cand pid m = m"
    using assms by (simp_all add: onWebRTCAnswer_def onWebRTCIceCandidate_def)
  show ?thesis
    using removePeer_gone [of e pid m0] quiet n good bad by blast
qed

lemma removedState_peers: "peers removedState = []"
  by (simp add: removedState_def removePeer_fields example_states AList.delete_eq)

theorem removed_peer_messages_witness:
  "map_of (peers removedState) ''B'' = None
   \<and> onWebRTCAnswer quietEnv someAnswer ''B'' removedState = removedState
   \<and> onWebRTCIceCandidate quietEnv (Some ''candidate'') ''B'' removedState = removedState
   \<and> map_of (peers (onWebRTCOffer quietEnv someOffer ''B'' removedState)) ''B'' \<noteq> None
   \<and> sent (onWebRTCOffer quietEnv someOffer ''B'' removedState)
       = sent removedState @ [WebRTCAnswer ''B'' localAnswer ''me'']
   \<and> emitted (onWebRTCOffer quietEnv someAnswer ''B'' removedState)
       = emitted removedState @ [PeerRemoved ''B'']"
proof -
  have h: "map_of (peers removedState) ''B'' = None" by (simp add: removedState_peers)
  have o: "dtype someOffer = Offer" by (simp add: someOffer_def)
  have a: "dtype someAnswer \<noteq> Offer" by (simp add: someAnswer_def)
  have s: "socketId quietEnv = Some ''me''" by (simp add: quietEnv_def)
  from removed_peer_messages
    [OF h, of quietEnv freshResponder someAnswer "Some ''candidate''" someOffer "''me''"]
    removed_peer_messages
    [OF h, of quietEnv freshResponder someAnswer "Some ''candidate''" someAnswer "''me''"]
    h o a s
  show ?thesis by simp
qed

text \<open>
  Claim C5 as stated fails for offers: after \<^verbatim>\<open>removePeer\<close>, an inbound offer from the
  removed peer creates a new session for it and sends an answer.
\<close>

theorem offer_after_removal_counterexample:
  "peers removedState = []
   \<and> sent removedState = []
   \<and> map fst (peers (onWebRTCOffer quietEnv someOffer ''B'' removedState)) = [''B'']
   \<and> sent (onWebRTCOffer quietEnv someOffer ''B'' removedState)
       = [WebRTCAnswer ''B'' localAnswer ''me'']"
proof -
  have h: "map_of (peers removedState) ''B'' = None" by (simp add: removedState_peers)
  have s: "sent removedState = []"
    by (simp add: removedState_def removePeer_fields freshResponder_def createPeer_def
        buildPeer_result constructor_def)
  have n: "signalingState (conns (snd (buildPeer quietEnv ''B'' False removedState))
             (nextConn removedState)) = Stable"
    using buildPeer_connection(1) [of quietEnv "''B''" False removedState] by simp
  show ?thesis
    using s n
    by (simp add: removedState_peers onWebRTCOffer_absent [OF h] answerOffer_def
        setRemoteDescription_def createAnswer_def setLocalDescription_def someOffer_def
        flushPendingIce_def sendAnswer_def quietEnv_def buildPeer_result localAnswer_def)
qed

subsection \<open>Buffering and flushing candidates\<close>

lemma pendingList_update [simp]:
  "pendingList (p\<lparr>pendingCandidates := Some cs\<rparr>) = cs"
  by (simp add: pendingList_def)






lemma flushPendingIce_signaling [simp]:
  "signalingState (conns (flushPendingIce e p m) c) = signalingState (conns m c)"
  "connectionState (conns (flushPendingIce e p m) c) = connectionState (conns m c)"
  "pendingLocal (conns (flushPendingIce e p m) c) = pendingLocal (conns m c)"
  "currentLocal (conns (flushPendingIce e p m) c) = currentLocal (conns m c)"
  "pendingRemote (conns (flushPendingIce e p m) c) = pendingRemote (conns m c)"
  "currentRemote (conns (flushPendingIce e p m) c) = currentRemote (conns m c)"
  "remoteDescription (conns (flushPendingIce e p m) c) = remoteDescription (conns m c)"
  "senders (conns (flushPendingIce e p m) c) = senders (conns m c)"
  "restarts (conns (flushPendingIce e p m) c) = restarts (conns m c)"
  "handlerPeerId (conns (flushPendingIce e p m) c) = handlerPeerId (conns m c)"
  by (simp_all add: flushPendingIce_eq)

lemma flushPendingIce_frame [simp]:
  "emitted (flushPendingIce e p m) = emitted m"
  "delivered (flushPendingIce e p m) = delivered m"
  "eventListeners (flushPendingIce e p m) = eventListeners m"
  "sent (flushPendingIce e p m) = sent m"
  "timers (flushPendingIce e p m) = timers m"
  "nextConn (flushPendingIce e p m) = nextConn m"
  "chanClosed (flushPendingIce e p m) = chanClosed m"
  "nextChan (flushPendingIce e p m) = nextChan m"
  "localStream (flushPendingIce e p m) = localStream m"
  "screenStream (flushPendingIce e p m) = screenStream m"
  by (simp_all add: flushPendingIce_eq)

lemma flushPendingIce_other:
  "c \<noteq> connection p \<Longrightarrow> conns (flushPendingIce e p m) c = conns m c"
  by (simp add: flushPendingIce_eq)






subsection \<open>An invariant of all runs\<close>

lemma wellFormed_cong:
  "peers m' = peers m \<Longrightarrow> conns m' = conns m \<Longrightarrow> timers m' = timers m \<Longrightarrow>
     nextConn m' = nextConn m \<Longrightarrow> wellFormed m' = wellFormed m"
  by (simp add: wellFormed_def)

lemma wellFormedI:
  assumes "distinct (map fst (peers m))"
    and "\<And>k p. map_of (peers m) k = Some p \<Longrightarrow>
           peerId p = k \<and> connection p < nextConn m
           \<and> handlerPeerId (conns m (connection p)) = k
           \<and> signalingState (conns m (connection p)) \<noteq> SigClosed"
    and "\<And>c. signalingState (conns m c) \<noteq> SigClosed \<Longrightarrow>
           \<exists>p. map_of (peers m) (handlerPeerId (conns m c)) = Some p \<and> connection p = c"
    and "\<And>c. signalingState (conns m c) = SigClosed \<Longrightarrow>
           connectionState (conns m c) = ConnClosed"
    and "\<And>k c. (k, c) \<in> set (timers m) \<Longrightarrow>
           c < nextConn m \<and> handlerPeerId (conns m c) = k"
    and "\<And>c k. outbound k (conns m c) \<le> 1"
  shows "wellFormed m"
  unfolding wellFormed_def using assms by (intro conjI allI impI ballI; (simp; fail)?) auto

lemma wellFormed_distinct: "wellFormed m \<Longrightarrow> distinct (map fst (peers m))"
  by (simp add: wellFormed_def)

lemma wellFormed_peer:
  "wellFormed m \<Longrightarrow> map_of (peers m) k = Some p \<Longrightarrow>
     peerId p = k \<and> connection p < nextConn m
     \<and> handlerPeerId (conns m (connection p)) = k
     \<and> signalingState (conns m (connection p)) \<noteq> SigClosed"
  unfolding wellFormed_def by blast

lemma wellFormed_open:
  "wellFormed m \<Longrightarrow> signalingState (conns m c) \<noteq> SigClosed \<Longrightarrow>
     \<exists>p. map_of (peers m) (handlerPeerId (conns m c)) = Some p \<and> connection p = c"
  unfolding wellFormed_def by blast

lemma wellFormed_closed:
  "wellFormed m \<Longrightarrow> signalingState (conns m c) = SigClosed \<Longrightarrow>
     connectionState (conns m c) = ConnClosed"
  unfolding wellFormed_def by blast

lemma wellFormed_timer:
  "wellFormed m \<Longrightarrow> (k, c) \<in> set (timers m) \<Longrightarrow> c < nextConn m \<and> handlerPeerId (conns m c) = k"
  unfolding wellFormed_def by force

lemma wellFormed_outbound: "wellFormed m \<Longrightarrow> outbound k (conns m c) \<le> 1"
  unfolding wellFormed_def by blast

lemma wellFormed_constructor: "wellFormed (constructor u r)"
  by (rule wellFormedI) (simp_all add: constructor_def outbound_def newConnection_def close_def)

lemma wellFormed_emitEvent [simp]: "wellFormed (emitEvent e ev m) = wellFormed m"
  by (rule wellFormed_cong) simp_all

lemma wellFormed_logError [simp]: "wellFormed (logError msg m) = wellFormed m"
  by (rule wellFormed_cong) simp_all

lemma wellFormed_sendAnswer [simp]: "wellFormed (sendAnswer e from a m) = wellFormed m"
  by (rule wellFormed_cong) simp_all

lemma wellFormed_sendOffer [simp]: "wellFormed (sendOffer e pid d m) = wellFormed m"
  by (rule wellFormed_cong) simp_all

lemma wellFormed_onEvent [simp]: "wellFormed (onEvent l m) = wellFormed m" "wellFormed (offEvent l m) = wellFormed m"
  by (simp_all add: wellFormed_def onEvent_def offEvent_def)
text \<open>Replacing the state of a connection by one of the same identity and openness.\<close>

lemma wellFormed_setConn:
  assumes w: "wellFormed m"
    and h: "handlerPeerId c' = handlerPeerId (conns m cid)"
    and o: "(signalingState c' = SigClosed) = (signalingState (conns m cid) = SigClosed)"
    and cl: "signalingState c' = SigClosed \<longrightarrow> connectionState c' = ConnClosed"
    and ob: "\<And>k. outbound k c' \<le> 1"
  shows "wellFormed (setConn cid c' m)"
proof (rule wellFormedI)
  show "distinct (map fst (peers (setConn cid c' m)))" using wellFormed_distinct [OF w] by simp
next
  fix k p assume "map_of (peers (setConn cid c' m)) k = Some p"
  then have p: "map_of (peers m) k = Some p" by simp
  from wellFormed_peer [OF w p] h o
  show "peerId p = k \<and> connection p < nextConn (setConn cid c' m)
         \<and> handlerPeerId (conns (setConn cid c' m) (connection p)) = k
         \<and> signalingState (conns (setConn cid c' m) (connection p)) \<noteq> SigClosed"
    by (cases "connection p = cid") auto
next
  fix c assume a: "signalingState (conns (setConn cid c' m) c) \<noteq> SigClosed"
  have op: "signalingState (conns m c) \<noteq> SigClosed"
    using a o by (cases "c = cid") auto
  have hp: "handlerPeerId (conns (setConn cid c' m) c) = handlerPeerId (conns m c)"
    using h by (cases "c = cid") auto
  from wellFormed_open [OF w op]
  show "\<exists>p. map_of (peers (setConn cid c' m)) (handlerPeerId (conns (setConn cid c' m) c)) = Some p
          \<and> connection p = c"
    unfolding hp by simp
next
  fix c assume a: "signalingState (conns (setConn cid c' m) c) = SigClosed"
  show "connectionState (conns (setConn cid c' m) c) = ConnClosed"
  proof (cases "c = cid")
    case True
    with a cl show ?thesis by simp
  next
    case False
    with a wellFormed_closed [OF w, of c] show ?thesis by simp
  qed
next
  fix k c assume "(k, c) \<in> set (timers (setConn cid c' m))"
  then have t: "(k, c) \<in> set (timers m)" by simp
  from wellFormed_timer [OF w t] h
  show "c < nextConn (setConn cid c' m) \<and> handlerPeerId (conns (setConn cid c' m) c) = k"
    by (cases "c = cid") auto
next
  fix c k show "outbound k (conns (setConn cid c' m) c) \<le> 1"
    using ob [of k] wellFormed_outbound [OF w, of k c] by (cases "c = cid") auto
qed

lemma wellFormed_peers_map_entry:
  assumes w: "wellFormed m"
    and f: "\<And>q. peerId (f q) = peerId q \<and> connection (f q) = connection q"
  shows "wellFormed (m\<lparr>peers := AList.map_entry k f (peers m)\<rparr>)"
proof (rule wellFormedI)
  show "distinct (map fst (peers (m\<lparr>peers := AList.map_entry k f (peers m)\<rparr>)))"
    using wellFormed_distinct [OF w] by (simp add: distinct_map_entry)
next
  fix k' p assume a: "map_of (peers (m\<lparr>peers := AList.map_entry k f (peers m)\<rparr>)) k' = Some p"
  then obtain q where q: "map_of (peers m) k' = Some q" and pq: "p = q \<or> p = f q"
    by (auto simp: map_of_map_entry split: option.splits if_splits)
  from wellFormed_peer [OF w q] pq f [of q]
  show "peerId p = k' \<and> connection p < nextConn (m\<lparr>peers := AList.map_entry k f (peers m)\<rparr>)
         \<and> handlerPeerId (conns (m\<lparr>peers := AList.map_entry k f (peers m)\<rparr>) (connection p)) = k'
         \<and> signalingState (conns (m\<lparr>peers := AList.map_entry k f (peers m)\<rparr>) (connection p))
             \<noteq> SigClosed"
    by auto
next
  fix c assume "signalingState (conns (m\<lparr>peers := AList.map_entry k f (peers m)\<rparr>) c) \<noteq> SigClosed"
  then have "signalingState (conns m c) \<noteq> SigClosed" by simp
  from wellFormed_open [OF w this] obtain q
    where q: "map_of (peers m) (handlerPeerId (conns m c)) = Some q" and c: "connection q = c"
    by blast
  show "\<exists>p. map_of (peers (m\<lparr>peers := AList.map_entry k f (peers m)\<rparr>))
               (handlerPeerId (conns (m\<lparr>peers := AList.map_entry k f (peers m)\<rparr>) c)) = Some p
          \<and> connection p = c"
    using q c f [of q] by (auto simp: map_of_map_entry)
next
  fix c assume "signalingState (conns (m\<lparr>peers := AList.map_entry k f (peers m)\<rparr>) c) = SigClosed"
  then show "connectionState (conns (m\<lparr>peers := AList.map_entry k f (peers m)\<rparr>) c) = ConnClosed"
    using wellFormed_closed [OF w, of c] by simp
next
  fix k' c assume "(k', c) \<in> set (timers (m\<lparr>peers := AList.map_entry k f (peers m)\<rparr>))"
  then show "c < nextConn (m\<lparr>peers := AList.map_entry k f (peers m)\<rparr>)
      \<and> handlerPeerId (conns (m\<lparr>peers := AList.map_entry k f (peers m)\<rparr>) c) = k'"
    using wellFormed_timer [OF w, of k' c] by simp
next
  fix c k' show "outbound k' (conns (m\<lparr>peers := AList.map_entry k f (peers m)\<rparr>) c) \<le> 1"
    using wellFormed_outbound [OF w, of k' c] by simp
qed

lemma outbound_close [simp]: "outbound k (close c) = outbound k c"
  by (simp add: outbound_def)

lemma wellFormed_removePeer:
  assumes w: "wellFormed m"
  shows "wellFormed (removePeer e pid m)"
proof (cases "map_of (peers m) pid")
  case None
  with w show ?thesis by (simp add: removePeer_absent)
next
  case (Some p)
  let ?m' = "removePeer e pid m"
  have ps: "peers ?m' = AList.delete pid (peers m)" by (simp add: removePeer_fields)
  have cs: "conns ?m' = (conns m)(connection p := close (conns m (connection p)))"
    by (rule removePeer_present(2) [OF Some])
  have ts: "timers ?m' = timers m" "nextConn ?m' = nextConn m"
    by (simp_all add: removePeer_fields)
  note P = wellFormed_peer [OF w Some]
  show ?thesis
  proof (rule wellFormedI)
    show "distinct (map fst (peers ?m'))"
      using wellFormed_distinct [OF w] by (simp add: ps distinct_delete)
  next
    fix k q assume "map_of (peers ?m') k = Some q"
    then have k: "k \<noteq> pid" and q: "map_of (peers m) k = Some q"
      by (auto simp: ps delete_conv' split: if_splits)
    note Q = wellFormed_peer [OF w q]
    from P Q k have "connection q \<noteq> connection p" by auto
    with Q show "peerId q = k \<and> connection q < nextConn ?m'
         \<and> handlerPeerId (conns ?m' (connection q)) = k
         \<and> signalingState (conns ?m' (connection q)) \<noteq> SigClosed"
      by (simp add: cs ts)
  next
    fix c assume a: "signalingState (conns ?m' c) \<noteq> SigClosed"
    then have c: "c \<noteq> connection p" by (auto simp: cs)
    with a have op: "signalingState (conns m c) \<noteq> SigClosed" by (simp add: cs)
    from wellFormed_open [OF w op] obtain q
      where q: "map_of (peers m) (handlerPeerId (conns m c)) = Some q" and cq: "connection q = c"
      by blast
    have "handlerPeerId (conns m c) \<noteq> pid"
    proof
      assume "handlerPeerId (conns m c) = pid"
      with q Some have "q = p" by simp
      with cq c show False by simp
    qed
    with q cq c show "\<exists>q. map_of (peers ?m') (handlerPeerId (conns ?m' c)) = Some q
        \<and> connection q = c"
      by (simp add: ps cs delete_conv')
  next
    fix c assume "signalingState (conns ?m' c) = SigClosed"
    then show "connectionState (conns ?m' c) = ConnClosed"
      using wellFormed_closed [OF w, of c] by (cases "c = connection p") (simp_all add: cs)
  next
    fix k c assume "(k, c) \<in> set (timers ?m')"
    then have "(k, c) \<in> set (timers m)" by (simp add: ts)
    from wellFormed_timer [OF w this]
    show "c < nextConn ?m' \<and> handlerPeerId (conns ?m' c) = k"
      by (cases "c = connection p") (simp_all add: cs ts)
  next
    fix c k show "outbound k (conns ?m' c) \<le> 1"
      using wellFormed_outbound [OF w, of k c] by (cases "c = connection p") (simp_all add: cs)
  qed
qed

lemma buildPeer_outbound:
  "outbound k (conns (snd (buildPeer e pid i m)) (nextConn m)) \<le> 1"
proof -
  let ?m0 = "(setConn (nextConn m) (newConnection pid) m)\<lparr>nextConn := Suc (nextConn m)\<rparr>"
  have z: "outbound k (conns ?m0 (nextConn m)) \<le> 1" by simp
  have o: "\<And>c d. outbound k (c\<lparr>signalingState := HaveLocalOffer, pendingLocal := d\<rparr>)
      = outbound k c"
    by (simp add: outbound_def)
  show ?thesis
    using z foldl_addLocalTrack_outbound [OF z, of "nextConn m"]
    by (simp add: buildPeer_def Let_def createDataChannel_def createOffer_def
        setLocalDescription_def o split: option.split)
qed

lemma wellFormed_buildPeer:
  assumes w: "wellFormed m" and absent: "map_of (peers m) pid = None"
  shows "wellFormed (snd (buildPeer e pid i m))"
proof (rule wellFormedI)
  let ?m' = "snd (buildPeer e pid i m)"
  let ?p = "\<lparr>peerId = pid, connection = nextConn m, stream = None,
             dataChannel = (if i then Some (nextChan m) else None), pendingCandidates = None\<rparr>"
  have ps: "peers ?m' = AList.update pid ?p (peers m)" by (rule buildPeer_result(2))
  have n: "nextConn ?m' = Suc (nextConn m)" by (rule buildPeer_result(3))
  have ts: "timers ?m' = timers m" by (rule buildPeer_result(7))
  note new = buildPeer_connection [of e pid i m]
  note old = buildPeer_other [of _ m e pid i]
  show "distinct (map fst (peers ?m'))"
    using wellFormed_distinct [OF w] by (simp add: ps distinct_update)
  {
    fix k q assume a: "map_of (peers ?m') k = Some q"
    show "peerId q = k \<and> connection q < nextConn ?m'
         \<and> handlerPeerId (conns ?m' (connection q)) = k
         \<and> signalingState (conns ?m' (connection q)) \<noteq> SigClosed"
    proof (cases "k = pid")
      case True
      with a have "q = ?p" by (simp add: ps update_conv')
      with True new(1,4) show ?thesis by (simp add: n)
    next
      case False
      with a have q: "map_of (peers m) k = Some q" by (simp add: ps update_conv')
      note Q = wellFormed_peer [OF w q]
      then have "connection q \<noteq> nextConn m" by simp
      with Q old [of "connection q"] show ?thesis by (simp add: n)
    qed
  }
  {
    fix c assume a: "signalingState (conns ?m' c) \<noteq> SigClosed"
    show "\<exists>q. map_of (peers ?m') (handlerPeerId (conns ?m' c)) = Some q \<and> connection q = c"
    proof (cases "c = nextConn m")
      case True
      with new(4) show ?thesis by (simp add: ps update_conv')
    next
      case False
      with a old [of c] have op: "signalingState (conns m c) \<noteq> SigClosed" by simp
      from wellFormed_open [OF w op] obtain q
        where q: "map_of (peers m) (handlerPeerId (conns m c)) = Some q"
          and cq: "connection q = c" by blast
      from q absent have "handlerPeerId (conns m c) \<noteq> pid" by auto
      with q cq False old [of c] show ?thesis by (simp add: ps update_conv')
    qed
  }
  {
    fix c assume a: "signalingState (conns ?m' c) = SigClosed"
    show "connectionState (conns ?m' c) = ConnClosed"
    proof (cases "c = nextConn m")
      case True
      with a new(1) show ?thesis by (simp split: if_splits)
    next
      case False
      with a old [of c] wellFormed_closed [OF w, of c] show ?thesis by simp
    qed
  }
  {
    fix k c assume "(k, c) \<in> set (timers ?m')"
    then have t: "(k, c) \<in> set (timers m)" by (simp add: ts)
    note T = wellFormed_timer [OF w t]
    then have "c \<noteq> nextConn m" by simp
    with T old [of c] show "c < nextConn ?m' \<and> handlerPeerId (conns ?m' c) = k"
      by (simp add: n)
  }
  {
    fix c k show "outbound k (conns ?m' c) \<le> 1"
      using buildPeer_outbound [of k e pid i m] old [of c] wellFormed_outbound [OF w, of k c]
      by (cases "c = nextConn m") simp_all
  }
qed

lemma wellFormed_createPeer:
  assumes w: "wellFormed m"
  shows "wellFormed (snd (createPeer e pid i m))"
proof (cases "map_of (peers m) pid")
  case None
  with wellFormed_buildPeer [OF w None] show ?thesis by (simp add: createPeer_def)
next
  case (Some p)
  have "wellFormed (snd (buildPeer e pid i (removePeer e pid m)))"
    by (rule wellFormed_buildPeer [OF wellFormed_removePeer [OF w] removePeer_gone])
  with w Some show ?thesis by (simp add: createPeer_def Let_def)
qed

lemma outbound_signaling [simp]:
  "outbound k (c\<lparr>signalingState := s\<rparr>) = outbound k c"
  "outbound k (c\<lparr>connectionState := cs\<rparr>) = outbound k c"
  "outbound k (c\<lparr>pendingLocal := d\<rparr>) = outbound k c"
  "outbound k (c\<lparr>currentLocal := d\<rparr>) = outbound k c"
  "outbound k (c\<lparr>pendingRemote := d\<rparr>) = outbound k c"
  "outbound k (c\<lparr>currentRemote := d\<rparr>) = outbound k c"
  "outbound k (c\<lparr>addIceCalls := xs\<rparr>) = outbound k c"
  "outbound k (c\<lparr>remoteCandidates := xs\<rparr>) = outbound k c"
  "outbound k (c\<lparr>restarts := n\<rparr>) = outbound k c"
  by (simp_all add: outbound_def)

lemma outbound_iceApplied [simp]: "outbound k (iceApplied e xs c) = outbound k c"
  by (simp add: iceApplied_def)

text \<open>A description that a connection takes leaves its identity, its connectivity and
  its senders alone, and the connection was and stays open.\<close>

lemma setRemoteDescription_Inr:
  assumes "setRemoteDescription d c = Inr c'"
  shows "handlerPeerId c' = handlerPeerId c \<and> signalingState c' \<noteq> SigClosed
     \<and> signalingState c \<noteq> SigClosed \<and> connectionState c' = connectionState c
     \<and> outbound k c' = outbound k c"
  using assms
  by (cases "dtype d") (auto simp: setRemoteDescription_def split: if_splits)

lemma setLocalDescription_Inr:
  assumes "setLocalDescription d c = Inr c'"
  shows "handlerPeerId c' = handlerPeerId c \<and> signalingState c' \<noteq> SigClosed
     \<and> signalingState c \<noteq> SigClosed \<and> connectionState c' = connectionState c
     \<and> outbound k c' = outbound k c"
  using assms
  by (cases "dtype d") (auto simp: setLocalDescription_def split: if_splits)

lemma wellFormed_setRemoteDescription:
  assumes w: "wellFormed m" and s: "setRemoteDescription d (conns m cid) = Inr c'"
  shows "wellFormed (setConn cid c' m)"
proof (rule wellFormed_setConn [OF w])
  fix k show "outbound k c' \<le> 1"
    using setRemoteDescription_Inr [OF s, of k] wellFormed_outbound [OF w, of k cid] by simp
qed (use setRemoteDescription_Inr [OF s] in simp_all)

lemma wellFormed_setLocalDescription:
  assumes w: "wellFormed m" and s: "setLocalDescription d (conns m cid) = Inr c'"
  shows "wellFormed (setConn cid c' m)"
proof (rule wellFormed_setConn [OF w])
  fix k show "outbound k c' \<le> 1"
    using setLocalDescription_Inr [OF s, of k] wellFormed_outbound [OF w, of k cid] by simp
qed (use setLocalDescription_Inr [OF s] in simp_all)

lemma wellFormed_flushPendingIce:
  assumes w: "wellFormed m"
  shows "wellFormed (flushPendingIce e p m)"
proof -
  let ?c = "iceApplied e (nonNull (pendingList p)) (conns m (connection p))"
  have 1: "wellFormed (setConn (connection p) ?c m)"
  proof (rule wellFormed_setConn [OF w])
    fix k show "outbound k ?c \<le> 1" using wellFormed_outbound [OF w, of k "connection p"] by simp
  next
    show "signalingState ?c = SigClosed \<longrightarrow> connectionState ?c = ConnClosed"
      using wellFormed_closed [OF w, of "connection p"] by simp
  qed simp_all
  have 2: "wellFormed ((setConn (connection p) ?c m)
      \<lparr>peers := AList.map_entry (peerId p) (\<lambda>q. q\<lparr>pendingCandidates := Some []\<rparr>)
                  (peers (setConn (connection p) ?c m))\<rparr>)"
    by (rule wellFormed_peers_map_entry [OF 1]) simp
  show ?thesis
  proof (cases "pendingList p = []")
    case True
    have "wellFormed (flushPendingIce e p m) = wellFormed (setConn (connection p) ?c m)"
      by (rule wellFormed_cong) (simp_all add: flushPendingIce_eq True)
    with 1 show ?thesis by simp
  next
    case False
    have "wellFormed (flushPendingIce e p m) = wellFormed ((setConn (connection p) ?c m)
      \<lparr>peers := AList.map_entry (peerId p) (\<lambda>q. q\<lparr>pendingCandidates := Some []\<rparr>)
                  (peers (setConn (connection p) ?c m))\<rparr>)"
      by (rule wellFormed_cong) (simp_all add: flushPendingIce_eq False)
    with 2 show ?thesis by simp
  qed
qed

lemma wellFormed_offerCatch: "wellFormed m \<Longrightarrow> wellFormed (offerCatch e from m)"
  by (simp add: offerCatch_def Let_def wellFormed_removePeer)

lemma wellFormed_answerOffer:
  assumes w: "wellFormed m"
  shows "wellFormed (answerOffer e offer from p m)"
proof (cases "setRemoteDescription offer (conns m (connection p))")
  case (Inl err)
  with w show ?thesis by (simp add: answerOffer_def wellFormed_offerCatch)
next
  case (Inr c1)
  let ?m1 = "flushPendingIce e p (setConn (connection p) c1 m)"
  have w1: "wellFormed ?m1"
    by (rule wellFormed_flushPendingIce [OF wellFormed_setRemoteDescription [OF w Inr]])
  show ?thesis
  proof (cases "createAnswer (conns ?m1 (connection p))")
    case (Inl err)
    with Inr w1 show ?thesis by (simp add: answerOffer_def Let_def wellFormed_offerCatch)
  next
    case a: (Inr answer)
    show ?thesis
    proof (cases "setLocalDescription answer (conns ?m1 (connection p))")
      case (Inl err)
      with Inr a w1 show ?thesis by (simp add: answerOffer_def Let_def wellFormed_offerCatch)
    next
      case c2: (Inr c2)
      from wellFormed_setLocalDescription [OF w1 c2] Inr a c2 show ?thesis
        by (simp add: answerOffer_def Let_def)
    qed
  qed
qed

lemma wellFormed_acceptOffer:
  assumes w: "wellFormed m"
  shows "wellFormed (acceptOffer e offer from m)"
proof (cases "map_of (peers m) from")
  case None
  with w show ?thesis by (simp add: acceptOffer_def)
next
  case (Some p)
  show ?thesis
  proof (cases "signalingState (conns m (connection p)) = HaveLocalOffer")
    case False
    with Some wellFormed_answerOffer [OF w] show ?thesis by (simp add: acceptOffer_def)
  next
    case True
    show ?thesis
    proof (cases "setLocalDescription \<lparr>dtype = Rollback, sdp = []\<rparr> (conns m (connection p))")
      case (Inl err)
      with Some True w show ?thesis by (simp add: acceptOffer_def)
    next
      case (Inr c')
      from wellFormed_answerOffer [OF wellFormed_setLocalDescription [OF w Inr]] Some True Inr
      show ?thesis by (simp add: acceptOffer_def)
    qed
  qed
qed

lemma wellFormed_onWebRTCOffer:
  assumes w: "wellFormed m"
  shows "wellFormed (onWebRTCOffer e offer from m)"
proof (cases "map_of (peers m) from")
  case (Some p)
  with wellFormed_acceptOffer [OF w] show ?thesis by (simp add: onWebRTCOffer_def)
next
  case None
  obtain r m1 where c: "createPeer e from False m = (r, m1)"
    by (cases "createPeer e from False m")
  from wellFormed_createPeer [OF w, of e "from" False] c have w1: "wellFormed m1" by simp
  from None c wellFormed_acceptOffer [OF w1] wellFormed_offerCatch [OF w1] show ?thesis
    by (cases r) (simp_all add: onWebRTCOffer_def)
qed

lemma wellFormed_onWebRTCAnswer:
  assumes w: "wellFormed m"
  shows "wellFormed (onWebRTCAnswer e answer from m)"
proof (cases "map_of (peers m) from")
  case None
  with w show ?thesis by (simp add: onWebRTCAnswer_def)
next
  case (Some p)
  show ?thesis
  proof (cases "setRemoteDescription answer (conns m (connection p))")
    case (Inl err)
    with Some w show ?thesis by (simp add: onWebRTCAnswer_def)
  next
    case (Inr c')
    from wellFormed_flushPendingIce [OF wellFormed_setRemoteDescription [OF w Inr]] Some Inr
    show ?thesis by (simp add: onWebRTCAnswer_def)
  qed
qed

lemma wellFormed_onWebRTCIceCandidate:
  assumes w: "wellFormed m"
  shows "wellFormed (onWebRTCIceCandidate e cand from m)"
proof (cases "map_of (peers m) from")
  case None
  with w show ?thesis by (simp add: onWebRTCIceCandidate_def)
next
  case (Some p)
  show ?thesis
  proof (cases "remoteDescription (conns m (connection p)) = None")
    case True
    have "wellFormed (m\<lparr>peers := AList.map_entry from
                (\<lambda>q. q\<lparr>pendingCandidates :=
                         Some ((case pendingCandidates q of None \<Rightarrow> [] | Some cs \<Rightarrow> cs)
                               @ [cand])\<rparr>) (peers m)\<rparr>)"
      by (rule wellFormed_peers_map_entry [OF w]) simp
    with Some True show ?thesis by (simp add: onWebRTCIceCandidate_def)
  next
    case False
    show ?thesis
    proof (cases cand)
      case None
      with Some False w show ?thesis by (auto simp: onWebRTCIceCandidate_def)
    next
      case c: (Some x)
      let ?c = "iceApplied e [x] (conns m (connection p))"
      have 1: "wellFormed (setConn (connection p) ?c m)"
      proof (rule wellFormed_setConn [OF w])
        fix k show "outbound k ?c \<le> 1" using wellFormed_outbound [OF w, of k "connection p"] by simp
      next
        show "signalingState ?c = SigClosed \<longrightarrow> connectionState ?c = ConnClosed"
          using wellFormed_closed [OF w, of "connection p"] by simp
      qed simp_all
      obtain r c' where a: "addIceCandidate e x (conns m (connection p)) = (r, c')"
        by (cases "addIceCandidate e x (conns m (connection p))")
      with addIceCandidate_iceApplied(1) [of e x "conns m (connection p)"]
      have c': "c' = ?c" by simp
      from Some False c a c' 1 show ?thesis
        by (cases r) (auto simp: onWebRTCIceCandidate_def)
    qed
  qed
qed

lemma syncTrack_Inr:
  assumes "syncTrack t c = Inr c'"
  shows "handlerPeerId c' = handlerPeerId c \<and> signalingState c' = signalingState c
     \<and> connectionState c' = connectionState c"
proof (cases "findSender (kind t) (senders c)")
  case None
  with assms have "addTrack t c = Inr c'" by (simp add: syncTrack_def)
  from addTrack_Inr [OF this] show ?thesis by simp
next
  case (Some i)
  with assms show ?thesis by (auto simp: syncTrack_def replaceTrack_def)
qed

lemma syncTracks_identity:
  "handlerPeerId (snd (syncTracks ts c)) = handlerPeerId c
   \<and> signalingState (snd (syncTracks ts c)) = signalingState c
   \<and> connectionState (snd (syncTracks ts c)) = connectionState c"
proof (induction ts arbitrary: c)
  case Nil
  show ?case by simp
next
  case (Cons t ts)
  show ?case
  proof (cases "syncTrack t c")
    case (Inl err)
    then show ?thesis by simp
  next
    case (Inr c')
    with Cons [of c'] syncTrack_Inr [OF Inr] show ?thesis by simp
  qed
qed

lemma wellFormed_syncPeers:
  "wellFormed m \<Longrightarrow> wellFormed (snd (syncPeers ts ps m))"
proof (induction ps arbitrary: m)
  case Nil
  then show ?case by simp
next
  case (Cons p ps)
  let ?c = "snd (syncTracks ts (conns m (connection p)))"
  have w1: "wellFormed (setConn (connection p) ?c m)"
  proof (rule wellFormed_setConn [OF Cons.prems])
    fix k show "outbound k ?c \<le> 1"
      by (rule syncTracks_outbound [OF wellFormed_outbound [OF Cons.prems]])
  next
    show "signalingState ?c = SigClosed \<longrightarrow> connectionState ?c = ConnClosed"
      using syncTracks_identity [of ts "conns m (connection p)"]
        wellFormed_closed [OF Cons.prems, of "connection p"] by simp
  qed (simp_all add: syncTracks_identity)
  obtain r c' where s: "syncTracks ts (conns m (connection p)) = (r, c')"
    by (cases "syncTracks ts (conns m (connection p))")
  then have c': "c' = ?c" by simp
  from s have st: "syncPeers ts (p # ps) m =
      (case r of None \<Rightarrow> syncPeers ts ps (setConn (connection p) c' m)
       | Some err \<Rightarrow> (Some err, setConn (connection p) c' m))"
    by (simp split: option.split)
  show ?case
  proof (cases r)
    case None
    with Cons.IH [OF w1] show ?thesis unfolding st c' by simp
  next
    case (Some err)
    with w1 show ?thesis unfolding st c' by simp
  qed
qed

lemma wellFormed_setLocalStream:
  assumes "wellFormed m"
  shows "wellFormed (snd (setLocalStream s m))"
proof -
  have "wellFormed (m\<lparr>localStream := Some s\<rparr>) = wellFormed m"
    by (rule wellFormed_cong) simp_all
  with assms wellFormed_syncPeers show ?thesis by (simp add: setLocalStream_def)
qed

lemma wellFormed_cleanup:
  assumes w: "wellFormed m"
  shows "wellFormed (cleanup m)"
proof (rule wellFormedI)
  show "distinct (map fst (peers (cleanup m)))" by simp
next
  fix k p assume "map_of (peers (cleanup m)) k = Some p"
  then show "peerId p = k \<and> connection p < nextConn (cleanup m)
       \<and> handlerPeerId (conns (cleanup m) (connection p)) = k
       \<and> signalingState (conns (cleanup m) (connection p)) \<noteq> SigClosed"
    by simp
next
  fix c assume a: "signalingState (conns (cleanup m) c) \<noteq> SigClosed"
  then have n: "c \<notin> connection ` snd ` set (peers m)"
    and op: "signalingState (conns m c) \<noteq> SigClosed"
    by (auto simp: cleanup_conns split: if_splits)
  from wellFormed_open [OF w op] obtain p
    where p: "map_of (peers m) (handlerPeerId (conns m c)) = Some p" and c: "connection p = c"
    by blast
  from map_of_SomeD [OF p] have "p \<in> snd ` set (peers m)" by force
  with c n have False by auto
  then show "\<exists>p. map_of (peers (cleanup m)) (handlerPeerId (conns (cleanup m) c)) = Some p
      \<and> connection p = c" ..
next
  fix c assume "signalingState (conns (cleanup m) c) = SigClosed"
  then show "connectionState (conns (cleanup m) c) = ConnClosed"
    using wellFormed_closed [OF w, of c] by (auto simp: cleanup_conns split: if_splits)
next
  fix k c assume "(k, c) \<in> set (timers (cleanup m))"
  then have "(k, c) \<in> set (timers m)" by simp
  from wellFormed_timer [OF w this]
  show "c < nextConn (cleanup m) \<and> handlerPeerId (conns (cleanup m) c) = k"
    by (simp add: cleanup_conns)
next
  fix c k show "outbound k (conns (cleanup m) c) \<le> 1"
    using wellFormed_outbound [OF w, of k c] by (simp add: cleanup_conns)
qed

lemma wellFormed_restartIce:
  assumes w: "wellFormed m"
  shows "wellFormed (restartIce pid m)"
proof (cases "map_of (peers m) pid")
  case None
  with w show ?thesis by (simp add: restartIce_def)
next
  case (Some p)
  let ?c = "connRestartIce (conns m (connection p))"
  have "wellFormed (setConn (connection p) ?c m)"
  proof (rule wellFormed_setConn [OF w])
    fix k show "outbound k ?c \<le> 1"
      using wellFormed_outbound [OF w, of k "connection p"] by (simp add: connRestartIce_def)
  next
    show "signalingState ?c = SigClosed \<longrightarrow> connectionState ?c = ConnClosed"
      using wellFormed_closed [OF w, of "connection p"] by (simp add: connRestartIce_def)
  qed (simp_all add: connRestartIce_def)
  with Some w show ?thesis by (simp add: restartIce_def)
qed

lemma wellFormed_timerFires:
  assumes w: "wellFormed m"
  shows "wellFormed (timerFires m)"
proof (cases "timers m")
  case Nil
  with w show ?thesis by (simp add: timerFires_def)
next
  case (Cons t ts)
  obtain pid cid where t: "t = (pid, cid)" by (cases t)
  have w1: "wellFormed (m\<lparr>timers := ts\<rparr>)"
  proof (rule wellFormedI)
    fix k c assume "(k, c) \<in> set (timers (m\<lparr>timers := ts\<rparr>))"
    with Cons have "(k, c) \<in> set (timers m)" by simp
    from wellFormed_timer [OF w this]
    show "c < nextConn (m\<lparr>timers := ts\<rparr>) \<and> handlerPeerId (conns (m\<lparr>timers := ts\<rparr>) c) = k"
      by simp
  qed (use wellFormed_distinct [OF w] wellFormed_peer [OF w] wellFormed_open [OF w]
        wellFormed_closed [OF w] wellFormed_outbound [OF w] in simp_all)
  from w1 wellFormed_restartIce [OF w1] Cons t show ?thesis
    by (simp add: timerFires_def Let_def)
qed

lemma wellFormed_onconnectionstatechange:
  assumes w: "wellFormed m"
  shows "wellFormed (onconnectionstatechange e cid s m)"
proof (cases "signalingState (conns m cid) = SigClosed")
  case True
  with w show ?thesis by (simp add: onconnectionstatechange_def)
next
  case False
  let ?c = "(conns m cid)\<lparr>connectionState := s\<rparr>"
  let ?m1 = "setConn cid ?c m"
  have w1: "wellFormed ?m1"
  proof (rule wellFormed_setConn [OF w])
    fix k show "outbound k ?c \<le> 1" using wellFormed_outbound [OF w, of k cid] by simp
  qed (use False in simp_all)
  from wellFormed_open [OF w False] obtain p
    where p: "map_of (peers m) (handlerPeerId (conns m cid)) = Some p"
      and c: "connection p = cid" by blast
  from wellFormed_peer [OF w p] c have lt: "cid < nextConn m" by simp
  have w2: "wellFormed (?m1\<lparr>timers := timers ?m1 @ [(handlerPeerId (conns m cid), cid)]\<rparr>)"
  proof (rule wellFormedI)
    fix k c'
    assume "(k, c') \<in> set (timers (?m1\<lparr>timers := timers ?m1
               @ [(handlerPeerId (conns m cid), cid)]\<rparr>))"
    then have "(k, c') \<in> set (timers ?m1) \<or> (k = handlerPeerId (conns m cid) \<and> c' = cid)"
      by auto
    then show "c' < nextConn (?m1\<lparr>timers := timers ?m1 @ [(handlerPeerId (conns m cid), cid)]\<rparr>)
        \<and> handlerPeerId (conns (?m1\<lparr>timers := timers ?m1
              @ [(handlerPeerId (conns m cid), cid)]\<rparr>) c') = k"
      using wellFormed_timer [OF w1, of k c'] lt by auto
  qed (use wellFormed_distinct [OF w1] wellFormed_peer [OF w1] wellFormed_open [OF w1]
        wellFormed_closed [OF w1] wellFormed_outbound [OF w1] in simp_all)
  from False w1 w2 wellFormed_removePeer [OF w1] show ?thesis
    by (auto simp: onconnectionstatechange_def Let_def)
qed

lemma wellFormed_step: "wellFormed m \<Longrightarrow> wellFormed (step e m i)"
  by (cases i)
     (simp_all add: wellFormed_createPeer wellFormed_removePeer wellFormed_onWebRTCOffer
        wellFormed_onWebRTCAnswer wellFormed_onWebRTCIceCandidate wellFormed_setLocalStream
        wellFormed_cleanup wellFormed_onconnectionstatechange wellFormed_timerFires)

lemma wellFormed_run: "wellFormed m \<Longrightarrow> wellFormed (run e m ins)"
  unfolding run_def by (induction ins arbitrary: m) (simp_all add: wellFormed_step)

subsection \<open>One session per peer\<close>

lemma createPeer_kept:
  assumes "map_of (peers m) pid = Some p"
    and "\<not> (signalingState (conns m (connection p)) = SigClosed
            \<or> connectionState (conns m (connection p)) = Failed
            \<or> connectionState (conns m (connection p)) = Disconnected)"
  shows "createPeer e pid i m = (Inr p, m)"
  using assms by (simp add: createPeer_def Let_def)

lemma createPeer_healthy:
  assumes "map_of (peers m) pid = Some p"
    and "signalingState (conns m (connection p)) = Stable"
    and "connectionState (conns m (connection p)) = Connected"
  shows "createPeer e pid i m = (Inr p, m)"
  using assms by (simp add: createPeer_def Let_def)

lemma createPeer_stale:
  assumes p: "map_of (peers m) pid = Some p"
    and nh: "\<not> (signalingState (conns m (connection p)) = Stable
               \<and> connectionState (conns m (connection p)) = Connected)"
    and st: "signalingState (conns m (connection p)) = SigClosed
            \<or> connectionState (conns m (connection p)) = Failed
            \<or> connectionState (conns m (connection p)) = Disconnected"
  shows "createPeer e pid i m = buildPeer e pid i (removePeer e pid m)"
  using assms by (auto simp: createPeer_def Let_def)

lemma createPeer_replaces:
  assumes p: "map_of (peers m) pid = Some p"
    and nh: "\<not> (signalingState (conns m (connection p)) = Stable
               \<and> connectionState (conns m (connection p)) = Connected)"
    and st: "signalingState (conns m (connection p)) = SigClosed
            \<or> connectionState (conns m (connection p)) = Failed
            \<or> connectionState (conns m (connection p)) = Disconnected"
  shows "fst (createPeer e pid i m)
           = Inr \<lparr>peerId = pid, connection = nextConn m, stream = None,
                  dataChannel = (if i then Some (nextChan m) else None),
                  pendingCandidates = None\<rparr>"
    and "map_of (peers (snd (createPeer e pid i m))) pid
           = Some \<lparr>peerId = pid, connection = nextConn m, stream = None,
                   dataChannel = (if i then Some (nextChan m) else None),
                   pendingCandidates = None\<rparr>"
    and "k \<noteq> pid \<Longrightarrow> map_of (peers (snd (createPeer e pid i m))) k = map_of (peers m) k"
    and "emitted (snd (createPeer e pid i m)) = emitted m @ [PeerRemoved pid]"
    and "signalingState (conns (snd (createPeer e pid i m)) (nextConn m))
           = (if i then HaveLocalOffer else Stable)"
    and "connection p \<noteq> nextConn m \<Longrightarrow>
           signalingState (conns (snd (createPeer e pid i m)) (connection p)) = SigClosed"
    and "dataChannel p = Some ch \<Longrightarrow> ch \<noteq> nextChan m \<Longrightarrow>
           chanClosed (snd (createPeer e pid i m)) ch"
proof -
  let ?m1 = "removePeer e pid m"
  note eq = createPeer_stale [OF p nh st, of e i]
  have n: "nextConn ?m1 = nextConn m" "nextChan ?m1 = nextChan m"
    by (simp_all add: removePeer_fields)
  show "fst (createPeer e pid i m)
           = Inr \<lparr>peerId = pid, connection = nextConn m, stream = None,
                  dataChannel = (if i then Some (nextChan m) else None),
                  pendingCandidates = None\<rparr>"
    using buildPeer_result(1) [of e pid i ?m1] by (simp add: eq n)
  show "map_of (peers (snd (createPeer e pid i m))) pid
           = Some \<lparr>peerId = pid, connection = nextConn m, stream = None,
                   dataChannel = (if i then Some (nextChan m) else None),
                   pendingCandidates = None\<rparr>"
    by (simp add: eq buildPeer_result(2) update_conv' n)
  show "k \<noteq> pid \<Longrightarrow> map_of (peers (snd (createPeer e pid i m))) k = map_of (peers m) k"
    by (simp add: eq buildPeer_result(2) update_conv' removePeer_fields delete_conv')
  show "emitted (snd (createPeer e pid i m)) = emitted m @ [PeerRemoved pid]"
    by (simp add: eq buildPeer_result(4) removePeer_present(1) [OF p])
  show "signalingState (conns (snd (createPeer e pid i m)) (nextConn m))
           = (if i then HaveLocalOffer else Stable)"
    using buildPeer_connection(1) [of e pid i ?m1] by (simp add: eq n)
  show "connection p \<noteq> nextConn m \<Longrightarrow>
           signalingState (conns (snd (createPeer e pid i m)) (connection p)) = SigClosed"
    using buildPeer_other [of "connection p" ?m1 e pid i]
    by (simp add: eq n removePeer_present(2) [OF p])
  show "dataChannel p = Some ch \<Longrightarrow> ch \<noteq> nextChan m \<Longrightarrow>
           chanClosed (snd (createPeer e pid i m)) ch"
    using removePeer_present(3) [OF p, of e ch]
    by (simp add: eq buildPeer_def Let_def createDataChannel_def createOffer_def
        setLocalDescription_def n split: option.split)
qed

lemma createPeer_distinct:
  assumes "distinct (map fst (peers m))"
  shows "distinct (map fst (peers (snd (createPeer e pid i m))))"
proof (cases "map_of (peers m) pid")
  case None
  with assms show ?thesis
    by (simp add: createPeer_def buildPeer_result(2) distinct_update)
next
  case (Some p)
  have "distinct (map fst (peers (snd (buildPeer e pid i (removePeer e pid m)))))"
    using assms by (simp add: buildPeer_result(2) removePeer_fields distinct_update distinct_delete)
  with Some assms show ?thesis by (simp add: createPeer_def Let_def)
qed

lemma disconnected_state:
  "peers disconnectedState = [(''B'', responderPeer)]"
  "signalingState (conns disconnectedState 0) = Stable"
  "connectionState (conns disconnectedState 0) = Disconnected"
  "nextConn disconnectedState = 1"
  "emitted disconnectedState = []"
  "timers disconnectedState = [(''B'', 0)]"
  by (simp_all add: disconnectedState_def onconnectionstatechange_def Let_def example_states)
     (simp_all add: freshResponder_def createPeer_def buildPeer_result buildPeer_connection
        constructor_def buildPeer_def Let_def newConnection_def setConn_def)

lemma createPeer_teardown:
  assumes p: "map_of (peers m) pid = Some p"
    and nh: "\<not> (signalingState (conns m (connection p)) = Stable
               \<and> connectionState (conns m (connection p)) = Connected)"
    and st: "signalingState (conns m (connection p)) = SigClosed
            \<or> connectionState (conns m (connection p)) = Failed
            \<or> connectionState (conns m (connection p)) = Disconnected"
  shows "connection p \<noteq> nextConn m \<Longrightarrow>
           conns (snd (createPeer e pid i m)) (connection p) = close (conns m (connection p))"
    and "ch \<noteq> nextChan m \<Longrightarrow>
           chanClosed (snd (createPeer e pid i m)) ch = (chanClosed m ch \<or> dataChannel p = Some ch)"
    and "c \<noteq> nextConn m \<Longrightarrow> c \<noteq> connection p \<Longrightarrow>
           conns (snd (createPeer e pid i m)) c = conns m c"
proof -
  let ?m1 = "removePeer e pid m"
  note eq = createPeer_stale [OF p nh st, of e i]
  have n: "nextConn ?m1 = nextConn m" "nextChan ?m1 = nextChan m"
    by (simp_all add: removePeer_fields)
  show "connection p \<noteq> nextConn m \<Longrightarrow>
           conns (snd (createPeer e pid i m)) (connection p) = close (conns m (connection p))"
    using buildPeer_other [of "connection p" ?m1 e pid i]
    by (simp add: eq n removePeer_present(2) [OF p])
  show "c \<noteq> nextConn m \<Longrightarrow> c \<noteq> connection p \<Longrightarrow>
           conns (snd (createPeer e pid i m)) c = conns m c"
    using buildPeer_other [of c ?m1 e pid i]
    by (simp add: eq n removePeer_present(2) [OF p])
  show "ch \<noteq> nextChan m \<Longrightarrow>
           chanClosed (snd (createPeer e pid i m)) ch = (chanClosed m ch \<or> dataChannel p = Some ch)"
    using removePeer_present(3) [OF p, of e ch]
    by (simp add: eq buildPeer_def Let_def createDataChannel_def createOffer_def
        setLocalDescription_def n split: option.split)
qed

lemma disconnected_initiator:
  "peers disconnectedInitiator = [(''B'', initiatorPeer)]"
  "signalingState (conns disconnectedInitiator 0) = HaveLocalOffer"
  "connectionState (conns disconnectedInitiator 0) = Disconnected"
  "nextConn disconnectedInitiator = 1"
  "nextChan disconnectedInitiator = 1"
  "chanClosed disconnectedInitiator 0 = False"
  "emitted disconnectedInitiator = []"
  by (simp_all add: disconnectedInitiator_def onconnectionstatechange_def Let_def example_states)
     (simp_all add: offeringInitiator_def createPeer_def buildPeer_def constructor_def
        quietEnv_def newConnection_def createDataChannel_def createOffer_def
        setLocalDescription_def sendOffer_def setConn_def Let_def)

lemma replaced_initiator:
  "chanClosed (snd (createPeer quietEnv ''B'' True disconnectedInitiator)) 1 = False"
  "signalingState (conns (snd (createPeer quietEnv ''B'' True disconnectedInitiator)) 1)
     = HaveLocalOffer"
proof -
  have p: "map_of (peers disconnectedInitiator) ''B'' = Some initiatorPeer"
    by (simp add: disconnected_initiator)
  have c0: "connection initiatorPeer = 0" by (simp add: initiatorPeer_def)
  have eq: "createPeer quietEnv ''B'' True disconnectedInitiator
      = buildPeer quietEnv ''B'' True (removePeer quietEnv ''B'' disconnectedInitiator)"
    by (rule createPeer_stale [OF p]) (simp_all add: c0 disconnected_initiator)
  show "signalingState (conns (snd (createPeer quietEnv ''B'' True disconnectedInitiator)) 1)
     = HaveLocalOffer"
    using buildPeer_connection(1) [of quietEnv "''B''" True
        "removePeer quietEnv ''B'' disconnectedInitiator"]
    by (simp add: eq removePeer_fields disconnected_initiator)
  show "chanClosed (snd (createPeer quietEnv ''B'' True disconnectedInitiator)) 1 = False"
    unfolding eq
    by (simp add: buildPeer_def Let_def createDataChannel_def createOffer_def
        setLocalDescription_def sendOffer_def quietEnv_def newConnection_def
        removePeer_fields disconnected_initiator split: option.split)
qed

text \<open>
  Claim C4, as amended. \<open>peers\<close> never holds two sessions for one \<open>peerId\<close>, in any run
  from a new manager and across every \<^verbatim>\<open>createPeer\<close>. For a peer that has a session,
  \<^verbatim>\<open>createPeer\<close> returns it unchanged when it is healthy (\<^verbatim>\<open>stable\<close> and \<^verbatim>\<open>connected\<close>).
  Otherwise, when the session is stale, which the code takes to mean signaling state
  \<^verbatim>\<open>closed\<close> or connectivity \<^verbatim>\<open>failed\<close> or \<^verbatim>\<open>disconnected\<close>, it tears the session down: the
  old connection ends closed (signaling and connectivity), the old session's data
  channel, if it has one, ends closed, and \<^verbatim>\<open>peerRemoved\<close> is emitted. It then stores a
  fresh session on a new, open connection in its place, and leaves the sessions, the
  connections and the data channels of other peers alone. In every other state it
  returns the existing session unchanged and starts no negotiation.
\<close>

theorem one_session_per_peer:
  "distinct (map fst (peers (run e (constructor u r) ins)))
   \<and> (distinct (map fst (peers m)) \<longrightarrow> distinct (map fst (peers (snd (createPeer e pid i m)))))
   \<and> (map_of (peers m) pid = Some p \<longrightarrow>
        (signalingState (conns m (connection p)) = Stable
         \<and> connectionState (conns m (connection p)) = Connected \<longrightarrow>
           createPeer e pid i m = (Inr p, m))
      \<and> (\<not> (signalingState (conns m (connection p)) = Stable
               \<and> connectionState (conns m (connection p)) = Connected)
         \<and> (signalingState (conns m (connection p)) = SigClosed
             \<or> connectionState (conns m (connection p)) = Failed
             \<or> connectionState (conns m (connection p)) = Disconnected) \<longrightarrow>
           fst (createPeer e pid i m)
             = Inr \<lparr>peerId = pid, connection = nextConn m, stream = None,
                    dataChannel = (if i then Some (nextChan m) else None),
                    pendingCandidates = None\<rparr>
           \<and> map_of (peers (snd (createPeer e pid i m))) pid
               = Some \<lparr>peerId = pid, connection = nextConn m, stream = None,
                       dataChannel = (if i then Some (nextChan m) else None),
                       pendingCandidates = None\<rparr>
           \<and> (\<forall>k. k \<noteq> pid \<longrightarrow>
                 map_of (peers (snd (createPeer e pid i m))) k = map_of (peers m) k)
           \<and> emitted (snd (createPeer e pid i m)) = emitted m @ [PeerRemoved pid]
           \<and> (connection p < nextConn m \<longrightarrow>
                 signalingState (conns (snd (createPeer e pid i m)) (connection p)) = SigClosed)
           \<and> (connection p < nextConn m \<longrightarrow>
                 connectionState (conns (snd (createPeer e pid i m)) (connection p)) = ConnClosed)
           \<and> (\<forall>ch. dataChannel p = Some ch \<and> ch < nextChan m \<longrightarrow>
                 chanClosed (snd (createPeer e pid i m)) ch)
           \<and> (\<forall>ch. dataChannel p \<noteq> Some ch \<and> ch < nextChan m \<longrightarrow>
                 chanClosed (snd (createPeer e pid i m)) ch = chanClosed m ch)
           \<and> (\<forall>c. c \<noteq> connection p \<and> c < nextConn m \<longrightarrow>
                 conns (snd (createPeer e pid i m)) c = conns m c)
           \<and> signalingState (conns (snd (createPeer e pid i m)) (nextConn m))
               = (if i then HaveLocalOffer else Stable))
      \<and> (\<not> (signalingState (conns m (connection p)) = SigClosed
               \<or> connectionState (conns m (connection p)) = Failed
               \<or> connectionState (conns m (connection p)) = Disconnected) \<longrightarrow>
           createPeer e pid i m = (Inr p, m)))"
proof -
  have inv: "distinct (map fst (peers (run e (constructor u r) ins)))"
    by (rule wellFormed_distinct [OF wellFormed_run [OF wellFormed_constructor]])
  have pres: "distinct (map fst (peers m)) \<longrightarrow>
      distinct (map fst (peers (snd (createPeer e pid i m))))"
    using createPeer_distinct by blast
  have ex: "map_of (peers m) pid = Some p \<longrightarrow>
        (signalingState (conns m (connection p)) = Stable
         \<and> connectionState (conns m (connection p)) = Connected \<longrightarrow>
           createPeer e pid i m = (Inr p, m))
      \<and> (\<not> (signalingState (conns m (connection p)) = Stable
               \<and> connectionState (conns m (connection p)) = Connected)
         \<and> (signalingState (conns m (connection p)) = SigClosed
             \<or> connectionState (conns m (connection p)) = Failed
             \<or> connectionState (conns m (connection p)) = Disconnected) \<longrightarrow>
           fst (createPeer e pid i m)
             = Inr \<lparr>peerId = pid, connection = nextConn m, stream = None,
                    dataChannel = (if i then Some (nextChan m) else None),
                    pendingCandidates = None\<rparr>
           \<and> map_of (peers (snd (createPeer e pid i m))) pid
               = Some \<lparr>peerId = pid, connection = nextConn m, stream = None,
                       dataChannel = (if i then Some (nextChan m) else None),
                       pendingCandidates = None\<rparr>
           \<and> (\<forall>k. k \<noteq> pid \<longrightarrow>
                 map_of (peers (snd (createPeer e pid i m))) k = map_of (peers m) k)
           \<and> emitted (snd (createPeer e pid i m)) = emitted m @ [PeerRemoved pid]
           \<and> (connection p < nextConn m \<longrightarrow>
                 signalingState (conns (snd (createPeer e pid i m)) (connection p)) = SigClosed)
           \<and> (connection p < nextConn m \<longrightarrow>
                 connectionState (conns (snd (createPeer e pid i m)) (connection p)) = ConnClosed)
           \<and> (\<forall>ch. dataChannel p = Some ch \<and> ch < nextChan m \<longrightarrow>
                 chanClosed (snd (createPeer e pid i m)) ch)
           \<and> (\<forall>ch. dataChannel p \<noteq> Some ch \<and> ch < nextChan m \<longrightarrow>
                 chanClosed (snd (createPeer e pid i m)) ch = chanClosed m ch)
           \<and> (\<forall>c. c \<noteq> connection p \<and> c < nextConn m \<longrightarrow>
                 conns (snd (createPeer e pid i m)) c = conns m c)
           \<and> signalingState (conns (snd (createPeer e pid i m)) (nextConn m))
               = (if i then HaveLocalOffer else Stable))
      \<and> (\<not> (signalingState (conns m (connection p)) = SigClosed
               \<or> connectionState (conns m (connection p)) = Failed
               \<or> connectionState (conns m (connection p)) = Disconnected) \<longrightarrow>
           createPeer e pid i m = (Inr p, m))"
  proof
    assume p: "map_of (peers m) pid = Some p"
    have a: "signalingState (conns m (connection p)) = Stable
         \<and> connectionState (conns m (connection p)) = Connected \<longrightarrow>
           createPeer e pid i m = (Inr p, m)"
      using createPeer_healthy [OF p] by blast
    have c: "\<not> (signalingState (conns m (connection p)) = SigClosed
               \<or> connectionState (conns m (connection p)) = Failed
               \<or> connectionState (conns m (connection p)) = Disconnected) \<longrightarrow>
           createPeer e pid i m = (Inr p, m)"
      using createPeer_kept [OF p] by blast
    have b: "\<not> (signalingState (conns m (connection p)) = Stable
               \<and> connectionState (conns m (connection p)) = Connected)
         \<and> (signalingState (conns m (connection p)) = SigClosed
             \<or> connectionState (conns m (connection p)) = Failed
             \<or> connectionState (conns m (connection p)) = Disconnected) \<longrightarrow>
           fst (createPeer e pid i m)
             = Inr \<lparr>peerId = pid, connection = nextConn m, stream = None,
                    dataChannel = (if i then Some (nextChan m) else None),
                    pendingCandidates = None\<rparr>
           \<and> map_of (peers (snd (createPeer e pid i m))) pid
               = Some \<lparr>peerId = pid, connection = nextConn m, stream = None,
                       dataChannel = (if i then Some (nextChan m) else None),
                       pendingCandidates = None\<rparr>
           \<and> (\<forall>k. k \<noteq> pid \<longrightarrow>
                 map_of (peers (snd (createPeer e pid i m))) k = map_of (peers m) k)
           \<and> emitted (snd (createPeer e pid i m)) = emitted m @ [PeerRemoved pid]
           \<and> (connection p < nextConn m \<longrightarrow>
                 signalingState (conns (snd (createPeer e pid i m)) (connection p)) = SigClosed)
           \<and> (connection p < nextConn m \<longrightarrow>
                 connectionState (conns (snd (createPeer e pid i m)) (connection p)) = ConnClosed)
           \<and> (\<forall>ch. dataChannel p = Some ch \<and> ch < nextChan m \<longrightarrow>
                 chanClosed (snd (createPeer e pid i m)) ch)
           \<and> (\<forall>ch. dataChannel p \<noteq> Some ch \<and> ch < nextChan m \<longrightarrow>
                 chanClosed (snd (createPeer e pid i m)) ch = chanClosed m ch)
           \<and> (\<forall>c. c \<noteq> connection p \<and> c < nextConn m \<longrightarrow>
                 conns (snd (createPeer e pid i m)) c = conns m c)
           \<and> signalingState (conns (snd (createPeer e pid i m)) (nextConn m))
               = (if i then HaveLocalOffer else Stable)"
    proof
      assume h: "\<not> (signalingState (conns m (connection p)) = Stable
               \<and> connectionState (conns m (connection p)) = Connected)
         \<and> (signalingState (conns m (connection p)) = SigClosed
             \<or> connectionState (conns m (connection p)) = Failed
             \<or> connectionState (conns m (connection p)) = Disconnected)"
      then have nh: "\<not> (signalingState (conns m (connection p)) = Stable
               \<and> connectionState (conns m (connection p)) = Connected)"
        and st: "signalingState (conns m (connection p)) = SigClosed
             \<or> connectionState (conns m (connection p)) = Failed
             \<or> connectionState (conns m (connection p)) = Disconnected" by blast+
      note r = createPeer_replaces [OF p nh st, where e = e and i = i]
      note t = createPeer_teardown [OF p nh st, where e = e and i = i]
      have x1: "connection p < nextConn m \<longrightarrow>
          connectionState (conns (snd (createPeer e pid i m)) (connection p)) = ConnClosed"
        using t(1) by (auto simp: close_def)
      have x2: "\<forall>ch. dataChannel p = Some ch \<and> ch < nextChan m \<longrightarrow>
          chanClosed (snd (createPeer e pid i m)) ch"
        using t(2) by simp
      have x3: "\<forall>ch. dataChannel p \<noteq> Some ch \<and> ch < nextChan m \<longrightarrow>
          chanClosed (snd (createPeer e pid i m)) ch = chanClosed m ch"
        using t(2) by simp
      have x4: "\<forall>c. c \<noteq> connection p \<and> c < nextConn m \<longrightarrow>
          conns (snd (createPeer e pid i m)) c = conns m c"
        using t(3) by simp
      have "connection p < nextConn m \<longrightarrow>
          signalingState (conns (snd (createPeer e pid i m)) (connection p)) = SigClosed"
        using r(6) by simp
      with r(1,2,4) r(3) r(5) x1 x2 x3 x4 show "fst (createPeer e pid i m)
             = Inr \<lparr>peerId = pid, connection = nextConn m, stream = None,
                    dataChannel = (if i then Some (nextChan m) else None),
                    pendingCandidates = None\<rparr>
           \<and> map_of (peers (snd (createPeer e pid i m))) pid
               = Some \<lparr>peerId = pid, connection = nextConn m, stream = None,
                       dataChannel = (if i then Some (nextChan m) else None),
                       pendingCandidates = None\<rparr>
           \<and> (\<forall>k. k \<noteq> pid \<longrightarrow>
                 map_of (peers (snd (createPeer e pid i m))) k = map_of (peers m) k)
           \<and> emitted (snd (createPeer e pid i m)) = emitted m @ [PeerRemoved pid]
           \<and> (connection p < nextConn m \<longrightarrow>
                 signalingState (conns (snd (createPeer e pid i m)) (connection p)) = SigClosed)
           \<and> (connection p < nextConn m \<longrightarrow>
                 connectionState (conns (snd (createPeer e pid i m)) (connection p)) = ConnClosed)
           \<and> (\<forall>ch. dataChannel p = Some ch \<and> ch < nextChan m \<longrightarrow>
                 chanClosed (snd (createPeer e pid i m)) ch)
           \<and> (\<forall>ch. dataChannel p \<noteq> Some ch \<and> ch < nextChan m \<longrightarrow>
                 chanClosed (snd (createPeer e pid i m)) ch = chanClosed m ch)
           \<and> (\<forall>c. c \<noteq> connection p \<and> c < nextConn m \<longrightarrow>
                 conns (snd (createPeer e pid i m)) c = conns m c)
           \<and> signalingState (conns (snd (createPeer e pid i m)) (nextConn m))
               = (if i then HaveLocalOffer else Stable)"
        by blast
    qed
    from a b c show "(signalingState (conns m (connection p)) = Stable
         \<and> connectionState (conns m (connection p)) = Connected \<longrightarrow>
           createPeer e pid i m = (Inr p, m))
      \<and> (\<not> (signalingState (conns m (connection p)) = Stable
               \<and> connectionState (conns m (connection p)) = Connected)
         \<and> (signalingState (conns m (connection p)) = SigClosed
             \<or> connectionState (conns m (connection p)) = Failed
             \<or> connectionState (conns m (connection p)) = Disconnected) \<longrightarrow>
           fst (createPeer e pid i m)
             = Inr \<lparr>peerId = pid, connection = nextConn m, stream = None,
                    dataChannel = (if i then Some (nextChan m) else None),
                    pendingCandidates = None\<rparr>
           \<and> map_of (peers (snd (createPeer e pid i m))) pid
               = Some \<lparr>peerId = pid, connection = nextConn m, stream = None,
                       dataChannel = (if i then Some (nextChan m) else None),
                       pendingCandidates = None\<rparr>
           \<and> (\<forall>k. k \<noteq> pid \<longrightarrow>
                 map_of (peers (snd (createPeer e pid i m))) k = map_of (peers m) k)
           \<and> emitted (snd (createPeer e pid i m)) = emitted m @ [PeerRemoved pid]
           \<and> (connection p < nextConn m \<longrightarrow>
                 signalingState (conns (snd (createPeer e pid i m)) (connection p)) = SigClosed)
           \<and> (connection p < nextConn m \<longrightarrow>
                 connectionState (conns (snd (createPeer e pid i m)) (connection p)) = ConnClosed)
           \<and> (\<forall>ch. dataChannel p = Some ch \<and> ch < nextChan m \<longrightarrow>
                 chanClosed (snd (createPeer e pid i m)) ch)
           \<and> (\<forall>ch. dataChannel p \<noteq> Some ch \<and> ch < nextChan m \<longrightarrow>
                 chanClosed (snd (createPeer e pid i m)) ch = chanClosed m ch)
           \<and> (\<forall>c. c \<noteq> connection p \<and> c < nextConn m \<longrightarrow>
                 conns (snd (createPeer e pid i m)) c = conns m c)
           \<and> signalingState (conns (snd (createPeer e pid i m)) (nextConn m))
               = (if i then HaveLocalOffer else Stable))
      \<and> (\<not> (signalingState (conns m (connection p)) = SigClosed
               \<or> connectionState (conns m (connection p)) = Failed
               \<or> connectionState (conns m (connection p)) = Disconnected) \<longrightarrow>
           createPeer e pid i m = (Inr p, m))"
      by blast
  qed
  from inv pres ex show ?thesis by blast
qed

theorem one_session_per_peer_witness:
  "map_of (peers disconnectedState) ''B'' = Some responderPeer
   \<and> signalingState (conns disconnectedState (connection responderPeer)) = Stable
   \<and> connectionState (conns disconnectedState (connection responderPeer)) = Disconnected
   \<and> fst (createPeer quietEnv ''B'' False disconnectedState) = Inr replacementPeer
   \<and> map_of (peers (snd (createPeer quietEnv ''B'' False disconnectedState))) ''B''
       = Some replacementPeer
   \<and> emitted (snd (createPeer quietEnv ''B'' False disconnectedState)) = [PeerRemoved ''B'']
   \<and> signalingState (conns (snd (createPeer quietEnv ''B'' False disconnectedState)) 0)
       = SigClosed
   \<and> connectionState (conns (snd (createPeer quietEnv ''B'' False disconnectedState)) 0)
       = ConnClosed
   \<and> signalingState (conns (snd (createPeer quietEnv ''B'' False disconnectedState)) 1)
       = Stable
   \<and> map_of (peers disconnectedInitiator) ''B'' = Some initiatorPeer
   \<and> dataChannel initiatorPeer = Some 0
   \<and> signalingState (conns disconnectedInitiator (connection initiatorPeer)) = HaveLocalOffer
   \<and> connectionState (conns disconnectedInitiator (connection initiatorPeer)) = Disconnected
   \<and> chanClosed disconnectedInitiator 0 = False
   \<and> fst (createPeer quietEnv ''B'' True disconnectedInitiator) = Inr replacementInitiator
   \<and> map_of (peers (snd (createPeer quietEnv ''B'' True disconnectedInitiator))) ''B''
       = Some replacementInitiator
   \<and> emitted (snd (createPeer quietEnv ''B'' True disconnectedInitiator)) = [PeerRemoved ''B'']
   \<and> chanClosed (snd (createPeer quietEnv ''B'' True disconnectedInitiator)) 0 = True
   \<and> signalingState (conns (snd (createPeer quietEnv ''B'' True disconnectedInitiator)) 0)
       = SigClosed
   \<and> connectionState (conns (snd (createPeer quietEnv ''B'' True disconnectedInitiator)) 0)
       = ConnClosed
   \<and> chanClosed (snd (createPeer quietEnv ''B'' True disconnectedInitiator)) 1 = False
   \<and> signalingState (conns (snd (createPeer quietEnv ''B'' True disconnectedInitiator)) 1)
       = HaveLocalOffer
   \<and> map_of (peers freshResponder) ''B'' = Some responderPeer
   \<and> connectionState (conns freshResponder (connection responderPeer)) = ConnNew
   \<and> createPeer quietEnv ''B'' True freshResponder = (Inr responderPeer, freshResponder)
   \<and> map_of (peers connectedState) ''B'' = Some responderPeer
   \<and> signalingState (conns connectedState (connection responderPeer)) = Stable
   \<and> connectionState (conns connectedState (connection responderPeer)) = Connected
   \<and> createPeer quietEnv ''B'' True connectedState = (Inr responderPeer, connectedState)
   \<and> distinct (map fst (peers (run quietEnv (constructor ''A'' ''room'') twiceCreated)))"
proof -
  have g1: "map_of (peers connectedState) ''B'' = Some responderPeer"
    by (simp add: connectedState_def onconnectionstatechange_def Let_def example_states)
  have g2: "signalingState (conns connectedState (connection responderPeer)) = Stable"
    "connectionState (conns connectedState (connection responderPeer)) = Connected"
    by (simp_all add: connectedState_def onconnectionstatechange_def Let_def example_states
        responderPeer_def)
  have c0: "connection responderPeer = 0" by (simp add: responderPeer_def)
  have d1: "map_of (peers disconnectedState) ''B'' = Some responderPeer"
    by (simp add: disconnected_state)
  have d2: "signalingState (conns disconnectedState (connection responderPeer)) = Stable"
    "connectionState (conns disconnectedState (connection responderPeer)) = Disconnected"
    by (simp_all add: c0 disconnected_state)
  have f1: "map_of (peers freshResponder) ''B'' = Some responderPeer"
    by (simp add: example_states)
  have f2: "signalingState (conns freshResponder (connection responderPeer)) = Stable"
    by (simp add: c0 example_states)
  have f3: "connectionState (conns freshResponder (connection responderPeer)) = ConnNew"
    by (simp add: c0 freshResponder_def createPeer_def buildPeer_connection constructor_def)
       (simp add: buildPeer_def Let_def constructor_def newConnection_def setConn_def)
  have i0: "connection initiatorPeer = 0" "dataChannel initiatorPeer = Some 0"
    by (simp_all add: initiatorPeer_def)
  have i1: "map_of (peers disconnectedInitiator) ''B'' = Some initiatorPeer"
    by (simp add: disconnected_initiator)
  have i2: "signalingState (conns disconnectedInitiator (connection initiatorPeer))
      = HaveLocalOffer"
    "connectionState (conns disconnectedInitiator (connection initiatorPeer)) = Disconnected"
    by (simp_all add: i0 disconnected_initiator)
  have i3: "chanClosed disconnectedInitiator 0 = False"
    by (simp add: disconnected_initiator)
  from one_session_per_peer
    [of quietEnv "''A''" "''room''" twiceCreated disconnectedState "''B''" False responderPeer]
    d1 d2
  have r1: "fst (createPeer quietEnv ''B'' False disconnectedState) = Inr replacementPeer
   \<and> map_of (peers (snd (createPeer quietEnv ''B'' False disconnectedState))) ''B''
       = Some replacementPeer
   \<and> emitted (snd (createPeer quietEnv ''B'' False disconnectedState)) = [PeerRemoved ''B'']
   \<and> signalingState (conns (snd (createPeer quietEnv ''B'' False disconnectedState)) 0)
       = SigClosed
   \<and> connectionState (conns (snd (createPeer quietEnv ''B'' False disconnectedState)) 0)
       = ConnClosed
   \<and> signalingState (conns (snd (createPeer quietEnv ''B'' False disconnectedState)) 1)
       = Stable
   \<and> distinct (map fst (peers (run quietEnv (constructor ''A'' ''room'') twiceCreated)))"
    by (simp add: c0 disconnected_state replacementPeer_def)
  from one_session_per_peer
    [of quietEnv "''A''" "''room''" twiceCreated disconnectedInitiator "''B''" True
      initiatorPeer]
    i1 i2
  have r2: "fst (createPeer quietEnv ''B'' True disconnectedInitiator) = Inr replacementInitiator
   \<and> map_of (peers (snd (createPeer quietEnv ''B'' True disconnectedInitiator))) ''B''
       = Some replacementInitiator
   \<and> emitted (snd (createPeer quietEnv ''B'' True disconnectedInitiator)) = [PeerRemoved ''B'']
   \<and> chanClosed (snd (createPeer quietEnv ''B'' True disconnectedInitiator)) 0 = True
   \<and> signalingState (conns (snd (createPeer quietEnv ''B'' True disconnectedInitiator)) 0)
       = SigClosed
   \<and> connectionState (conns (snd (createPeer quietEnv ''B'' True disconnectedInitiator)) 0)
       = ConnClosed
   \<and> signalingState (conns (snd (createPeer quietEnv ''B'' True disconnectedInitiator)) 1)
       = HaveLocalOffer"
    by (simp add: i0 disconnected_initiator replacementInitiator_def)
  from one_session_per_peer
    [of quietEnv "''A''" "''room''" twiceCreated freshResponder "''B''" True responderPeer]
    f1 f2 f3
  have r3: "createPeer quietEnv ''B'' True freshResponder = (Inr responderPeer, freshResponder)"
    by simp
  from one_session_per_peer
    [of quietEnv "''A''" "''room''" twiceCreated connectedState "''B''" True responderPeer]
    g1 g2
  have r4: "createPeer quietEnv ''B'' True connectedState = (Inr responderPeer, connectedState)"
    by simp
  from r1 r2 r3 r4 d1 d2 f1 f3 g1 g2 i0 i1 i2 i3 replaced_initiator(1)
  show ?thesis by blast
qed

text \<open>
  Claim C4 as stated fails: a session whose signaling state is \<^verbatim>\<open>stable\<close> and whose
  connectivity is \<^verbatim>\<open>disconnected\<close> is neither closed nor failed, yet \<^verbatim>\<open>createPeer\<close> does
  not return it; it removes it and builds a new session on a new connection.
\<close>

theorem disconnected_session_counterexample:
  "peers disconnectedState = [(''B'', responderPeer)]
   \<and> signalingState (conns disconnectedState 0) = Stable
   \<and> connectionState (conns disconnectedState 0) = Disconnected
   \<and> peers (snd (createPeer quietEnv ''B'' False disconnectedState)) = [(''B'', replacementPeer)]
   \<and> emitted (snd (createPeer quietEnv ''B'' False disconnectedState)) = [PeerRemoved ''B'']"
proof -
  have p: "map_of (peers disconnectedState) ''B'' = Some responderPeer"
    by (simp add: disconnected_state)
  have c0: "connection responderPeer = 0" by (simp add: responderPeer_def)
  have eq: "createPeer quietEnv ''B'' False disconnectedState
      = buildPeer quietEnv ''B'' False (removePeer quietEnv ''B'' disconnectedState)"
    by (rule createPeer_stale [OF p]) (simp_all add: c0 disconnected_state)
  show ?thesis
    by (simp add: eq disconnected_state buildPeer_result removePeer_fields
        removePeer_present(1) [OF p] AList.delete_eq replacementPeer_def)
qed

subsection \<open>Reconnection\<close>

lemma restartIce_restarts:
  "restarts (conns (restartIce pid m) c) =
     (if \<exists>p. map_of (peers m) pid = Some p \<and> connection p = c
              \<and> signalingState (conns m c) = Stable
      then Suc (restarts (conns m c)) else restarts (conns m c))"
  by (auto simp: restartIce_def connRestartIce_def split: option.split)

lemma timerFires_restart:
  assumes w: "wellFormed m"
    and ch: "restarts (conns (timerFires m) c) \<noteq> restarts (conns m c)"
  shows "(connectionState (conns m c) = Disconnected \<or> connectionState (conns m c) = Failed)
     \<and> signalingState (conns m c) = Stable
     \<and> restarts (conns (timerFires m) c) = Suc (restarts (conns m c))
     \<and> (\<exists>ts. timers m = (handlerPeerId (conns m c), c) # ts)"
proof (cases "timers m")
  case Nil
  with ch show ?thesis by (simp add: timerFires_def)
next
  case (Cons t ts)
  obtain k cid where t: "t = (k, cid)" by (cases t)
  let ?m1 = "m\<lparr>timers := ts\<rparr>"
  have down: "connectionState (conns m cid) = Disconnected
      \<or> connectionState (conns m cid) = Failed"
    using ch Cons t by (auto simp: timerFires_def Let_def split: if_splits)
  then have eq: "timerFires m = restartIce k ?m1"
    using Cons t by (auto simp: timerFires_def Let_def)
  from ch obtain p where p: "map_of (peers m) k = Some p" and cp: "connection p = c"
    and st: "signalingState (conns m c) = Stable"
    and su: "restarts (conns (timerFires m) c) = Suc (restarts (conns m c))"
    unfolding eq restartIce_restarts by (auto split: if_splits)
  from Cons t have "(k, cid) \<in> set (timers m)" by simp
  from wellFormed_timer [OF w this] have hk: "handlerPeerId (conns m cid) = k" by simp
  from down wellFormed_closed [OF w, of cid]
  have "signalingState (conns m cid) \<noteq> SigClosed" by auto
  from wellFormed_open [OF w this] hk p have "connection p = cid" by auto
  with cp have c: "c = cid" by simp
  from down st su Cons t hk show ?thesis unfolding c by simp
qed

lemma onconnectionstatechange_timers:
  assumes "signalingState (conns m cid) \<noteq> SigClosed"
  shows "s = Disconnected \<or> s = Failed \<Longrightarrow>
           timers (onconnectionstatechange e cid s m)
             = timers m @ [(handlerPeerId (conns m cid), cid)]"
    and "s \<noteq> Disconnected \<Longrightarrow> s \<noteq> Failed \<Longrightarrow>
           timers (onconnectionstatechange e cid s m) = timers m"
  using assms by (auto simp: onconnectionstatechange_def Let_def removePeer_fields)

lemma recovery_run:
  assumes op: "signalingState (conns m cid) \<noteq> SigClosed"
    and s: "s = Disconnected \<or> s = Failed"
    and t: "timers m = []"
  shows "timers (run e m [ConnectionStateChange cid s, ConnectionStateChange cid Connected,
                          TimerFires]) = []"
    and "restarts (conns (run e m [ConnectionStateChange cid s,
                                   ConnectionStateChange cid Connected, TimerFires]) c)
           = restarts (conns m c)"
  using assms
  by (auto simp: run_def onconnectionstatechange_def timerFires_def Let_def)

lemma fresh_restarts:
  "restarts (conns freshResponder 0) = 0"
  "timers freshResponder = []"
  "handlerPeerId (conns freshResponder 0) = ''B''"
  by (simp_all add: freshResponder_def createPeer_def buildPeer_def constructor_def
      quietEnv_def newConnection_def setConn_def Let_def)

lemma wellFormed_examples:
  "wellFormed freshResponder"
  "wellFormed disconnectedState"
  unfolding freshResponder_def disconnectedState_def
  by (intro wellFormed_onconnectionstatechange wellFormed_createPeer wellFormed_constructor)+

text \<open>Pending timeouts: only a change of connectivity adds one, only its own expiry
  removes one.\<close>

lemma createPeer_timers: "timers (snd (createPeer e pid i m)) = timers m"
  by (simp add: createPeer_def Let_def buildPeer_result removePeer_fields split: option.split)

lemma offerCatch_timers: "timers (offerCatch e from m) = timers m"
  by (simp add: offerCatch_def Let_def removePeer_fields)

lemma answerOffer_timers: "timers (answerOffer e offer from p m) = timers m"
  by (simp add: answerOffer_def Let_def offerCatch_timers split: sum.split)

lemma acceptOffer_timers: "timers (acceptOffer e offer from m) = timers m"
  by (simp add: acceptOffer_def answerOffer_timers split: option.split sum.split)

lemma onWebRTCOffer_timers: "timers (onWebRTCOffer e offer from m) = timers m"
proof (cases "map_of (peers m) from")
  case None
  obtain r m1 where c: "createPeer e from False m = (r, m1)"
    by (cases "createPeer e from False m")
  from createPeer_timers [of e "from" False m] c have "timers m1 = timers m" by simp
  with None c show ?thesis
    by (cases r) (simp_all add: onWebRTCOffer_def offerCatch_timers acceptOffer_timers)
next
  case (Some p)
  then show ?thesis by (simp add: onWebRTCOffer_def acceptOffer_timers)
qed

lemma onWebRTCAnswer_timers: "timers (onWebRTCAnswer e answer from m) = timers m"
  by (simp add: onWebRTCAnswer_def split: option.split sum.split)

lemma onWebRTCIceCandidate_timers:
  "timers (onWebRTCIceCandidate e cand from m) = timers m"
  by (simp add: onWebRTCIceCandidate_def split: option.split prod.split)

lemma syncPeers_timers: "timers (snd (syncPeers ts ps m)) = timers m"
  by (induction ps arbitrary: m) (simp_all split: prod.split option.split)

lemma setLocalStream_timers: "timers (snd (setLocalStream s m)) = timers m"
  by (simp add: setLocalStream_def syncPeers_timers)

lemma restartIce_timers: "timers (restartIce pid m) = timers m"
  by (simp add: restartIce_def split: option.split)

lemma step_timers:
  assumes "i \<noteq> TimerFires" and "\<forall>cid s. i \<noteq> ConnectionStateChange cid s"
  shows "timers (step e m i) = timers m"
  using assms
  by (cases i)
    (simp_all add: removePeer_fields onEvent_def offEvent_def createPeer_timers
      onWebRTCOffer_timers onWebRTCAnswer_timers onWebRTCIceCandidate_timers
      setLocalStream_timers)

lemma onconnectionstatechange_schedules:
  "timers (onconnectionstatechange e cid s m)
     = timers m @ (if signalingState (conns m cid) \<noteq> SigClosed
                      \<and> (s = Disconnected \<or> s = Failed)
                   then [(handlerPeerId (conns m cid), cid)] else [])"
  by (simp add: onconnectionstatechange_def Let_def removePeer_fields)

lemma timerFires_timers: "timers (timerFires m) = tl (timers m)"
  by (simp add: timerFires_def Let_def restartIce_timers split: list.split)

lemma timerFires_idle:
  assumes "timers m = (k, cid) # ts"
    and "connectionState (conns m cid) \<noteq> Disconnected"
    and "connectionState (conns m cid) \<noteq> Failed"
  shows "timerFires m = m\<lparr>timers := ts\<rparr>"
  using assms by (simp add: timerFires_def)

lemma reconnect_keeps_timer:
  assumes op: "signalingState (conns m cid) \<noteq> SigClosed"
    and s: "s = Disconnected \<or> s = Failed"
  shows "timers (run e m [ConnectionStateChange cid s, ConnectionStateChange cid Connected])
           = timers m @ [(handlerPeerId (conns m cid), cid)]"
    and "connectionState
           (conns (run e m [ConnectionStateChange cid s, ConnectionStateChange cid Connected]) cid)
           = Connected"
    and "timers m = [] \<Longrightarrow>
         run e m [ConnectionStateChange cid s, ConnectionStateChange cid Connected, TimerFires]
           = (run e m [ConnectionStateChange cid s, ConnectionStateChange cid Connected])
               \<lparr>timers := []\<rparr>"
  using assms
  by (auto simp: run_def onconnectionstatechange_def timerFires_def Let_def)

text \<open>
  Claim C7, as amended. Every state a manager reaches is well formed, and in a well
  formed state a timeout calls \<^verbatim>\<open>restartIce()\<close> on a connection only if that connection
  is the one the timeout was scheduled for, its connectivity is still \<^verbatim>\<open>disconnected\<close>
  or \<^verbatim>\<open>failed\<close> and its signaling state is \<^verbatim>\<open>stable\<close>. Every change of an open
  connection's connectivity to \<^verbatim>\<open>disconnected\<close> or \<^verbatim>\<open>failed\<close> schedules one more timeout.
  No timeout is ever cancelled or replaced: a change of connectivity keeps every pending
  timeout (a change to \<^verbatim>\<open>connected\<close> leaves the pending timeouts as they are), every
  method call and every signaling message leaves them as they are, and a timeout that
  elapses removes itself only. A timeout that elapses when the connection it was
  scheduled for is neither \<^verbatim>\<open>disconnected\<close> nor \<^verbatim>\<open>failed\<close> changes nothing else. So when
  connectivity goes to \<^verbatim>\<open>disconnected\<close> or \<^verbatim>\<open>failed\<close> and back to \<^verbatim>\<open>connected\<close>, the
  timeout is still pending after the recovery; when it elapses it restarts nothing and
  only disappears.
\<close>

theorem restart_only_when_still_down:
  "wellFormed (run e (constructor u r) ins)
   \<and> (wellFormed m \<and> restarts (conns (timerFires m) c) \<noteq> restarts (conns m c) \<longrightarrow>
        (connectionState (conns m c) = Disconnected \<or> connectionState (conns m c) = Failed)
        \<and> signalingState (conns m c) = Stable
        \<and> restarts (conns (timerFires m) c) = Suc (restarts (conns m c))
        \<and> (\<exists>ts. timers m = (handlerPeerId (conns m c), c) # ts))
   \<and> (signalingState (conns m cid) \<noteq> SigClosed \<and> (s = Disconnected \<or> s = Failed) \<longrightarrow>
        timers (onconnectionstatechange e cid s m)
          = timers m @ [(handlerPeerId (conns m cid), cid)])
   \<and> (signalingState (conns m cid) \<noteq> SigClosed \<and> (s = Disconnected \<or> s = Failed)
       \<and> timers m = [] \<longrightarrow>
        timers (run e m [ConnectionStateChange cid s, ConnectionStateChange cid Connected,
                         TimerFires]) = []
        \<and> (\<forall>c. restarts (conns (run e m [ConnectionStateChange cid s,
                                          ConnectionStateChange cid Connected, TimerFires]) c)
                 = restarts (conns m c)))
   \<and> timers (onconnectionstatechange e cid s m)
       = timers m @ (if signalingState (conns m cid) \<noteq> SigClosed
                        \<and> (s = Disconnected \<or> s = Failed)
                     then [(handlerPeerId (conns m cid), cid)] else [])
   \<and> (i \<noteq> TimerFires \<and> (\<forall>cid s. i \<noteq> ConnectionStateChange cid s) \<longrightarrow>
        timers (step e m i) = timers m)
   \<and> timers (timerFires m) = tl (timers m)
   \<and> (timers m = (k, cid) # ts \<and> connectionState (conns m cid) \<noteq> Disconnected
       \<and> connectionState (conns m cid) \<noteq> Failed \<longrightarrow>
        timerFires m = m\<lparr>timers := ts\<rparr>)
   \<and> (signalingState (conns m cid) \<noteq> SigClosed \<and> (s = Disconnected \<or> s = Failed) \<longrightarrow>
        timers (run e m [ConnectionStateChange cid s, ConnectionStateChange cid Connected])
          = timers m @ [(handlerPeerId (conns m cid), cid)]
        \<and> connectionState
             (conns (run e m [ConnectionStateChange cid s, ConnectionStateChange cid Connected])
                cid) = Connected)
   \<and> (signalingState (conns m cid) \<noteq> SigClosed \<and> (s = Disconnected \<or> s = Failed)
       \<and> timers m = [] \<longrightarrow>
        run e m [ConnectionStateChange cid s, ConnectionStateChange cid Connected, TimerFires]
          = (run e m [ConnectionStateChange cid s, ConnectionStateChange cid Connected])
              \<lparr>timers := []\<rparr>)"
proof -
  have 1: "wellFormed (run e (constructor u r) ins)"
    by (rule wellFormed_run [OF wellFormed_constructor])
  have 2: "wellFormed m \<and> restarts (conns (timerFires m) c) \<noteq> restarts (conns m c) \<longrightarrow>
        (connectionState (conns m c) = Disconnected \<or> connectionState (conns m c) = Failed)
        \<and> signalingState (conns m c) = Stable
        \<and> restarts (conns (timerFires m) c) = Suc (restarts (conns m c))
        \<and> (\<exists>ts. timers m = (handlerPeerId (conns m c), c) # ts)"
    using timerFires_restart by blast
  have 3: "signalingState (conns m cid) \<noteq> SigClosed \<and> (s = Disconnected \<or> s = Failed) \<longrightarrow>
        timers (onconnectionstatechange e cid s m)
          = timers m @ [(handlerPeerId (conns m cid), cid)]"
    using onconnectionstatechange_timers(1) by blast
  have 4: "signalingState (conns m cid) \<noteq> SigClosed \<and> (s = Disconnected \<or> s = Failed)
       \<and> timers m = [] \<longrightarrow>
        timers (run e m [ConnectionStateChange cid s, ConnectionStateChange cid Connected,
                         TimerFires]) = []
        \<and> (\<forall>c. restarts (conns (run e m [ConnectionStateChange cid s,
                                          ConnectionStateChange cid Connected, TimerFires]) c)
                 = restarts (conns m c))"
    using recovery_run by blast
  have 5: "timers (onconnectionstatechange e cid s m)
       = timers m @ (if signalingState (conns m cid) \<noteq> SigClosed
                        \<and> (s = Disconnected \<or> s = Failed)
                     then [(handlerPeerId (conns m cid), cid)] else [])"
    by (rule onconnectionstatechange_schedules)
  have 6: "i \<noteq> TimerFires \<and> (\<forall>cid s. i \<noteq> ConnectionStateChange cid s) \<longrightarrow>
        timers (step e m i) = timers m"
    using step_timers by blast
  have 7: "timers (timerFires m) = tl (timers m)"
    by (rule timerFires_timers)
  have 8: "timers m = (k, cid) # ts \<and> connectionState (conns m cid) \<noteq> Disconnected
       \<and> connectionState (conns m cid) \<noteq> Failed \<longrightarrow>
        timerFires m = m\<lparr>timers := ts\<rparr>"
    using timerFires_idle by blast
  have 9: "signalingState (conns m cid) \<noteq> SigClosed \<and> (s = Disconnected \<or> s = Failed) \<longrightarrow>
        timers (run e m [ConnectionStateChange cid s, ConnectionStateChange cid Connected])
          = timers m @ [(handlerPeerId (conns m cid), cid)]
        \<and> connectionState
             (conns (run e m [ConnectionStateChange cid s, ConnectionStateChange cid Connected])
                cid) = Connected"
    using reconnect_keeps_timer(1,2) by blast
  have 10: "signalingState (conns m cid) \<noteq> SigClosed \<and> (s = Disconnected \<or> s = Failed)
       \<and> timers m = [] \<longrightarrow>
        run e m [ConnectionStateChange cid s, ConnectionStateChange cid Connected, TimerFires]
          = (run e m [ConnectionStateChange cid s, ConnectionStateChange cid Connected])
              \<lparr>timers := []\<rparr>"
    using reconnect_keeps_timer(3) by blast
  from 1 2 3 4 5 6 7 8 9 10 show ?thesis by blast
qed

theorem restart_only_when_still_down_witness:
  "wellFormed disconnectedState
   \<and> restarts (conns disconnectedState 0) = 0
   \<and> restarts (conns (timerFires disconnectedState) 0) = 1
   \<and> connectionState (conns disconnectedState 0) = Disconnected
   \<and> signalingState (conns disconnectedState 0) = Stable
   \<and> timers disconnectedState = [(''B'', 0)]
   \<and> timers (onconnectionstatechange quietEnv 0 Connected disconnectedState) = [(''B'', 0)]
   \<and> timers (step quietEnv disconnectedState (RemovePeer ''B'')) = [(''B'', 0)]
   \<and> timers (timerFires disconnectedState) = []
   \<and> signalingState (conns freshResponder 0) = Stable
   \<and> timers freshResponder = []
   \<and> timers (run quietEnv freshResponder reconnected) = [(''B'', 0)]
   \<and> connectionState (conns (run quietEnv freshResponder reconnected) 0) = Connected
   \<and> timerFires (run quietEnv freshResponder reconnected)
       = (run quietEnv freshResponder reconnected)\<lparr>timers := []\<rparr>
   \<and> run quietEnv freshResponder recovering
       = (run quietEnv freshResponder reconnected)\<lparr>timers := []\<rparr>
   \<and> timers (run quietEnv freshResponder recovering) = []
   \<and> restarts (conns (run quietEnv freshResponder recovering) 0)
       = restarts (conns freshResponder 0)"
proof -
  have r0: "restarts (conns disconnectedState 0) = 0"
    by (simp add: disconnectedState_def onconnectionstatechange_def Let_def example_states
        fresh_restarts)
  have p: "map_of (peers disconnectedState) ''B'' = Some responderPeer"
    by (simp add: disconnected_state)
  have r1: "restarts (conns (timerFires disconnectedState) 0) = 1"
    using p r0
    by (simp add: timerFires_def disconnected_state Let_def restartIce_restarts
        responderPeer_def)
  have o: "signalingState (conns freshResponder 0) \<noteq> SigClosed"
    by (simp add: example_states)
  have od: "signalingState (conns disconnectedState 0) \<noteq> SigClosed"
    by (simp add: disconnected_state)
  have hd: "handlerPeerId (conns disconnectedState 0) = ''B''"
    by (simp add: disconnectedState_def onconnectionstatechange_def Let_def example_states
        fresh_restarts)
  note a = restart_only_when_still_down
    [where e = quietEnv and u = "''A''" and r = "''room''" and ins = "[]"
      and m = disconnectedState and c = 0 and cid = 0 and s = Connected
      and i = "RemovePeer ''B''" and k = "''B''" and ts = "[]"]
  note b = restart_only_when_still_down
    [where e = quietEnv and u = "''A''" and r = "''room''" and ins = "[]"
      and m = freshResponder and c = 0 and cid = 0 and s = Disconnected
      and i = "RemovePeer ''B''" and k = "''B''" and ts = "[]"]
  note c = restart_only_when_still_down
    [where e = quietEnv and u = "''A''" and r = "''room''" and ins = "[]"
      and m = "run quietEnv freshResponder reconnected" and c = 0 and cid = 0
      and s = Disconnected and i = "RemovePeer ''B''" and k = "''B''" and ts = "[]"]
  from a wellFormed_examples(2) r0 r1 od
  have a1: "connectionState (conns disconnectedState 0) = Disconnected
      \<and> signalingState (conns disconnectedState 0) = Stable
      \<and> timers (onconnectionstatechange quietEnv 0 Connected disconnectedState) = [(''B'', 0)]
      \<and> timers (step quietEnv disconnectedState (RemovePeer ''B'')) = [(''B'', 0)]
      \<and> timers (timerFires disconnectedState) = []"
    by (simp add: disconnected_state hd)
  from b o
  have "timers (run quietEnv freshResponder
                  [ConnectionStateChange 0 Disconnected, ConnectionStateChange 0 Connected])
          = timers freshResponder @ [(handlerPeerId (conns freshResponder 0), 0)]"
    by blast
  then have b1: "timers (run quietEnv freshResponder
                  [ConnectionStateChange 0 Disconnected, ConnectionStateChange 0 Connected])
          = [(''B'', 0)]"
    by (simp add: fresh_restarts)
  from b o
  have b2: "connectionState
      (conns (run quietEnv freshResponder
                [ConnectionStateChange 0 Disconnected, ConnectionStateChange 0 Connected]) 0)
        = Connected"
    by blast
  from b o fresh_restarts(2)
  have b3: "run quietEnv freshResponder
        [ConnectionStateChange 0 Disconnected, ConnectionStateChange 0 Connected, TimerFires]
      = (run quietEnv freshResponder
           [ConnectionStateChange 0 Disconnected, ConnectionStateChange 0 Connected])
          \<lparr>timers := []\<rparr>"
    by blast
  from b o fresh_restarts(2)
  have b4: "timers (run quietEnv freshResponder
        [ConnectionStateChange 0 Disconnected, ConnectionStateChange 0 Connected, TimerFires])
      = []
    \<and> restarts (conns (run quietEnv freshResponder
        [ConnectionStateChange 0 Disconnected, ConnectionStateChange 0 Connected, TimerFires])
          0) = restarts (conns freshResponder 0)"
    by blast
  have dn: "Connected \<noteq> Disconnected" "Connected \<noteq> Failed" by simp_all
  from c [unfolded reconnected_def] b1 b2 dn
  have c1: "timerFires (run quietEnv freshResponder
        [ConnectionStateChange 0 Disconnected, ConnectionStateChange 0 Connected])
      = (run quietEnv freshResponder
           [ConnectionStateChange 0 Disconnected, ConnectionStateChange 0 Connected])
          \<lparr>timers := []\<rparr>"
    by metis
  from a1 b1 b2 b3 b4 c1 wellFormed_examples(2) r0 r1 disconnected_state(6) example_states(3)
    fresh_restarts(2)
  show ?thesis unfolding recovering_def reconnected_def by blast
qed

text \<open>
  Claim C7 as stated fails: when the connectivity of one connection goes to
  \<^verbatim>\<open>disconnected\<close> and then to \<^verbatim>\<open>failed\<close>, two timeouts are outstanding for the same
  peer, and both restart the connection.
\<close>

theorem two_timers_counterexample:
  "timers (run quietEnv freshResponder degrading) = [(''B'', 0), (''B'', 0)]
   \<and> restarts (conns (run quietEnv freshResponder degradingThenTimeouts) 0) = 2"
proof -
  have p: "map_of (peers freshResponder) ''B'' = Some responderPeer"
    by (simp add: example_states)
  show ?thesis
    using p
    by (simp add: run_def degrading_def degradingThenTimeouts_def onconnectionstatechange_def
        timerFires_def restartIce_def connRestartIce_def Let_def example_states
        fresh_restarts responderPeer_def)
qed

subsection \<open>One outbound track per kind\<close>

lemma findSender_first:
  "findSender k ss = Some i \<Longrightarrow> j < i \<Longrightarrow> \<not> carries k (ss ! j)"
proof (induction ss arbitrary: i j)
  case Nil
  then show ?case by simp
next
  case (Cons s ss)
  show ?case
  proof (cases "carries k s")
    case True
    with Cons.prems show ?thesis by (auto simp: carries_def split: option.splits)
  next
    case False
    with Cons.prems obtain i' where i': "findSender k ss = Some i'" and i: "i = Suc i'"
      by (auto simp: carries_def split: option.splits if_splits)
    show ?thesis
    proof (cases j)
      case 0
      with False show ?thesis by simp
    next
      case (Suc j')
      with Cons.prems i have "j' < i'" by simp
      from Cons.IH [OF i' this] Suc show ?thesis by simp
    qed
  qed
qed

lemma filter_update_single:
  "length (filter P xs) \<le> 1 \<Longrightarrow> i < length xs \<Longrightarrow> P (xs ! i) \<Longrightarrow> P y \<Longrightarrow>
     filter P (xs[i := y]) = [y]"
proof (induction xs arbitrary: i)
  case Nil
  then show ?case by simp
next
  case (Cons x xs)
  show ?case
  proof (cases i)
    case 0
    with Cons.prems have "P x" by simp
    with Cons.prems have "filter P xs = []" by simp
    with 0 Cons.prems show ?thesis by simp
  next
    case (Suc j)
    with Cons.prems have j: "j < length xs" and pj: "P (xs ! j)" by simp_all
    then have "xs ! j \<in> set (filter P xs)" by simp
    then have ne: "filter P xs \<noteq> []" by (metis empty_iff list.set(1))
    with Cons.prems have nx: "\<not> P x" by (cases "filter P xs") (auto split: if_splits)
    with Cons.prems have "length (filter P xs) \<le> 1" by simp
    from Cons.IH [OF this j pj Cons.prems(4)] nx Suc show ?thesis by simp
  qed
qed

lemma filter_update_other:
  "i < length xs \<Longrightarrow> \<not> Q (xs ! i) \<Longrightarrow> \<not> Q y \<Longrightarrow> filter Q (xs[i := y]) = filter Q xs"
proof (induction xs arbitrary: i)
  case Nil
  then show ?case by simp
next
  case (Cons x xs)
  then show ?case by (cases i) auto
qed

lemma syncTrack_senders:
  assumes "signalingState c \<noteq> SigClosed"
  shows "findSender (kind t) (senders c) = Some i \<Longrightarrow>
           syncTrack t c = Inr (c\<lparr>senders := (senders c)[i := \<lparr>strack = Some t\<rparr>]\<rparr>)"
    and "findSender (kind t) (senders c) = None \<Longrightarrow>
           syncTrack t c = Inr (c\<lparr>senders := senders c @ [\<lparr>strack = Some t\<rparr>]\<rparr>)"
proof -
  assume "findSender (kind t) (senders c) = Some i"
  with assms show "syncTrack t c = Inr (c\<lparr>senders := (senders c)[i := \<lparr>strack = Some t\<rparr>]\<rparr>)"
    by (simp add: syncTrack_def replaceTrack_def)
next
  assume n: "findSender (kind t) (senders c) = None"
  then have "filter (carries (kind t)) (senders c) = []" by (simp add: findSender_None)
  then have "Some t \<notin> strack ` set (senders c)"
    by (force simp: filter_empty_conv carries_def split: option.splits)
  with n assms show "syncTrack t c = Inr (c\<lparr>senders := senders c @ [\<lparr>strack = Some t\<rparr>]\<rparr>)"
    by (simp add: syncTrack_def addTrack_def)
qed

lemma syncTrack_carried:
  assumes op: "signalingState c \<noteq> SigClosed"
    and one: "outbound k c \<le> 1"
  shows "\<exists>c'. syncTrack t c = Inr c' \<and> signalingState c' = signalingState c
      \<and> filter (carries k) (senders c')
          = (if kind t = k then [\<lparr>strack = Some t\<rparr>] else filter (carries k) (senders c))"
proof (cases "findSender (kind t) (senders c)")
  case None
  from None have e: "filter (carries (kind t)) (senders c) = []" by (simp add: findSender_None)
  from syncTrack_senders(2) [OF op None] e show ?thesis by auto
next
  case (Some i)
  from findSender_Some [OF Some]
  have i: "i < length (senders c)" and ci: "carries (kind t) (senders c ! i)" by simp_all
  have "filter (carries k) ((senders c)[i := \<lparr>strack = Some t\<rparr>])
      = (if kind t = k then [\<lparr>strack = Some t\<rparr>] else filter (carries k) (senders c))"
  proof (cases "kind t = k")
    case True
    with one i ci show ?thesis
      by (simp add: outbound_def filter_update_single)
  next
    case False
    with ci carries_unique have "\<not> carries k (senders c ! i)" by blast
    with False i show ?thesis by (simp add: filter_update_other)
  qed
  with syncTrack_senders(1) [OF op Some] show ?thesis by simp
qed

lemma syncTracks_carried:
  "signalingState c \<noteq> SigClosed \<Longrightarrow> outbound k c \<le> 1 \<Longrightarrow>
     filter (carries k) (senders (snd (syncTracks ts c)))
       = (if ofKind k ts = [] then filter (carries k) (senders c)
          else [\<lparr>strack = Some (last (ofKind k ts))\<rparr>])"
proof (induction ts arbitrary: c)
  case Nil
  then show ?case by (simp add: ofKind_def)
next
  case (Cons t ts)
  from syncTrack_carried [OF Cons.prems, of t] obtain c'
    where c': "syncTrack t c = Inr c'" and s: "signalingState c' = signalingState c"
      and f: "filter (carries k) (senders c')
          = (if kind t = k then [\<lparr>strack = Some t\<rparr>] else filter (carries k) (senders c))"
    by blast
  from s Cons.prems have op: "signalingState c' \<noteq> SigClosed" by simp
  from f Cons.prems have one: "outbound k c' \<le> 1" by (simp add: outbound_def)
  from Cons.IH [OF op one] c' f show ?case by (simp add: ofKind_def)
qed

lemma wellFormed_connections:
  assumes w: "wellFormed m"
  shows "distinct (map (connection \<circ> snd) (peers m))"
proof -
  let ?g = "\<lambda>c. handlerPeerId (conns m c)"
  have "\<forall>x\<in>set (peers m). fst x = ?g (connection (snd x))"
  proof
    fix x assume "x \<in> set (peers m)"
    with wellFormed_distinct [OF w] have "map_of (peers m) (fst x) = Some (snd x)" by simp
    from wellFormed_peer [OF w this] show "fst x = ?g (connection (snd x))" by simp
  qed
  then have "map fst (peers m) = map ?g (map (connection \<circ> snd) (peers m))" by simp
  with wellFormed_distinct [OF w]
  have "distinct (map ?g (map (connection \<circ> snd) (peers m)))" by simp
  then show ?thesis by (metis distinct_map)
qed

lemma setLocalStream_carried:
  assumes w: "wellFormed m" and p: "map_of (peers m) pid = Some p"
  shows "fst (setLocalStream s m) = None"
    and "filter (carries k) (senders (conns (snd (setLocalStream s m)) (connection p)))
       = (if ofKind k s = [] then filter (carries k) (senders (conns m (connection p)))
          else [\<lparr>strack = Some (last (ofKind k s))\<rparr>])"
proof -
  let ?m0 = "m\<lparr>localStream := Some s\<rparr>"
  have 1: "\<forall>q\<in>set (map snd (peers m)).
      signalingState (conns ?m0 (connection q)) \<noteq> SigClosed"
  proof
    fix q assume "q \<in> set (map snd (peers m))"
    then obtain k where "(k, q) \<in> set (peers m)" by auto
    with wellFormed_distinct [OF w] have "map_of (peers m) k = Some q" by simp
    from wellFormed_peer [OF w this]
    show "signalingState (conns ?m0 (connection q)) \<noteq> SigClosed" by simp
  qed
  from wellFormed_connections [OF w]
  have 2: "distinct (map connection (map snd (peers m)))" by simp
  note sp = syncPeers_open [OF 1 2, of s]
  from sp show "fst (setLocalStream s m) = None" by (simp add: setLocalStream_def)
  from map_of_SomeD [OF p] have "connection p \<in> connection ` set (map snd (peers m))"
    by force
  with sp have "conns (snd (setLocalStream s m)) (connection p)
      = snd (syncTracks s (conns m (connection p)))"
    by (simp add: setLocalStream_def)
  with syncTracks_carried [OF _ wellFormed_outbound [OF w], of "connection p" k s]
    wellFormed_peer [OF w p]
  show "filter (carries k) (senders (conns (snd (setLocalStream s m)) (connection p)))
       = (if ofKind k s = [] then filter (carries k) (senders (conns m (connection p)))
          else [\<lparr>strack = Some (last (ofKind k s))\<rparr>])"
    by simp
qed

text \<open>
  Claim C9. For every supplied track \<^verbatim>\<open>setLocalStream\<close> looks, on each peer's connection,
  for the first sender that carries a track of the same kind. If there is one, that
  sender carries the supplied track afterwards and the sender list is otherwise the
  same; if there is none, a sender carrying the supplied track is appended. (On a closed
  connection nothing is replaced and adding raises.) The stream becomes the local
  stream. For every peer of a well formed manager, and so of every manager that is
  reached, the call raises nothing, and afterwards the peer's connection sends, of each
  kind that the stream supplies, exactly one track, the last supplied track of that
  kind, and of every other kind what it sent before. A connection that has at most one
  outbound track of a kind keeps at most one through any two calls of \<^verbatim>\<open>setLocalStream\<close>
  in succession, and in no state that a manager reaches does a connection have two
  outbound tracks of one kind.
\<close>

theorem setLocalStream_one_track_per_kind:
  "(signalingState c \<noteq> SigClosed \<and> findSender (kind t) (senders c) = Some i \<longrightarrow>
        i < length (senders c) \<and> carries (kind t) (senders c ! i)
        \<and> (\<forall>j<i. \<not> carries (kind t) (senders c ! j))
        \<and> syncTrack t c = Inr (c\<lparr>senders := (senders c)[i := \<lparr>strack = Some t\<rparr>]\<rparr>))
   \<and> (signalingState c \<noteq> SigClosed \<and> findSender (kind t) (senders c) = None \<longrightarrow>
        filter (carries (kind t)) (senders c) = []
        \<and> syncTrack t c = Inr (c\<lparr>senders := senders c @ [\<lparr>strack = Some t\<rparr>]\<rparr>))
   \<and> (signalingState c = SigClosed \<longrightarrow>
        syncTrack t c = (if findSender (kind t) (senders c) = None
                         then Inl InvalidStateError else Inr c))
   \<and> localStream (snd (setLocalStream s m)) = Some s
   \<and> peers (snd (setLocalStream s m)) = peers m
   \<and> ((\<forall>p\<in>snd ` set (peers m). signalingState (conns m (connection p)) \<noteq> SigClosed)
        \<and> distinct (map (connection \<circ> snd) (peers m)) \<longrightarrow>
        fst (setLocalStream s m) = None
        \<and> (\<forall>p\<in>snd ` set (peers m).
              conns (snd (setLocalStream s m)) (connection p)
                = snd (syncTracks s (conns m (connection p)))))
   \<and> (wellFormed m \<and> map_of (peers m) pid = Some p \<longrightarrow>
        fst (setLocalStream s m) = None
        \<and> filter (carries k) (senders (conns (snd (setLocalStream s m)) (connection p)))
            = (if ofKind k s = [] then filter (carries k) (senders (conns m (connection p)))
               else [\<lparr>strack = Some (last (ofKind k s))\<rparr>]))
   \<and> wellFormed (run e (constructor u r) ins)
   \<and> (outbound k (conns m cid) \<le> 1 \<longrightarrow>
        outbound k (conns (snd (setLocalStream s m)) cid) \<le> 1
        \<and> outbound k (conns (snd (setLocalStream s' (snd (setLocalStream s m)))) cid) \<le> 1)
   \<and> outbound k (conns (run e (constructor u r) ins) cid) \<le> 1"
proof -
  have w: "wellFormed (run e (constructor u r) ins)"
    by (rule wellFormed_run [OF wellFormed_constructor])
  have d: "outbound k (conns (run e (constructor u r) ins) cid) \<le> 1"
    by (rule wellFormed_outbound [OF w])
  have a: "(\<forall>p\<in>snd ` set (peers m). signalingState (conns m (connection p)) \<noteq> SigClosed)
        \<and> distinct (map (connection \<circ> snd) (peers m)) \<longrightarrow>
        fst (setLocalStream s m) = None
        \<and> (\<forall>p\<in>snd ` set (peers m).
              conns (snd (setLocalStream s m)) (connection p)
                = snd (syncTracks s (conns m (connection p))))"
  proof
    assume h: "(\<forall>p\<in>snd ` set (peers m). signalingState (conns m (connection p)) \<noteq> SigClosed)
        \<and> distinct (map (connection \<circ> snd) (peers m))"
    let ?m0 = "m\<lparr>localStream := Some s\<rparr>"
    from h have 1: "\<forall>p\<in>set (map snd (peers m)).
        signalingState (conns ?m0 (connection p)) \<noteq> SigClosed" by simp
    from h have 2: "distinct (map connection (map snd (peers m)))" by simp
    from syncPeers_open [OF 1 2, of s]
    show "fst (setLocalStream s m) = None
        \<and> (\<forall>p\<in>snd ` set (peers m).
              conns (snd (setLocalStream s m)) (connection p)
                = snd (syncTracks s (conns m (connection p))))"
      by (auto simp: setLocalStream_def)
  qed
  have b: "outbound k (conns m cid) \<le> 1 \<longrightarrow>
        outbound k (conns (snd (setLocalStream s m)) cid) \<le> 1
        \<and> outbound k (conns (snd (setLocalStream s' (snd (setLocalStream s m)))) cid) \<le> 1"
  proof
    assume h: "outbound k (conns m cid) \<le> 1"
    have one: "\<And>m s. outbound k (conns m cid) \<le> 1 \<Longrightarrow>
        outbound k (conns (snd (setLocalStream s m)) cid) \<le> 1"
      using syncPeers_outbound by (simp add: setLocalStream_def)
    from one [OF h] one [OF one [OF h]]
    show "outbound k (conns (snd (setLocalStream s m)) cid) \<le> 1
        \<and> outbound k (conns (snd (setLocalStream s' (snd (setLocalStream s m)))) cid) \<le> 1"
      by simp
  qed
  have c: "localStream (snd (setLocalStream s m)) = Some s
      \<and> peers (snd (setLocalStream s m)) = peers m"
    by (simp add: setLocalStream_def)
  have t1: "signalingState c \<noteq> SigClosed \<and> findSender (kind t) (senders c) = Some i \<longrightarrow>
        i < length (senders c) \<and> carries (kind t) (senders c ! i)
        \<and> (\<forall>j<i. \<not> carries (kind t) (senders c ! j))
        \<and> syncTrack t c = Inr (c\<lparr>senders := (senders c)[i := \<lparr>strack = Some t\<rparr>]\<rparr>)"
    using findSender_Some [of "kind t" "senders c" i]
      findSender_first [of "kind t" "senders c" i] syncTrack_senders(1) [of c t i]
    by blast
  have t2: "signalingState c \<noteq> SigClosed \<and> findSender (kind t) (senders c) = None \<longrightarrow>
        filter (carries (kind t)) (senders c) = []
        \<and> syncTrack t c = Inr (c\<lparr>senders := senders c @ [\<lparr>strack = Some t\<rparr>]\<rparr>)"
    using syncTrack_senders(2) [of c t] by (simp add: findSender_None)
  have t3: "signalingState c = SigClosed \<longrightarrow>
        syncTrack t c = (if findSender (kind t) (senders c) = None
                         then Inl InvalidStateError else Inr c)"
    by (auto simp: syncTrack_def replaceTrack_def addTrack_def)
  have f: "wellFormed m \<and> map_of (peers m) pid = Some p \<longrightarrow>
        fst (setLocalStream s m) = None
        \<and> filter (carries k) (senders (conns (snd (setLocalStream s m)) (connection p)))
            = (if ofKind k s = [] then filter (carries k) (senders (conns m (connection p)))
               else [\<lparr>strack = Some (last (ofKind k s))\<rparr>])"
    using setLocalStream_carried by blast
  from t1 t2 t3 a b c d f w show ?thesis by blast
qed

theorem setLocalStream_one_track_per_kind_witness:
  "wellFormed callingManager
   \<and> map_of (peers callingManager) ''B'' = Some initiatorPeer
   \<and> senders (conns callingManager 0) = [\<lparr>strack = Some camTrack\<rparr>]
   \<and> findSender (kind camTrack2) (senders (conns callingManager 0)) = Some 0
   \<and> syncTrack camTrack2 (conns callingManager 0)
       = Inr ((conns callingManager 0)\<lparr>senders := [\<lparr>strack = Some camTrack2\<rparr>]\<rparr>)
   \<and> findSender (kind micTrack) (senders (conns callingManager 0)) = None
   \<and> syncTrack micTrack (conns callingManager 0)
       = Inr ((conns callingManager 0)
                \<lparr>senders := [\<lparr>strack = Some camTrack\<rparr>, \<lparr>strack = Some micTrack\<rparr>]\<rparr>)
   \<and> fst (setLocalStream [camTrack2, micTrack] callingManager) = None
   \<and> filter (carries Video)
        (senders (conns (snd (setLocalStream [camTrack2, micTrack] callingManager)) 0))
       = [\<lparr>strack = Some camTrack2\<rparr>]
   \<and> filter (carries Audio)
        (senders (conns (snd (setLocalStream [camTrack2, micTrack] callingManager)) 0))
       = [\<lparr>strack = Some micTrack\<rparr>]
   \<and> senders (conns (snd (setLocalStream [camTrack2, micTrack] callingManager)) 0)
       = [\<lparr>strack = Some camTrack2\<rparr>, \<lparr>strack = Some micTrack\<rparr>]
   \<and> senders (conns (snd (setLocalStream [camTrack, camTrack2]
                 (snd (setLocalStream [camTrack2, micTrack] callingManager)))) 0)
       = [\<lparr>strack = Some camTrack2\<rparr>, \<lparr>strack = Some micTrack\<rparr>]
   \<and> outbound Video
        (conns (snd (setLocalStream [camTrack2, micTrack]
                  (snd (setLocalStream [camTrack2, micTrack] callingManager)))) 0) \<le> 1"
proof -
  have "wellFormed cameraManager = wellFormed (constructor ''A'' ''room'')"
    unfolding cameraManager_def by (rule wellFormed_cong) simp_all
  then have w: "wellFormed callingManager"
    unfolding callingManager_def by (simp add: wellFormed_createPeer wellFormed_constructor)
  have p: "map_of (peers callingManager) ''B'' = Some initiatorPeer"
    by (simp add: calling_state)
  have ss: "senders (conns callingManager 0) = [\<lparr>strack = Some camTrack\<rparr>]"
    by (simp add: calling_connection)
  have op: "signalingState (conns callingManager 0) \<noteq> SigClosed"
    by (simp add: calling_connection)
  have f: "findSender (kind camTrack2) (senders (conns callingManager 0)) = Some 0"
    by (simp add: calling_connection camTrack2_def camTrack_def)
  have g: "findSender (kind micTrack) (senders (conns callingManager 0)) = None"
    by (simp add: calling_connection micTrack_def camTrack_def)
  have o: "outbound Video (conns callingManager 0) \<le> 1"
    by (simp add: outbound_def calling_connection)
  have k: "ofKind Video [camTrack2, micTrack] = [camTrack2]"
    "ofKind Audio [camTrack2, micTrack] = [micTrack]"
    by (simp_all add: ofKind_def camTrack2_def micTrack_def)
  have c: "connection initiatorPeer = 0" by (simp add: initiatorPeer_def)
  have all: "senders (conns (snd (setLocalStream [camTrack2, micTrack] callingManager)) 0)
       = [\<lparr>strack = Some camTrack2\<rparr>, \<lparr>strack = Some micTrack\<rparr>]"
    "senders (conns (snd (setLocalStream [camTrack, camTrack2]
                 (snd (setLocalStream [camTrack2, micTrack] callingManager)))) 0)
       = [\<lparr>strack = Some camTrack2\<rparr>, \<lparr>strack = Some micTrack\<rparr>]"
    by (simp_all add: setLocalStream_def calling_state calling_connection initiatorPeer_def
        syncTrack_def replaceTrack_def addTrack_def setConn_def camTrack_def camTrack2_def
        micTrack_def)
  note v = setLocalStream_one_track_per_kind
    [of "conns callingManager 0" camTrack2 0 "[camTrack2, micTrack]" callingManager
      "''B''" initiatorPeer Video e u r ins 0 "[camTrack2, micTrack]"]
  note a = setLocalStream_one_track_per_kind
    [of "conns callingManager 0" micTrack 0 "[camTrack2, micTrack]" callingManager
      "''B''" initiatorPeer Audio e u r ins 0 "[camTrack2, micTrack]"]
  from v op f have "syncTrack camTrack2 (conns callingManager 0)
      = Inr ((conns callingManager 0)
          \<lparr>senders := (senders (conns callingManager 0))[0 := \<lparr>strack = Some camTrack2\<rparr>]\<rparr>)"
    by blast
  with ss have s1: "syncTrack camTrack2 (conns callingManager 0)
       = Inr ((conns callingManager 0)\<lparr>senders := [\<lparr>strack = Some camTrack2\<rparr>]\<rparr>)"
    by simp
  from a op g have "syncTrack micTrack (conns callingManager 0)
      = Inr ((conns callingManager 0)
          \<lparr>senders := senders (conns callingManager 0) @ [\<lparr>strack = Some micTrack\<rparr>]\<rparr>)"
    by blast
  with ss have s2: "syncTrack micTrack (conns callingManager 0)
       = Inr ((conns callingManager 0)
                \<lparr>senders := [\<lparr>strack = Some camTrack\<rparr>, \<lparr>strack = Some micTrack\<rparr>]\<rparr>)"
    by simp
  from v w p have "fst (setLocalStream [camTrack2, micTrack] callingManager) = None
      \<and> filter (carries Video)
          (senders (conns (snd (setLocalStream [camTrack2, micTrack] callingManager))
             (connection initiatorPeer)))
        = (if ofKind Video [camTrack2, micTrack] = []
           then filter (carries Video) (senders (conns callingManager (connection initiatorPeer)))
           else [\<lparr>strack = Some (last (ofKind Video [camTrack2, micTrack]))\<rparr>])"
    by blast
  with k c have s3: "fst (setLocalStream [camTrack2, micTrack] callingManager) = None
      \<and> filter (carries Video)
          (senders (conns (snd (setLocalStream [camTrack2, micTrack] callingManager)) 0))
        = [\<lparr>strack = Some camTrack2\<rparr>]"
    by simp
  from a w p have "filter (carries Audio)
          (senders (conns (snd (setLocalStream [camTrack2, micTrack] callingManager))
             (connection initiatorPeer)))
        = (if ofKind Audio [camTrack2, micTrack] = []
           then filter (carries Audio) (senders (conns callingManager (connection initiatorPeer)))
           else [\<lparr>strack = Some (last (ofKind Audio [camTrack2, micTrack]))\<rparr>])"
    by blast
  with k c have s4: "filter (carries Audio)
          (senders (conns (snd (setLocalStream [camTrack2, micTrack] callingManager)) 0))
        = [\<lparr>strack = Some micTrack\<rparr>]"
    by simp
  from v o have s5: "outbound Video
        (conns (snd (setLocalStream [camTrack2, micTrack]
                  (snd (setLocalStream [camTrack2, micTrack] callingManager)))) 0) \<le> 1"
    by blast
  from w p ss f g s1 s2 s3 s4 s5 all show ?thesis by blast
qed

end
